theory Spec2Isabelle
  imports
    Complex_Main
    "HOL-Library.Multiset"
    "HOL-Library.Char_ord"
    "HOL-Library.List_Lexorder"
    "HOL-Library.Product_Lexorder"
begin

section \<open>Python values: errors, units, quantities\<close>

text \<open>
  Every \<open>raise\<close> of the source is a value of \<open>py_error\<close>; a function that can
  raise returns \<open>py_error + 'a\<close> with \<open>Inl\<close> for the exception.
\<close>

datatype py_error =
    ValueError
  | KeyError
  | IndexError
  | AttributeError
  | AssertionError
  | FileNotFoundError
  | UnboundLocalError
  | TypeError
  | GMSOError
  | ExternalError

definition bind_r :: "py_error + 'a \<Rightarrow> ('a \<Rightarrow> py_error + 'b) \<Rightarrow> py_error + 'b" where
  "bind_r m f = (case m of Inl e \<Rightarrow> Inl e | Inr x \<Rightarrow> f x)"

text \<open>
  Units come from the external \<open>unyt\<close> library. A unit is modelled by its symbol and
  its scale, the factor to the SI unit of its dimension (\<open>base_value\<close> in \<open>unyt\<close>, where
  \<open>mol\<close> is the Avogadro number); Python floats are modelled by exact reals.
\<close>

datatype unyt_unit = Unit (symbol: string) (scale: real)

definition avogadro :: real where
  "avogadro = 602214076 * 10 ^ 15"

definition nm :: unyt_unit where
  "nm = Unit ''nm'' (1 / 10 ^ 9)"

definition angstrom :: unyt_unit where
  "angstrom = Unit ''angstrom'' (1 / 10 ^ 10)"

definition kJ :: unyt_unit where
  "kJ = Unit ''kJ'' 1000"

definition kcal_mol :: unyt_unit where
  "kcal_mol = Unit ''kcal/mol'' (4184 / avogadro)"

definition g_mol :: unyt_unit where
  "g_mol = Unit ''g/mol'' (1 / (1000 * avogadro))"

definition e_charge :: unyt_unit where
  "e_charge = Unit ''elementary_charge'' (1602176634 / 10 ^ 28)"

definition dimensionless :: unyt_unit where
  "dimensionless = Unit ''dimensionless'' 1"

definition radian :: unyt_unit where
  "radian = Unit ''rad'' 1"

definition degree :: unyt_unit where
  "degree = Unit ''degree'' (pi / 180)"

definition u_div :: "unyt_unit \<Rightarrow> unyt_unit \<Rightarrow> unyt_unit" where
  "u_div a b = Unit (symbol a @ ''/('' @ symbol b @ '')'') (scale a / scale b)"

definition u_sq :: "unyt_unit \<Rightarrow> unyt_unit" where
  "u_sq a = Unit (''('' @ symbol a @ '')**2'') (scale a * scale a)"

datatype quantity = Q (qvalue: real) (qunit: unyt_unit)

definition to_base :: "quantity \<Rightarrow> real" where
  "to_base q = qvalue q * scale (qunit q)"

text \<open>\<open>x * unit\<close>, \<open>q / unit\<close> and \<open>q * 2\<close> as the reader writes them.\<close>

definition q_of :: "real \<Rightarrow> unyt_unit \<Rightarrow> quantity" where
  "q_of x un = Q x un"

definition q_div_unit :: "quantity \<Rightarrow> unyt_unit \<Rightarrow> quantity" where
  "q_div_unit q un = Q (qvalue q) (u_div (qunit q) un)"

definition q_times :: "quantity \<Rightarrow> real \<Rightarrow> quantity" where
  "q_times q c = Q (qvalue q * c) (qunit q)"

text \<open>
  \<open>allclose_units(actual, desired, rtol=1e-5, atol=1e-8)\<close> of \<open>unyt\<close>: \<open>desired\<close> is
  converted to the unit of \<open>actual\<close>, the absolute tolerance is taken in that unit, and
  the values are compared as \<open>np.allclose\<close> does it:
  \<open>|actual - desired| <= atol + rtol * |desired|\<close>.
\<close>

definition in_units :: "quantity \<Rightarrow> unyt_unit \<Rightarrow> real" where
  "in_units a un = to_base a / scale un"

definition allclose_units :: "quantity \<Rightarrow> quantity \<Rightarrow> bool" where
  "allclose_units actual desired \<longleftrightarrow>
     \<bar>qvalue actual - in_units desired (qunit actual)\<bar>
       \<le> 1 / 10 ^ 8 + (1 / 10 ^ 5) * \<bar>in_units desired (qunit actual)\<bar>"

text \<open>
  \<open>a == b\<close> on quantities of one dimension. Two units with the same factor are equal
  units, and the values are then compared as they are. Otherwise \<open>unyt\<close> multiplies the
  value of \<open>b\<close> by the conversion factor in floating point and compares the product with
  the value of \<open>a\<close>: the rounding of that product decides the outcome, so the converted
  value is the parameter \<open>conv\<close>.
\<close>

definition q_eq :: "(quantity \<Rightarrow> unyt_unit \<Rightarrow> real) \<Rightarrow> quantity \<Rightarrow> quantity \<Rightarrow> bool" where
  "q_eq conv a b \<longleftrightarrow>
     (if scale (qunit a) = scale (qunit b) then qvalue a = qvalue b
      else qvalue a = conv b (qunit a))"

text \<open>\<open>a > b\<close> on quantities compares after unit conversion.\<close>

definition q_gt :: "quantity \<Rightarrow> quantity \<Rightarrow> bool" where
  "q_gt a b \<longleftrightarrow> to_base a > to_base b"

text \<open>
  Rounding to \<open>n\<close> decimals as \<open>round(x, n)\<close> and the \<open>.6f\<close> format do it (ties to
  even), and to eight significant digits as the \<open>.8\<close> format does it.
\<close>

definition round_half_even :: "real \<Rightarrow> int" where
  "round_half_even x =
     (let f = \<lfloor>x\<rfloor>; d = x - of_int f
      in if d < 1 / 2 then f else if d > 1 / 2 then f + 1 else if even f then f else f + 1)"

definition py_round :: "nat \<Rightarrow> real \<Rightarrow> real" where
  "py_round n x = of_int (round_half_even (x * 10 ^ n)) / 10 ^ n"

definition fmt_g8 :: "real \<Rightarrow> real" where
  "fmt_g8 x =
     (if x = 0 then 0
      else let e = \<lfloor>log 10 \<bar>x\<bar>\<rfloor>
           in of_int (round_half_even (x * 10 powr (7 - of_int e))) * 10 powr (of_int e - 7))"

section \<open>The unit system handle and \<open>get_units\<close>\<close>

text \<open>
  \<open>base_unyts\<close> is the \<open>LAMMPS_UnitSystems\<close> object of \<open>gmso.utils.units\<close>; the
  code reads its \<open>usystem.name\<close> and indexes \<open>usystem[dimension]\<close>. The per-style
  table of base units lives in that module, so here it is a field of the handle.
\<close>

type_synonym cfactors = "(string \<times> quantity) list option"

record base_unyts =
  usystem_name :: string
  usystem :: "string \<rightharpoonup> unyt_unit"
  convert_parameter :: "quantity \<Rightarrow> cfactors \<Rightarrow> nat \<Rightarrow> string \<Rightarrow> py_error + real"

text \<open>
  \<open>convert_parameter(parameter, conversion_factorDict, n_decimals, name)\<close> is a method of
  the handle: the quantity in the style's base unit, in reduced units divided by the
  reference factors, rounded to \<open>n_decimals\<close>. Calls that pass no \<open>n_decimals\<close> get
  the default, and calls that pass no \<open>name\<close> get the empty string.
\<close>

definition default_n_decimals :: nat where
  "default_n_decimals = 6"

definition supported_unit_styles :: "string list" where
  "supported_unit_styles =
     [''real'', ''lj'', ''metal'', ''si'', ''cgs'', ''electron'', ''micro'', ''nano'']"

definition get_units :: "base_unyts \<Rightarrow> string \<Rightarrow> py_error + unyt_unit" where
  "get_units b dimension =
     (if usystem_name b = ''lj'' then
        (if dimension = ''angle'' then Inr radian else Inr dimensionless)
      else if dimension = ''angle_eq'' then Inr degree
      else (case usystem b dimension of None \<Rightarrow> Inl KeyError | Some un \<Rightarrow> Inr un))"

section \<open>Data model\<close>

text \<open>
  \<open>AtomType\<close> of \<open>gmso/core/atom_type.py\<close>: the potential's name, expression,
  independent variables and parameters (a dict, kept in insertion order), and the
  attributes the class adds.
\<close>

record atom_type =
  at_name :: string
  at_expression :: string
  at_independent_variables :: "string set"
  at_parameters :: "(string \<times> quantity) list"
  at_mass :: quantity
  at_charge :: quantity
  at_atomclass :: string
  at_doi :: string
  at_overrides :: "string set"
  at_definition :: string
  at_description :: string

text \<open>
  \<open>unyt_compare\<close> of \<open>gmso.utils.misc\<close>: the two value sequences are zipped and every
  pair must be close after unit conversion.
\<close>

definition unyt_compare :: "quantity list \<Rightarrow> quantity list \<Rightarrow> bool" where
  "unyt_compare units1 units2 \<longleftrightarrow> list_all (\<lambda>(a, b). allclose_units a b) (zip units1 units2)"

text \<open>
  \<open>AtomType.__eq__\<close> (gmso): the conjunction in the order of the source. The
  \<open>other is self\<close> shortcut needs no case of its own, every conjunct being reflexive.
  The key views of two dicts compare as sets; the values are paired in the insertion
  order of the two dicts.
\<close>

definition AtomType_eq ::
  "(quantity \<Rightarrow> unyt_unit \<Rightarrow> real) \<Rightarrow> atom_type \<Rightarrow> atom_type \<Rightarrow> bool" where
  "AtomType_eq conv self other \<longleftrightarrow>
     at_name self = at_name other
     \<and> at_expression self = at_expression other
     \<and> at_independent_variables self = at_independent_variables other
     \<and> set (map fst (at_parameters self)) = set (map fst (at_parameters other))
     \<and> unyt_compare (map snd (at_parameters self)) (map snd (at_parameters other))
     \<and> q_eq conv (at_charge self) (at_charge other)
     \<and> at_atomclass self = at_atomclass other
     \<and> q_eq conv (at_mass self) (at_mass other)
     \<and> at_doi self = at_doi other
     \<and> at_overrides self = at_overrides other
     \<and> at_definition self = at_definition other
     \<and> at_description self = at_description other"

text \<open>
  \<open>AtomType\<close> of \<open>topology/core/atom_type.py\<close>: equality is equality of hashes, the
  hash taken of a tuple of the fields. Python's \<open>hash\<close> on that tuple is the parameter
  \<open>h\<close>, and \<open>unyt_to_hashable\<close> of \<open>topology.utils.misc\<close> is the parameter \<open>uh\<close>.
\<close>

record topology_atom_type =
  ta_name :: string
  ta_mass :: quantity
  ta_charge :: quantity
  ta_expression :: string
  ta_independent_variables :: "string list"
  ta_parameters :: "(string \<times> quantity) list"

type_synonym 'u hash_key =
  "string \<times> 'u \<times> 'u \<times> string \<times> string list \<times> string list \<times> 'u list"

definition topology_hash_key :: "(quantity \<Rightarrow> 'u) \<Rightarrow> topology_atom_type \<Rightarrow> 'u hash_key" where
  "topology_hash_key uh a =
     (ta_name a, uh (ta_mass a), uh (ta_charge a), ta_expression a,
      ta_independent_variables a, map fst (ta_parameters a),
      map (\<lambda>kv. uh (snd kv)) (ta_parameters a))"

definition topology_AtomType_eq ::
  "('u hash_key \<Rightarrow> int) \<Rightarrow> (quantity \<Rightarrow> 'u) \<Rightarrow> topology_atom_type \<Rightarrow> topology_atom_type \<Rightarrow> bool" where
  "topology_AtomType_eq h uh self other \<longleftrightarrow>
     h (topology_hash_key uh self) = h (topology_hash_key uh other)"

text \<open>
  Connection types (\<open>BondType\<close>, \<open>AngleType\<close>, \<open>DihedralType\<close>, \<open>ImproperType\<close>) as
  the codec uses them: name, expression, independent variables, parameters and the
  \<open>member_types\<close> annotation.
\<close>

record conn_type =
  ct_name :: string
  ct_expression :: string
  ct_independent_variables :: "string set"
  ct_parameters :: "(string \<times> quantity) list"
  ct_member_types :: "string list option"

text \<open>An entry of the \<open>PotentialTemplateLibrary\<close>.\<close>

record template =
  t_name :: string
  t_expression :: string
  t_independent_variables :: "string set"

text \<open>
  A site is an object: \<open>s_id\<close> is its identity, which is what \<open>top.sites.index(x)\<close>
  and the distinctness check of a connection compare. \<open>s_molecule\<close> is the
  \<open>MoleculeType(name, number)\<close> pair.
\<close>

record site =
  s_id :: nat
  s_name :: string
  s_position :: "quantity \<times> quantity \<times> quantity"
  s_charge :: "quantity option"
  s_atom_type :: "atom_type option"
  s_molecule :: "(string \<times> int) option"

text \<open>A connection holds references to its member sites and its type.\<close>

record connection =
  c_members :: "nat list"
  c_type :: "conn_type option"

section \<open>The text of a data file\<close>

text \<open>
  A file is its list of lines, and a line is what \<open>line.split()\<close> returns: its
  whitespace-separated fields. A field is an integer literal, a decimal literal (with
  the value it denotes) or any other word.
\<close>

datatype tok = TInt int | TNum real | TStr string

type_synonym line = "tok list"

definition py_float :: "tok \<Rightarrow> py_error + real" where
  "py_float t = (case t of TInt n \<Rightarrow> Inr (of_int n) | TNum x \<Rightarrow> Inr x | TStr s \<Rightarrow> Inl ValueError)"

definition py_int :: "tok \<Rightarrow> py_error + int" where
  "py_int t = (case t of TInt n \<Rightarrow> Inr n | TNum x \<Rightarrow> Inl ValueError | TStr s \<Rightarrow> Inl ValueError)"

text \<open>\<open>xs[i]\<close> for a constant index \<open>i \<ge> 0\<close>.\<close>

definition tok_at :: "line \<Rightarrow> nat \<Rightarrow> py_error + tok" where
  "tok_at l i = (if i < length l then Inr (l ! i) else Inl IndexError)"

definition float_at :: "line \<Rightarrow> nat \<Rightarrow> py_error + real" where
  "float_at l i = bind_r (tok_at l i) py_float"

definition int_at :: "line \<Rightarrow> nat \<Rightarrow> py_error + int" where
  "int_at l i = bind_r (tok_at l i) py_int"

text \<open>\<open>xs[i]\<close> for a computed index: a negative one counts from the end.\<close>

definition py_index :: "'a list \<Rightarrow> int \<Rightarrow> py_error + 'a" where
  "py_index xs i =
     (if 0 \<le> i \<and> i < int (length xs) then Inr (xs ! nat i)
      else if i < 0 \<and> - i \<le> int (length xs) then Inr (xs ! nat (int (length xs) + i))
      else Inl IndexError)"

text \<open>\<open>xs[a:b]\<close> with \<open>a \<ge> 0\<close>; a negative \<open>b\<close> counts from the end.\<close>

definition py_slice :: "'a list \<Rightarrow> nat \<Rightarrow> int \<Rightarrow> 'a list" where
  "py_slice xs a b =
     (let n = int (length xs);
          e = (if b < 0 then max 0 (n + b) else min b n)
      in take (nat e - a) (drop a xs))"

text \<open>\<open>kw in line\<close> for a keyword without blanks: it lies inside one field.\<close>

fun contains :: "string \<Rightarrow> string \<Rightarrow> bool" where
  "contains kw [] = (kw = [])"
| "contains kw (c # cs) = (take (length kw) (c # cs) = kw \<or> contains kw cs)"

definition in_line :: "string \<Rightarrow> line \<Rightarrow> bool" where
  "in_line kw l = list_ex (\<lambda>t. case t of TStr s \<Rightarrow> contains kw s | _ \<Rightarrow> False) l"

text \<open>
  The four connection kinds, with the strings the code builds from
  \<open>connection_type\<close>: the name, \<open>capitalize()\<close> of it, and both with \<open>"s"\<close> appended.
\<close>

datatype conn_kind = Bond | Angle | Dihedral | Improper

fun kind_str :: "conn_kind \<Rightarrow> string" where
  "kind_str Bond = ''bond''"
| "kind_str Angle = ''angle''"
| "kind_str Dihedral = ''dihedral''"
| "kind_str Improper = ''improper''"

fun kind_cap :: "conn_kind \<Rightarrow> string" where
  "kind_cap Bond = ''Bond''"
| "kind_cap Angle = ''Angle''"
| "kind_cap Dihedral = ''Dihedral''"
| "kind_cap Improper = ''Improper''"

definition kind_strs :: "conn_kind \<Rightarrow> string" where
  "kind_strs k = kind_str k @ ''s''"

definition kind_caps :: "conn_kind \<Rightarrow> string" where
  "kind_caps k = kind_cap k @ ''s''"

section \<open>The topology as the codec sees it\<close>

text \<open>
  The \<open>Topology\<close> and \<open>Box\<close> classes belong to the wider API. The codec reads the
  topology's name, its site and connection lists and its box.
\<close>

type_synonym vec3 = "real \<times> real \<times> real"

record box =
  b_lengths :: "quantity \<times> quantity \<times> quantity"
  b_angles :: "quantity \<times> quantity \<times> quantity"

record topology =
  top_name :: "string list option"
  sites :: "site list"
  bonds :: "connection list"
  angles :: "connection list"
  dihedrals :: "connection list"
  impropers :: "connection list"
  top_box :: "box option"

text \<open>
  The collaborators outside the codec: the environment variable and the clock that
  the title line prints, the constructor \<open>LAMMPS_UnitSystems\<close>,
  \<open>check_compatibility\<close>, \<open>Topology.convert_potential_styles\<close>, \<open>sort_by_types\<close>,
  \<open>Box.get_unit_vectors\<close>, and the type views of the topology: \<open>top.atom_types\<close>,
  \<open>top.bond_types\<close>, ... (\<open>e_atom_types\<close>, \<open>e_types\<close>) and the same views called with
  \<open>filter_by=PotentialFilters.UNIQUE_SORTED_NAMES\<close> (\<open>e_atom_types_uniq\<close>,
  \<open>e_types_uniq\<close>); the floating-point unit conversion of \<open>unyt\<close> that \<open>==\<close> on
  quantities uses (\<open>e_in_units\<close>); for the reader the \<open>PotentialTemplateLibrary\<close>,
  \<open>element_by_mass\<close> and the spelling of a decimal field.
\<close>

record ext =
  e_user :: "string list"
  e_now :: "string list"
  e_unit_system :: "string \<Rightarrow> base_unyts"
  e_check_compatibility :: "topology \<Rightarrow> py_error option"
  e_convert_potential_styles :: "topology \<Rightarrow> string \<Rightarrow> string \<Rightarrow> py_error + topology"
  e_sort_by_types :: "conn_type \<Rightarrow> py_error + string list"
  e_get_unit_vectors :: "box \<Rightarrow> vec3 \<times> vec3 \<times> vec3"
  e_atom_types :: "topology \<Rightarrow> atom_type list"
  e_atom_types_uniq :: "topology \<Rightarrow> atom_type list"
  e_types :: "conn_kind \<Rightarrow> topology \<Rightarrow> conn_type list"
  e_types_uniq :: "conn_kind \<Rightarrow> topology \<Rightarrow> conn_type list"
  e_in_units :: "quantity \<Rightarrow> unyt_unit \<Rightarrow> real"
  e_templates :: "string \<Rightarrow> template"
  e_element_by_mass :: "real \<Rightarrow> string option"
  e_float_text :: "real \<Rightarrow> string"

definition conns :: "conn_kind \<Rightarrow> topology \<Rightarrow> connection list" where
  "conns k topo = (case k of Bond \<Rightarrow> bonds topo | Angle \<Rightarrow> angles topo
                  | Dihedral \<Rightarrow> dihedrals topo | Improper \<Rightarrow> impropers topo)"

text \<open>\<open>topology.add_connection\<close>: the connection joins the list of its kind.\<close>

definition add_connection :: "conn_kind \<Rightarrow> connection \<Rightarrow> topology \<Rightarrow> topology" where
  "add_connection k c topo =
     (case k of
        Bond \<Rightarrow> topo\<lparr>bonds := bonds topo @ [c]\<rparr>
      | Angle \<Rightarrow> topo\<lparr>angles := angles topo @ [c]\<rparr>
      | Dihedral \<Rightarrow> topo\<lparr>dihedrals := dihedrals topo @ [c]\<rparr>
      | Improper \<Rightarrow> topo\<lparr>impropers := impropers topo @ [c]\<rparr>)"

section \<open>Reader: connection types and connections\<close>

fun mapM_r :: "('a \<Rightarrow> py_error + 'b) \<Rightarrow> 'a list \<Rightarrow> py_error + 'b list" where
  "mapM_r f [] = Inr []"
| "mapM_r f (x # xs) =
     (case f x of Inl e \<Rightarrow> Inl e
      | Inr y \<Rightarrow> (case mapM_r f xs of Inl e \<Rightarrow> Inl e | Inr ys \<Rightarrow> Inr (y # ys)))"

text \<open>
  The scanning loops of the reader:
  \<^verbatim>\<open>for i, line in enumerate(lammps_file):
      if kw in line.split(): n = int(line.split()[0])
      if cap in line.split(): break\<close>
  The result is the index \<open>i\<close> the loop stops at (the last line when nothing breaks
  it) and \<open>n\<close>, if it was ever set.
\<close>

fun scan_section ::
  "string \<Rightarrow> string \<Rightarrow> line list \<Rightarrow> nat \<Rightarrow> int option \<Rightarrow> py_error + (nat \<times> int option)" where
  "scan_section kw cap [] i n = Inr (i, n)"
| "scan_section kw cap (l # ls) i n =
     (case (if TStr kw \<in> set l then (case int_at l 0 of Inl e \<Rightarrow> Inl e | Inr v \<Rightarrow> Inr (Some v))
            else Inr n) of
        Inl e \<Rightarrow> Inl e
      | Inr n' \<Rightarrow>
          if TStr cap \<in> set l \<or> ls = [] then Inr (i, n')
          else scan_section kw cap ls (Suc i) n')"

definition mk_conn_type :: "template \<Rightarrow> (string \<times> quantity) list \<Rightarrow> conn_type" where
  "mk_conn_type tp conn_params =
     \<lparr>ct_name = t_name tp, ct_expression = t_expression tp,
      ct_independent_variables = t_independent_variables tp,
      ct_parameters = conn_params, ct_member_types = None\<rparr>"

text \<open>One row of a coefficient table, per connection kind (lines 316 to 392).\<close>

fun conn_type_of_line ::
  "(string \<Rightarrow> template) \<Rightarrow> base_unyts \<Rightarrow> conn_kind \<Rightarrow> line \<Rightarrow> py_error + conn_type" where
  "conn_type_of_line templates b Bond l =
     bind_r (float_at l 1) (\<lambda>x1.
     bind_r (get_units b ''energy'') (\<lambda>ue.
     bind_r (get_units b ''length'') (\<lambda>ul.
     bind_r (float_at l 2) (\<lambda>x2.
     bind_r (get_units b ''length'') (\<lambda>ul2.
       Inr (mk_conn_type (templates ''LAMMPSHarmonicBondPotential'')
              [(''k'', q_times (q_div_unit (q_of x1 ue) (u_sq ul)) 2),
               (''r_eq'', q_of x2 ul2)]))))))"
| "conn_type_of_line templates b Angle l =
     bind_r (float_at l 1) (\<lambda>x1.
     bind_r (get_units b ''energy'') (\<lambda>ue.
     bind_r (get_units b ''angle'') (\<lambda>ua.
     bind_r (float_at l 2) (\<lambda>x2.
     bind_r (get_units b ''angle_eq'') (\<lambda>uq.
       Inr (mk_conn_type (templates ''LAMMPSHarmonicAnglePotential'')
              [(''k'', q_times (q_div_unit (q_of x1 ue) (u_sq ua)) 2),
               (''theta_eq'', q_of x2 uq)]))))))"
| "conn_type_of_line templates b Dihedral l =
     bind_r (float_at l 1) (\<lambda>x1.
     bind_r (get_units b ''energy'') (\<lambda>u1.
     bind_r (float_at l 2) (\<lambda>x2.
     bind_r (get_units b ''energy'') (\<lambda>u2.
     bind_r (float_at l 3) (\<lambda>x3.
     bind_r (get_units b ''energy'') (\<lambda>u3.
     bind_r (float_at l 4) (\<lambda>x4.
     bind_r (get_units b ''energy'') (\<lambda>u4.
       Inr (mk_conn_type (templates ''OPLSTorsionPotential'')
              [(''k1'', q_of x1 u1), (''k2'', q_of x2 u2),
               (''k3'', q_of x3 u3), (''k4'', q_of x4 u4)])))))))))"
| "conn_type_of_line templates b Improper l =
     bind_r (float_at l 2) (\<lambda>x1.
     bind_r (get_units b ''energy'') (\<lambda>ue.
     bind_r (get_units b ''energy'') (\<lambda>ue2.
     bind_r (float_at l 3) (\<lambda>x2.
     bind_r (get_units b ''angle_eq'') (\<lambda>uq.
       Inr (mk_conn_type (templates ''HarmonicImproperPotential'')
              [(''k'', q_times (q_div_unit (q_of x1 ue) (u_sq ue2)) 2),
               (''phi_eq'', q_of x2 uq)]))))))"

text \<open>
  First half of \<open>_get_connection\<close> (lines 301 to 394): \<open>None\<close> when no line holds the
  kind's name (\<open>types == False\<close>, the topology is returned as it is), otherwise the
  \<open>connection_type_list\<close>.
\<close>

definition get_connection_types ::
  "(string \<Rightarrow> template) \<Rightarrow> base_unyts \<Rightarrow> conn_kind \<Rightarrow> line list
     \<Rightarrow> py_error + conn_type list option" where
  "get_connection_types templates b k lines =
     (case scan_section (kind_str k) (kind_cap k) lines 0 None of
        Inl e \<Rightarrow> Inl e
      | Inr (i, None) \<Rightarrow> Inr None
      | Inr (i, Some n) \<Rightarrow>
          (case mapM_r (conn_type_of_line templates b k)
                  (py_slice lines (i + 2) (int i + n + 2)) of
             Inl e \<Rightarrow> Inl e
           | Inr cts \<Rightarrow> Inr (Some cts)))"

fun n_sites_of :: "conn_kind \<Rightarrow> nat" where
  "n_sites_of Bond = 2"
| "n_sites_of Angle = 3"
| "n_sites_of Dihedral = 4"
| "n_sites_of Improper = 4"

text \<open>
  One row of a connection table (lines 412 to 439): the member sites by their 1-based
  index, a copy of the type by its 1-based index, annotated with the member type names;
  the connection's validator refuses repeated members.
\<close>

definition connection_of_line ::
  "conn_kind \<Rightarrow> site list \<Rightarrow> conn_type list \<Rightarrow> line \<Rightarrow> py_error + connection" where
  "connection_of_line k ss connection_type_list l =
     bind_r (mapM_r (\<lambda>j. bind_r (int_at l (j + 2)) (\<lambda>v. py_index ss (v - 1)))
                [0 ..< n_sites_of k]) (\<lambda>site_list.
     bind_r (int_at l 1) (\<lambda>v.
     bind_r (py_index connection_type_list (v - 1)) (\<lambda>ctype.
     bind_r (mapM_r (\<lambda>x. case s_atom_type x of None \<Rightarrow> Inl AttributeError
                                | Some a \<Rightarrow> Inr (at_name a)) site_list) (\<lambda>names.
       if distinct (map s_id site_list)
       then Inr \<lparr>c_members = map s_id site_list,
                 c_type = Some (ctype\<lparr>ct_member_types := Some names\<rparr>)\<rparr>
       else Inl GMSOError))))"

fun add_connections ::
  "conn_kind \<Rightarrow> conn_type list \<Rightarrow> line list \<Rightarrow> topology \<Rightarrow> py_error + topology" where
  "add_connections k cts [] topo = Inr topo"
| "add_connections k cts (l # ls) topo =
     (case connection_of_line k (sites topo) cts l of
        Inl e \<Rightarrow> Inl e
      | Inr c \<Rightarrow> add_connections k cts ls (add_connection k c topo))"

definition get_connection ::
  "(string \<Rightarrow> template) \<Rightarrow> line list \<Rightarrow> topology \<Rightarrow> base_unyts \<Rightarrow> conn_kind
     \<Rightarrow> py_error + topology" where
  "get_connection templates lines topo b k =
     (case get_connection_types templates b k lines of
        Inl e \<Rightarrow> Inl e
      | Inr None \<Rightarrow> Inr topo
      | Inr (Some cts) \<Rightarrow>
          (case scan_section (kind_strs k) (kind_caps k) lines 0 None of
             Inl e \<Rightarrow> Inl e
           | Inr (i, None) \<Rightarrow> Inl UnboundLocalError
           | Inr (i, Some n) \<Rightarrow>
               add_connections k cts (py_slice lines (i + 2) (int i + n + 2)) topo))"

section \<open>Writer\<close>

text \<open>
  What a writing function has done when it returns or raises: the lines it has written
  so far, and the exception if it raised.
\<close>

type_synonym out = "line list \<times> py_error option"

definition emit :: "line list \<Rightarrow> out" where
  "emit ls = (ls, None)"

definition seq :: "out \<Rightarrow> out \<Rightarrow> out" where
  "seq a b = (case a of (ls, Some e) \<Rightarrow> (ls, Some e)
              | (ls, None) \<Rightarrow> (case b of (ls', e) \<Rightarrow> (ls @ ls', e)))"

definition try_r :: "py_error + 'a \<Rightarrow> ('a \<Rightarrow> out) \<Rightarrow> out" where
  "try_r m f = (case m of Inl e \<Rightarrow> ([], Some e) | Inr x \<Rightarrow> f x)"

fun seqs :: "out list \<Rightarrow> out" where
  "seqs [] = emit []"
| "seqs (a # as) = seq a (seqs as)"

definition n_sites :: "topology \<Rightarrow> nat" where
  "n_sites topo = length (sites topo)"

definition n_bonds :: "topology \<Rightarrow> nat" where
  "n_bonds topo = length (bonds topo)"

definition n_angles :: "topology \<Rightarrow> nat" where
  "n_angles topo = length (angles topo)"

definition n_dihedrals :: "topology \<Rightarrow> nat" where
  "n_dihedrals topo = length (dihedrals topo)"

definition n_impropers :: "topology \<Rightarrow> nat" where
  "n_impropers topo = length (impropers topo)"

text \<open>
  Modelled from the spec: \<open>Topology.is_fully_typed\<close>. The type-coefficient sections
  are written "only if every site/connection has a fully resolved type".
\<close>

definition is_fully_typed :: "topology \<Rightarrow> bool" where
  "is_fully_typed topo \<longleftrightarrow>
     list_all (\<lambda>s. s_atom_type s \<noteq> None) (sites topo)
     \<and> list_all (\<lambda>c. c_type c \<noteq> None)
          (bonds topo @ angles topo @ dihedrals topo @ impropers topo)"

definition count_line :: "nat \<Rightarrow> string list \<Rightarrow> line" where
  "count_line n ws = TInt (int n) # map TStr ws"

definition title_line :: "ext \<Rightarrow> topology \<Rightarrow> line" where
  "title_line x topo =
     map TStr (e_user x @ [''written'', ''by'']
               @ (case top_name topo of None \<Rightarrow> [] | Some ws \<Rightarrow> ws)
               @ [''at''] @ e_now x @ [''using'', ''the'', ''GMSO'', ''LAMMPS'', ''Writer''])"

definition write_header :: "ext \<Rightarrow> topology \<Rightarrow> string \<Rightarrow> out" where
  "write_header x topo atom_style =
     (let conn_styles = atom_style \<in> set [''full'', ''molecular''] in
      emit ([title_line x topo, [],
             count_line (n_sites topo) [''atoms'']]
            @ (if conn_styles
               then [count_line (n_bonds topo) [''bonds''],
                     count_line (n_angles topo) [''angles''],
                     count_line (n_dihedrals topo) [''dihedrals''],
                     count_line (n_impropers topo) [''impropers''], []]
               else [])
            @ [count_line (length (e_atom_types_uniq x topo)) [''atom'', ''types'']]
            @ (if n_bonds topo > 0 \<and> conn_styles
               then [count_line (length (e_types_uniq x Bond topo)) [''bond'', ''types'']] else [])
            @ (if n_angles topo > 0 \<and> conn_styles
               then [count_line (length (e_types_uniq x Angle topo)) [''angle'', ''types'']] else [])
            @ (if n_dihedrals topo > 0 \<and> conn_styles
               then [count_line (length (e_types_uniq x Dihedral topo)) [''dihedral'', ''types'']]
               else [])
            @ (if n_impropers topo > 0 \<and> conn_styles
               then [count_line (length (e_types_uniq x Improper topo)) [''improper'', ''types'']]
               else [])
            @ [[]]))"

text \<open>
  \<open>_write_box\<close>. The list
  of lengths is built before the first line is written, and every bound goes through
  the \<open>.6f\<close> format.
\<close>

definition ninety :: quantity where
  "ninety = Q 90 degree"

definition f6 :: "real \<Rightarrow> tok" where
  "f6 x = TNum (py_round 6 x)"

definition min4 :: "real \<Rightarrow> real \<Rightarrow> real \<Rightarrow> real \<Rightarrow> real" where
  "min4 a b c d = min (min a b) (min c d)"

definition max4 :: "real \<Rightarrow> real \<Rightarrow> real \<Rightarrow> real \<Rightarrow> real" where
  "max4 a b c d = max (max a b) (max c d)"

definition box_lengths_of :: "base_unyts \<Rightarrow> box \<Rightarrow> cfactors \<Rightarrow> py_error + vec3" where
  "box_lengths_of b bx cf =
     (case b_lengths bx of (l0, l1, l2) \<Rightarrow>
        bind_r (convert_parameter b l0 cf default_n_decimals []) (\<lambda>x0.
        bind_r (convert_parameter b l1 cf default_n_decimals []) (\<lambda>x1.
        bind_r (convert_parameter b l2 cf default_n_decimals []) (\<lambda>x2.
          Inr (x0, x1, x2)))))"

definition triclinic_lines :: "vec3 \<Rightarrow> vec3 \<times> vec3 \<times> vec3 \<Rightarrow> line list" where
  "triclinic_lines box_lengths uv =
     (case box_lengths of (l0, l1, l2) \<Rightarrow>
      case uv of ((u00, u01, u02), (u10, u11, u12), (u20, u21, u22)) \<Rightarrow>
        let xhi = l0 * u00; yhi = l1 * u11; zhi = l2 * u22;
            xy = l1 * u10; xz = l2 * u20; yz = l2 * u21;
            xlo_bound = 0 + min4 0 xy xz (xy + xz);
            xhi_bound = xhi + max4 0 xy xz (xy + xz);
            ylo_bound = 0 + min 0 yz;
            yhi_bound = yhi + max 0 yz;
            zlo_bound = 0;
            zhi_bound = zhi
        in [[f6 xlo_bound, f6 xhi_bound, TStr ''xlo'', TStr ''xhi''],
            [f6 ylo_bound, f6 yhi_bound, TStr ''ylo'', TStr ''yhi''],
            [f6 zlo_bound, f6 zhi_bound, TStr ''zlo'', TStr ''zhi''],
            [f6 xy, f6 xz, f6 yz, TStr ''xy'', TStr ''xz'', TStr ''yz'']])"

definition orthogonal_lines :: "vec3 \<Rightarrow> line list" where
  "orthogonal_lines box_lengths =
     (case box_lengths of (l0, l1, l2) \<Rightarrow>
        [[f6 0, f6 l0, TStr ''xlo'', TStr ''xhi''],
         [f6 0, f6 l1, TStr ''ylo'', TStr ''yhi''],
         [f6 0, f6 l2, TStr ''zlo'', TStr ''zhi''],
         [TNum 0, TNum 0, TNum 0, TStr ''xy'', TStr ''xz'', TStr ''yz'']])"

definition write_box :: "ext \<Rightarrow> topology \<Rightarrow> base_unyts \<Rightarrow> cfactors \<Rightarrow> out" where
  "write_box x topo b cf =
     (case top_box topo of
        None \<Rightarrow> ([], Some AttributeError)
      | Some bx \<Rightarrow>
          (case b_angles bx of (a0, a1, a2) \<Rightarrow>
             if allclose_units a0 ninety \<and> allclose_units a1 ninety \<and> allclose_units a2 ninety
             then try_r (box_lengths_of b bx cf) (\<lambda>ls. emit (orthogonal_lines ls))
             else try_r (box_lengths_of b bx cf)
                    (\<lambda>ls. emit (triclinic_lines ls (e_get_unit_vectors x bx)))))"

text \<open>Helpers for the tables: dict lookup, \<open>list.index\<close>, \<open>sorted\<close> with a key.\<close>

definition py_getitem :: "(string \<times> 'v) list \<Rightarrow> string \<Rightarrow> py_error + 'v" where
  "py_getitem d k = (case map_of d k of None \<Rightarrow> Inl KeyError | Some v \<Rightarrow> Inr v)"

fun index_of :: "('a \<Rightarrow> 'b \<Rightarrow> bool) \<Rightarrow> 'a list \<Rightarrow> 'b \<Rightarrow> py_error + nat" where
  "index_of eq [] x = Inl ValueError"
| "index_of eq (y # ys) x =
     (if eq y x then Inr 0
      else (case index_of eq ys x of Inl e \<Rightarrow> Inl e | Inr i \<Rightarrow> Inr (Suc i)))"

text \<open>
  \<open>sorted(xs, key=f)\<close>: every key is computed first (any exception of \<open>f\<close> surfaces
  here), then the stable sort runs.
\<close>

definition sorted_by :: "('a \<Rightarrow> py_error + 'k::linorder) \<Rightarrow> 'a list \<Rightarrow> py_error + 'a list" where
  "sorted_by f xs =
     bind_r (mapM_r f xs) (\<lambda>ks. Inr (map snd (sort_key fst (zip ks xs))))"

definition atom_types_sorted :: "ext \<Rightarrow> topology \<Rightarrow> atom_type list" where
  "atom_types_sorted x topo = sort_key at_name (e_atom_types_uniq x topo)"

text \<open>
  Modelled from the spec: \<open>write_out_parameter_and_units\<close> of \<open>gmso.utils.units\<close>, the
  label of a coefficient column. Comments after \<open>#\<close> are documentation only; the label
  is the parameter's name and its unit.
\<close>

definition write_out_parameter_and_units :: "string \<Rightarrow> quantity \<Rightarrow> base_unyts \<Rightarrow> line" where
  "write_out_parameter_and_units key q b =
     [TStr key, TStr (''('' @ symbol (qunit q) @ '')'')]"

definition param_labels :: "(string \<times> quantity) list \<Rightarrow> string list \<Rightarrow> base_unyts \<Rightarrow> py_error + line" where
  "param_labels params keys b =
     bind_r (mapM_r (\<lambda>key. bind_r (py_getitem params key)
                               (\<lambda>q. Inr (write_out_parameter_and_units key q b))) keys)
       (\<lambda>ls. Inr (TStr ''#'' # concat ls))"

text \<open>
  The converted parameters of one row, in the order of the style tuple:
  \<open>[convert_parameter(t.parameters[key], cfactorsDict, n_decimals, name) for key in keys]\<close>.
\<close>

definition row_params ::
  "base_unyts \<Rightarrow> cfactors \<Rightarrow> nat \<Rightarrow> bool \<Rightarrow> (string \<times> quantity) list \<Rightarrow> string list
     \<Rightarrow> py_error + tok list" where
  "row_params b cf n named params keys =
     mapM_r (\<lambda>key. bind_r (py_getitem params key) (\<lambda>q.
               bind_r (convert_parameter b q cf n (if named then key else []))
                 (\<lambda>v. Inr (TNum v)))) keys"

fun rows :: "(nat \<Rightarrow> 'a \<Rightarrow> py_error + line) \<Rightarrow> nat \<Rightarrow> 'a list \<Rightarrow> out" where
  "rows f i [] = emit []"
| "rows f i (x # xs) = seq (try_r (f i x) (\<lambda>l. emit [l])) (rows f (Suc i) xs)"

definition write_atomtypes :: "ext \<Rightarrow> topology \<Rightarrow> base_unyts \<Rightarrow> cfactors \<Rightarrow> out" where
  "write_atomtypes x topo b cf =
     seq (emit [[], [TStr ''Masses'']])
    (try_r (case usystem b ''mass'' of None \<Rightarrow> Inl KeyError | Some un \<Rightarrow> Inr un) (\<lambda>un.
     seq (emit [[TStr ''#'', TStr ''mass'', TStr (''('' @ symbol un @ '')'')]])
       (let atypesView = atom_types_sorted x topo in
        rows (\<lambda>i atom_type.
                bind_r (index_of (AtomType_eq (e_in_units x)) atypesView atom_type) (\<lambda>j.
                bind_r (convert_parameter b (at_mass atom_type) cf default_n_decimals [])
                  (\<lambda>m. Inr [TInt (int j + 1), TNum m, TStr ''#'', TStr (at_name atom_type)])))
             0 atypesView)))"

definition first_site_type :: "topology \<Rightarrow> py_error + atom_type" where
  "first_site_type topo =
     (case sites topo of [] \<Rightarrow> Inl IndexError
      | s # _ \<Rightarrow> (case s_atom_type s of None \<Rightarrow> Inl AttributeError | Some a \<Rightarrow> Inr a))"

definition write_pairtypes :: "ext \<Rightarrow> topology \<Rightarrow> base_unyts \<Rightarrow> cfactors \<Rightarrow> out" where
  "write_pairtypes x topo b cf =
     try_r (first_site_type topo) (\<lambda>test_atomtype.
     seq (emit [[], [TStr ''Pair'', TStr ''Coeffs'', TStr ''#'', TStr (at_expression test_atomtype)]])
    (try_r (param_labels (at_parameters test_atomtype) [''epsilon'', ''sigma''] b) (\<lambda>labels.
     seq (emit [labels])
       (rows (\<lambda>idx param.
                bind_r (row_params b cf 5 False (at_parameters param) [''epsilon'', ''sigma''])
                  (\<lambda>ps. Inr ([TInt (int idx + 1)] @ ps @ [TStr ''#'', TStr (at_name param)])))
             0 (atom_types_sorted x topo)))))"

definition first_conn_type :: "connection list \<Rightarrow> py_error + conn_type" where
  "first_conn_type cs =
     (case cs of [] \<Rightarrow> Inl IndexError
      | c # _ \<Rightarrow> (case c_type c of None \<Rightarrow> Inl AttributeError | Some t \<Rightarrow> Inr t))"

definition member_types_of :: "conn_type \<Rightarrow> py_error + string list" where
  "member_types_of t = (case ct_member_types t of None \<Rightarrow> Inl TypeError | Some ms \<Rightarrow> Inr ms)"

definition str_at :: "string list \<Rightarrow> nat \<Rightarrow> py_error + string" where
  "str_at ms i = (if i < length ms then Inr (ms ! i) else Inl IndexError)"

text \<open>\<open>[members[i] for i in perm]\<close>.\<close>

definition pick :: "nat list \<Rightarrow> string list \<Rightarrow> py_error + string list" where
  "pick perm ms = mapM_r (str_at ms) perm"

definition coeffs_title :: "string \<Rightarrow> conn_type \<Rightarrow> line list" where
  "coeffs_title kind t = [[], [TStr kind, TStr ''Coeffs'', TStr (''#'' @ ct_name t)]]"

definition write_bondtypes :: "ext \<Rightarrow> topology \<Rightarrow> base_unyts \<Rightarrow> cfactors \<Rightarrow> out" where
  "write_bondtypes x topo b cf =
     try_r (first_conn_type (bonds topo)) (\<lambda>test_bondtype.
     seq (emit (coeffs_title ''Bond'' test_bondtype))
    (try_r (param_labels (ct_parameters test_bondtype) [''k'', ''r_eq''] b) (\<lambda>labels.
     seq (emit [labels])
    (try_r (sorted_by (\<lambda>t. bind_r (member_types_of t) (\<lambda>ms. Inr (sort ms)))
                      (e_types_uniq x Bond topo)) (\<lambda>bond_types.
       rows (\<lambda>idx bond_type.
               bind_r (member_types_of bond_type) (\<lambda>ms.
               bind_r (str_at ms 0) (\<lambda>m0.
               bind_r (str_at ms 1) (\<lambda>m1.
               bind_r (row_params b cf 6 False (ct_parameters bond_type) [''k'', ''r_eq''])
                 (\<lambda>ps. Inr ([TInt (int idx + 1)] @ ps @ [TStr ''#''] @ map TStr (sort [m0, m1])))))))
            0 bond_types)))))"

text \<open>\<open>x.member_types[::2]\<close>: every second entry, from the first.\<close>

fun every_second :: "'a list \<Rightarrow> 'a list" where
  "every_second [] = []"
| "every_second [x] = [x]"
| "every_second (x # y # zs) = x # every_second zs"

definition angle_key :: "conn_type \<Rightarrow> py_error + string \<times> string \<times> string" where
  "angle_key t =
     bind_r (member_types_of t) (\<lambda>ms.
     bind_r (str_at ms 1) (\<lambda>c.
       Inr (c, Min (set (every_second ms)), Max (set (every_second ms)))))"

definition write_angletypes :: "ext \<Rightarrow> topology \<Rightarrow> base_unyts \<Rightarrow> cfactors \<Rightarrow> out" where
  "write_angletypes x topo b cf =
     try_r (first_conn_type (angles topo)) (\<lambda>test_angletype.
     seq (emit (coeffs_title ''Angle'' test_angletype))
    (try_r (param_labels (ct_parameters test_angletype) [''k'', ''theta_eq''] b) (\<lambda>labels.
     seq (emit [labels])
    (try_r (sorted_by angle_key (e_types_uniq x Angle topo)) (\<lambda>indexList.
       rows (\<lambda>idx angle_type.
               bind_r (row_params b cf 6 True (ct_parameters angle_type) [''k'', ''theta_eq''])
                 (\<lambda>ps. bind_r (member_types_of angle_type) (\<lambda>ms.
                        bind_r (pick [0, 1, 2] ms) (\<lambda>m.
                          Inr ([TInt (int idx + 1)] @ ps
                               @ [TStr (''#'' @ m ! 0), TStr (m ! 1), TStr (m ! 2)])))))
            0 indexList)))))"

text \<open>
  Dihedral and improper tables: each type is paired with \<open>sort_by_types\<close> of it, the
  pairs are sorted by a permutation of the four members.
\<close>

definition with_members :: "ext \<Rightarrow> conn_type list \<Rightarrow> py_error + (conn_type \<times> string list) list" where
  "with_members x ts = mapM_r (\<lambda>t. bind_r (e_sort_by_types x t) (\<lambda>ms. Inr (t, ms))) ts"

definition write_dihedraltypes :: "ext \<Rightarrow> topology \<Rightarrow> base_unyts \<Rightarrow> cfactors \<Rightarrow> out" where
  "write_dihedraltypes x topo b cf =
     try_r (first_conn_type (dihedrals topo)) (\<lambda>test_dihedraltype.
     seq (emit (coeffs_title ''Dihedral'' test_dihedraltype))
    (try_r (param_labels (ct_parameters test_dihedraltype) [''k1'', ''k2'', ''k3'', ''k4''] b)
      (\<lambda>labels.
     seq (emit [labels])
    (try_r (bind_r (with_members x (e_types_uniq x Dihedral topo))
              (sorted_by (\<lambda>p. pick [1, 2, 0, 3] (snd p)))) (\<lambda>index_membersList.
       rows (\<lambda>idx p.
               bind_r (row_params b cf 6 True (ct_parameters (fst p))
                         [''k1'', ''k2'', ''k3'', ''k4''])
                 (\<lambda>ps. bind_r (pick [0, 1, 2, 3] (snd p)) (\<lambda>m.
                          Inr ([TInt (int idx + 1)] @ ps @ [TStr ''#''] @ map TStr m))))
            0 index_membersList)))))"

definition write_impropertypes :: "ext \<Rightarrow> topology \<Rightarrow> base_unyts \<Rightarrow> cfactors \<Rightarrow> out" where
  "write_impropertypes x topo b cf =
     try_r (first_conn_type (impropers topo)) (\<lambda>test_impropertype.
     seq (emit (coeffs_title ''Improper'' test_impropertype))
    (try_r (param_labels (ct_parameters test_impropertype) [''k'', ''phi_eq''] b) (\<lambda>labels.
     seq (emit [labels])
    (try_r (bind_r (with_members x (e_types_uniq x Improper topo))
              (sorted_by (\<lambda>p. pick [0, 1, 2, 3] (snd p)))) (\<lambda>index_membersList.
       rows (\<lambda>idx p.
               bind_r (row_params b cf 6 True (ct_parameters (fst p)) [''k'', ''phi_eq''])
                 (\<lambda>ps. Inr ([TInt (int idx + 1)] @ ps)))
            0 index_membersList)))))"

text \<open>
  \<open>_write_site_data\<close>. All the keyword arguments of \<open>atom_line.format\<close> are evaluated for
  every atom style; the style only selects which of them are printed.
\<close>

definition atom_line :: "string \<Rightarrow> py_error + (int \<Rightarrow> int \<Rightarrow> int \<Rightarrow> real \<Rightarrow> real \<Rightarrow> real \<Rightarrow> real \<Rightarrow> line)" where
  "atom_line atom_style =
     (if atom_style = ''atomic'' then
        Inr (\<lambda>index moleculeid type_index charge x y z.
               [TInt index, TInt type_index, TNum (fmt_g8 x), TNum (fmt_g8 y), TNum (fmt_g8 z)])
      else if atom_style = ''charge'' then
        Inr (\<lambda>index moleculeid type_index charge x y z.
               [TInt index, TInt type_index, TNum (fmt_g8 charge),
                TNum (fmt_g8 x), TNum (fmt_g8 y), TNum (fmt_g8 z)])
      else if atom_style = ''molecular'' then
        Inr (\<lambda>index moleculeid type_index charge x y z.
               [TInt index, TInt moleculeid, TInt type_index,
                TNum (fmt_g8 x), TNum (fmt_g8 y), TNum (fmt_g8 z)])
      else if atom_style = ''full'' then
        Inr (\<lambda>index moleculeid type_index charge x y z.
               [TInt index, TInt moleculeid, TInt type_index, TNum (fmt_g8 charge),
                TNum (fmt_g8 x), TNum (fmt_g8 y), TNum (fmt_g8 z)])
      else Inl UnboundLocalError)"

text \<open>
  \<open>unique_sorted_typesList.index(site.atom_type)\<close>: an untyped site is \<open>None\<close>, which
  is in no list of atom types.
\<close>

definition type_index_of :: "ext \<Rightarrow> atom_type list \<Rightarrow> site \<Rightarrow> py_error + nat" where
  "type_index_of x unique_sorted_typesList s =
     (case s_atom_type s of None \<Rightarrow> Inl ValueError
      | Some a \<Rightarrow> index_of (AtomType_eq (e_in_units x)) unique_sorted_typesList a)"

definition site_row ::
  "ext \<Rightarrow> string \<Rightarrow> base_unyts \<Rightarrow> cfactors \<Rightarrow> atom_type list \<Rightarrow> nat \<Rightarrow> site \<Rightarrow> py_error + line" where
  "site_row x atom_style b cf unique_sorted_typesList i s =
     bind_r (atom_line atom_style) (\<lambda>fmt.
     bind_r (case s_molecule s of None \<Rightarrow> Inl AttributeError | Some m \<Rightarrow> Inr (snd m)) (\<lambda>moleculeid.
     bind_r (type_index_of x unique_sorted_typesList s) (\<lambda>j.
     bind_r (case s_charge s of None \<Rightarrow> Inl AttributeError
             | Some q \<Rightarrow> convert_parameter b q cf 6 []) (\<lambda>charge.
     case s_position s of (p0, p1, p2) \<Rightarrow>
     bind_r (convert_parameter b p0 cf 6 []) (\<lambda>x.
     bind_r (convert_parameter b p1 cf 6 []) (\<lambda>y.
     bind_r (convert_parameter b p2 cf 6 []) (\<lambda>z.
       Inr (fmt (int i + 1) moleculeid (int j + 1) charge x y z))))))))"

definition write_site_data :: "ext \<Rightarrow> topology \<Rightarrow> string \<Rightarrow> base_unyts \<Rightarrow> cfactors \<Rightarrow> out" where
  "write_site_data x topo atom_style b cf =
     seq (emit [[], [TStr ''Atoms'', TStr (''#'' @ atom_style)], []])
         (rows (site_row x atom_style b cf (atom_types_sorted x topo)) 0 (sites topo))"

text \<open>
  \<open>_write_conn_data\<close>. \<open>sorting_funcDict\<close> gives the sort key of the member tuples:
  none for bonds (the tuple itself), a permutation for the other kinds.
\<close>

fun sorting_func :: "conn_kind \<Rightarrow> string list \<Rightarrow> py_error + string list" where
  "sorting_func Bond ms = Inr ms"
| "sorting_func Angle ms = pick [1, 0, 2] ms"
| "sorting_func Dihedral ms = pick [1, 2, 0, 3] ms"
| "sorting_func Improper ms = pick [0, 1, 2, 3] ms"

definition site_index :: "site list \<Rightarrow> nat \<Rightarrow> py_error + nat" where
  "site_index ss r = index_of (\<lambda>s r'. s_id s = r') ss r"

definition conn_row ::
  "ext \<Rightarrow> topology \<Rightarrow> string list list \<Rightarrow> nat \<Rightarrow> connection \<Rightarrow> py_error + line" where
  "conn_row x topo indexList i conn =
     bind_r (case c_type conn of None \<Rightarrow> Inl AttributeError | Some t \<Rightarrow> e_sort_by_types x t) (\<lambda>ms.
     bind_r (index_of (=) indexList ms) (\<lambda>j.
     bind_r (mapM_r (site_index (sites topo)) (c_members conn)) (\<lambda>is.
       Inr ([TInt (int i + 1), TInt (int j + 1)] @ map (\<lambda>n. TInt (int n + 1)) is))))"

text \<open>
  \<open>indexList\<close>: the member tuples of the unique types, sorted by their key.
\<close>

definition member_tuples :: "ext \<Rightarrow> topology \<Rightarrow> conn_kind \<Rightarrow> py_error + string list list" where
  "member_tuples x topo k = mapM_r (e_sort_by_types x) (e_types_uniq x k topo)"

definition conn_index_list :: "ext \<Rightarrow> topology \<Rightarrow> conn_kind \<Rightarrow> py_error + string list list" where
  "conn_index_list x topo k =
     bind_r (member_tuples x topo k)
       (\<lambda>l. bind_r (mapM_r (sorting_func k) l)
               (\<lambda>ks. Inr (map snd (sort_key fst (zip ks l)))))"

definition write_conn_data :: "ext \<Rightarrow> topology \<Rightarrow> conn_kind \<Rightarrow> out" where
  "write_conn_data x topo k =
     seq (emit [[], [TStr (kind_caps k)], []])
    (try_r (conn_index_list x topo k)
       (\<lambda>indexList. rows (conn_row x topo indexList) 0 (conns k topo)))"

text \<open>
  \<open>_try_default_potential_conversions\<close>, over \<open>default_parameterMaps\<close> in its order.
\<close>

definition default_parameterMaps :: "(conn_kind \<times> string) list" where
  "default_parameterMaps =
     [(Improper, ''HarmonicImproperPotential''),
      (Dihedral, ''OPLSTorsionPotential''),
      (Angle, ''LAMMPSHarmonicAnglePotential''),
      (Bond, ''LAMMPSHarmonicBondPotential'')]"

fun try_default_potential_conversions ::
  "ext \<Rightarrow> topology \<Rightarrow> (conn_kind \<times> string) list \<Rightarrow> py_error + topology" where
  "try_default_potential_conversions x topo [] = Inr topo"
| "try_default_potential_conversions x topo ((k, pot) # rest) =
     (if e_types x k topo \<noteq> [] then
        (case e_convert_potential_styles x topo (kind_strs k) pot of
           Inl e \<Rightarrow> Inl e
         | Inr topo' \<Rightarrow> try_default_potential_conversions x topo' rest)
      else if conns k topo \<noteq> [] then Inl AttributeError
      else try_default_potential_conversions x topo rest)"

text \<open>
  \<open>_validate_unit_compatibility\<close>: every parameter of every type, converted with
  \<open>n_decimals=6\<close>, must be close to its stored value
  (\<open>np.isclose(a, b, atol=1e-3)\<close>, with the default \<open>rtol=1e-5\<close>).
\<close>

definition np_isclose :: "real \<Rightarrow> real \<Rightarrow> real \<Rightarrow> bool" where
  "np_isclose a b atol \<longleftrightarrow> \<bar>a - b\<bar> \<le> atol + (1 / 10 ^ 5) * \<bar>b\<bar>"

fun check_parameters :: "base_unyts \<Rightarrow> (string \<times> quantity) list \<Rightarrow> py_error option" where
  "check_parameters b [] = None"
| "check_parameters b ((name, parameter) # rest) =
     (case convert_parameter b parameter None 6 name of
        Inl e \<Rightarrow> Some e
      | Inr v \<Rightarrow> if np_isclose v (qvalue parameter) (1 / 10 ^ 3)
                 then check_parameters b rest else Some AssertionError)"

definition validate_unit_compatibility :: "ext \<Rightarrow> topology \<Rightarrow> base_unyts \<Rightarrow> py_error option" where
  "validate_unit_compatibility x topo b =
     check_parameters b
       (concat (map at_parameters (e_atom_types x topo))
        @ concat (map ct_parameters (e_types x Bond topo))
        @ concat (map ct_parameters (e_types x Angle topo))
        @ concat (map ct_parameters (e_types x Dihedral topo))
        @ concat (map ct_parameters (e_types x Improper topo)))"

text \<open>
  \<open>_default_lj_val\<close>: \<open>max\<close> keeps the first of the greatest elements and raises
  \<open>ValueError\<close> on an empty list; a missing parameter is a \<open>KeyError\<close> of the lookup.
\<close>

definition py_max :: "quantity list \<Rightarrow> py_error + quantity" where
  "py_max qs = (case qs of [] \<Rightarrow> Inl ValueError
                | q # rest \<Rightarrow> Inr (foldl (\<lambda>m y. if q_gt y m then y else m) q rest))"

definition default_lj_val :: "ext \<Rightarrow> topology \<Rightarrow> string \<Rightarrow> py_error + quantity" where
  "default_lj_val x topo source =
     (if source = ''length'' then
        bind_r (mapM_r (\<lambda>a. py_getitem (at_parameters a) ''sigma'') (e_atom_types x topo)) py_max
      else if source = ''energy'' then
        bind_r (mapM_r (\<lambda>a. py_getitem (at_parameters a) ''epsilon'') (e_atom_types x topo)) py_max
      else if source = ''mass'' then py_max (map at_mass (e_atom_types x topo))
      else if source = ''charge'' then py_max (map at_charge (e_atom_types x topo))
      else Inl ValueError)"

text \<open>
  The resolution loop of \<open>write_lammpsdata\<close> (lines 150 to 164). A dict is its list of
  items in insertion order; a value is truthy when it is not zero.
\<close>

definition defaultsList :: "string list" where
  "defaultsList = [''length'', ''energy'', ''mass'', ''charge'']"

fun dict_set :: "string \<Rightarrow> 'v \<Rightarrow> (string \<times> 'v) list \<Rightarrow> (string \<times> 'v) list" where
  "dict_set k v [] = [(k, v)]"
| "dict_set k v (p # ps) = (if fst p = k then (k, v) # ps else p # dict_set k v ps)"

definition truthy :: "quantity option \<Rightarrow> bool" where
  "truthy v = (case v of None \<Rightarrow> False | Some q \<Rightarrow> qvalue q \<noteq> 0)"

fun lj_loop ::
  "ext \<Rightarrow> topology \<Rightarrow> string list \<Rightarrow> (string \<times> quantity) list \<Rightarrow> py_error + (string \<times> quantity) list" where
  "lj_loop x topo [] d = Inr d"
| "lj_loop x topo (source_factor # rest) d =
     (if source_factor \<notin> set defaultsList then Inl ValueError
      else if truthy (map_of d source_factor) then lj_loop x topo rest d
      else (case default_lj_val x topo source_factor of
              Inl e \<Rightarrow> Inl e
            | Inr default_val_from_topology \<Rightarrow>
                lj_loop x topo rest
                  (dict_set source_factor
                     (case map_of d source_factor of None \<Rightarrow> default_val_from_topology
                      | Some v \<Rightarrow> v) d)))"

definition resolve_lj_cfactors :: "ext \<Rightarrow> topology \<Rightarrow> cfactors \<Rightarrow> py_error + (string \<times> quantity) list" where
  "resolve_lj_cfactors x topo lj_cfactorsDict =
     (let d = (case lj_cfactorsDict of None \<Rightarrow> [] | Some d \<Rightarrow> d)
      in lj_loop x topo (defaultsList @ map fst d) d)"

text \<open>
  The file system: the lines of each file, and whether the parent directory of a path
  exists.
\<close>

record world =
  w_files :: "string \<rightharpoonup> line list"
  w_parent_exists :: "string \<Rightarrow> bool"

text \<open>Everything \<open>write_lammpsdata\<close> writes once the file is open (lines 172 to 190).\<close>

definition write_body :: "ext \<Rightarrow> topology \<Rightarrow> string \<Rightarrow> base_unyts \<Rightarrow> cfactors \<Rightarrow> out" where
  "write_body x topo atom_style b cf =
     seqs
      ([write_header x topo atom_style,
        write_box x topo b cf,
        (if is_fully_typed topo then
           seqs [write_atomtypes x topo b cf,
                 write_pairtypes x topo b cf,
                 (if e_types x Bond topo \<noteq> [] then write_bondtypes x topo b cf else emit []),
                 (if e_types x Angle topo \<noteq> [] then write_angletypes x topo b cf else emit []),
                 (if e_types x Dihedral topo \<noteq> []
                  then write_dihedraltypes x topo b cf else emit []),
                 (if e_types x Improper topo \<noteq> []
                  then write_impropertypes x topo b cf else emit [])]
         else emit []),
        write_site_data x topo atom_style b cf]
       @ map (\<lambda>k. if conns k topo \<noteq> [] then write_conn_data x topo k else emit [])
           [Bond, Angle, Dihedral, Improper])"

text \<open>
  \<open>write_lammpsdata\<close>. The result is the exception, if any, and the file system
  afterwards: the file holds whatever was written before the exception. A dict
  argument is truthy when it is neither \<open>None\<close> nor empty; the unit-system handle is an
  object and as such truthy.
\<close>

definition write_lammpsdata ::
  "ext \<Rightarrow> world \<Rightarrow> topology \<Rightarrow> string \<Rightarrow> string \<Rightarrow> string \<Rightarrow> bool \<Rightarrow> bool \<Rightarrow> cfactors
     \<Rightarrow> py_error option \<times> world" where
  "write_lammpsdata x w topo filename atom_style unit_style strict_potentials strict_units
       lj_cfactorsDict =
     (if atom_style \<notin> set [''full'', ''atomic'', ''molecular'', ''charge''] then (Some ValueError, w)
      else if unit_style \<notin> set supported_unit_styles then (Some ValueError, w)
      else if unit_style \<noteq> ''lj'' \<and> lj_cfactorsDict \<noteq> None \<and> lj_cfactorsDict \<noteq> Some []
      then (Some ValueError, w)
      else
        let b = e_unit_system x unit_style in
        (case (if strict_potentials
               then (case e_check_compatibility x topo of Some e \<Rightarrow> Inl e | None \<Rightarrow> Inr topo)
               else try_default_potential_conversions x topo default_parameterMaps) of
           Inl e \<Rightarrow> (Some e, w)
         | Inr topo' \<Rightarrow>
            (case (if strict_units
                   then (case validate_unit_compatibility x topo' b of
                           Some e \<Rightarrow> Inl e | None \<Rightarrow> Inr lj_cfactorsDict)
                   else if unit_style \<noteq> ''lj'' then Inr None
                   else (case resolve_lj_cfactors x topo' lj_cfactorsDict of
                           Inl e \<Rightarrow> Inl e | Inr d \<Rightarrow> Inr (Some d))) of
               Inl e \<Rightarrow> (Some e, w)
             | Inr cf \<Rightarrow>
                 if \<not> w_parent_exists w filename then (Some FileNotFoundError, w)
                 else (case write_body x topo' atom_style b cf of
                         (ls, e) \<Rightarrow> (e, w\<lparr>w_files := (w_files w)(filename \<mapsto> ls)\<rparr>)))))"

section \<open>Reader: box, atom types, atoms\<close>

text \<open>
  \<open>_get_box_coordinates\<close>. The loop stops at the first line with the field \<open>xlo\<close>, or
  at the last line; \<open>readline()\<close> past the end gives an empty line. numpy does not raise
  on a division by zero or on an \<open>arccos\<close> outside its domain (it yields \<open>nan\<close>); the
  model's values there are HOL's and mean nothing.
\<close>

fun find_xlo :: "line list \<Rightarrow> (line \<times> line list) option" where
  "find_xlo [] = None"
| "find_xlo (l # ls) = (if TStr ''xlo'' \<in> set l \<or> ls = [] then Some (l, ls) else find_xlo ls)"

definition readline :: "line list \<Rightarrow> line \<times> line list" where
  "readline ls = (case ls of [] \<Rightarrow> ([], []) | l # r \<Rightarrow> (l, r))"

definition span_of :: "line \<Rightarrow> py_error + real" where
  "span_of l = bind_r (float_at l 1) (\<lambda>hi. bind_r (float_at l 0) (\<lambda>lo. Inr (hi - lo)))"

definition triclinic_box :: "line \<Rightarrow> line \<Rightarrow> line \<Rightarrow> line \<Rightarrow> py_error + vec3 \<times> vec3" where
  "triclinic_box x_line y_line z_line tilts =
     bind_r (float_at tilts 0) (\<lambda>xy.
     bind_r (float_at tilts 1) (\<lambda>xz.
     bind_r (float_at tilts 2) (\<lambda>yz.
     bind_r (float_at x_line 1) (\<lambda>x1.
     bind_r (float_at x_line 0) (\<lambda>x0.
     bind_r (float_at y_line 1) (\<lambda>y1.
     bind_r (float_at y_line 0) (\<lambda>y0.
     bind_r (float_at z_line 1) (\<lambda>z1.
     bind_r (float_at z_line 0) (\<lambda>z0.
       let xhi = x1 - max4 0 xy xz (xy + xz);
           xlo = x0 - min4 0 xy xz (xy + xz);
           yhi = y1 - max 0 yz;
           ylo = y0 - min 0 yz;
           zhi = z1;
           zlo = z0;
           lx = xhi - xlo;
           ly = yhi - ylo;
           lz = zhi - zlo;
           c = sqrt (lz\<^sup>2 + xz\<^sup>2 + yz\<^sup>2);
           b = sqrt (ly\<^sup>2 + xy\<^sup>2);
           a = lx;
           alpha = arccos ((yz * ly + xy * xz) / (b * c));
           beta = arccos (xz / c);
           gamma = arccos (xy / b)
       in Inr ((a, b, c), (alpha, beta, gamma)))))))))))"

definition q3 :: "vec3 \<Rightarrow> unyt_unit \<Rightarrow> quantity \<times> quantity \<times> quantity" where
  "q3 v un = (case v of (a, b, c) \<Rightarrow> (Q a un, Q b un, Q c un))"

definition get_box_coordinates :: "line list \<Rightarrow> base_unyts \<Rightarrow> py_error + box" where
  "get_box_coordinates lines b =
     (case find_xlo lines of
        None \<Rightarrow> Inl UnboundLocalError
      | Some (x_line, r0) \<Rightarrow>
          (case readline r0 of (y_line, r1) \<Rightarrow>
           case readline r1 of (z_line, r2) \<Rightarrow>
           bind_r (span_of x_line) (\<lambda>x.
           bind_r (span_of y_line) (\<lambda>y.
           bind_r (span_of z_line) (\<lambda>z.
           case readline r2 of (tilts, r3) \<Rightarrow>
             if TStr ''xy'' \<in> set tilts then
               bind_r (triclinic_box x_line y_line z_line tilts) (\<lambda>(ls, as).
               bind_r (get_units b ''length'') (\<lambda>ul.
               bind_r (get_units b ''angle'') (\<lambda>ua.
                 Inr \<lparr>b_lengths = q3 ls ul, b_angles = q3 as ua\<rparr>)))
             else
               bind_r (get_units b ''length'') (\<lambda>ul.
                 Inr \<lparr>b_lengths = q3 (x, y, z) ul,
                      b_angles = (ninety, ninety, ninety)\<rparr>))))))"

text \<open>
  The text of a field, for the places where the reader keeps a field as a string: a
  decimal literal's value does not fix its spelling, which is the parameter
  \<open>float_text\<close>.
\<close>

definition digit_char :: "nat \<Rightarrow> char" where
  "digit_char d = char_of (48 + d)"

function show_nat :: "nat \<Rightarrow> string" where
  "show_nat n = (if n < 10 then [digit_char n] else show_nat (n div 10) @ [digit_char (n mod 10)])"
  by pat_completeness auto
termination
  by (relation "measure id") auto

definition show_int :: "int \<Rightarrow> string" where
  "show_int i = (if i < 0 then CHR ''-'' # show_nat (nat (- i)) else show_nat (nat i))"

definition tok_text :: "(real \<Rightarrow> string) \<Rightarrow> tok \<Rightarrow> string" where
  "tok_text float_text t =
     (case t of TInt n \<Rightarrow> show_int n | TNum v \<Rightarrow> float_text v | TStr s \<Rightarrow> s)"

text \<open>
  \<open>AtomType(name=..., mass=...)\<close>: every other argument takes the default of the
  constructor, the Lennard-Jones expression with its two default parameters.
\<close>

definition default_atom_type :: "string \<Rightarrow> quantity \<Rightarrow> atom_type" where
  "default_atom_type name mass =
     \<lparr>at_name = name,
      at_expression = ''4*epsilon*((sigma/r)**12 - (sigma/r)**6)'',
      at_independent_variables = {''r''},
      at_parameters = [(''sigma'', Q (3 / 10) (Unit ''nm'' (1 / 10 ^ 9))),
                       (''epsilon'', Q (3 / 10) kJ)],
      at_mass = mass,
      at_charge = Q 0 e_charge,
      at_atomclass = [], at_doi = [], at_overrides = {},
      at_definition = [], at_description = []\<rparr>"

text \<open>
  The first scan of \<open>_get_ff_information\<close>: \<open>"atom" in line\<close> sets the count, otherwise
  \<open>"Masses" in line\<close> breaks.
\<close>

fun scan_masses :: "line list \<Rightarrow> nat \<Rightarrow> int option \<Rightarrow> py_error + (nat \<times> int option)" where
  "scan_masses [] i n = Inr (i, n)"
| "scan_masses (l # ls) i n =
     (if in_line ''atom'' l then
        (case int_at l 0 of
           Inl e \<Rightarrow> Inl e
         | Inr v \<Rightarrow> if ls = [] then Inr (i, Some v) else scan_masses ls (Suc i) (Some v))
      else if in_line ''Masses'' l \<or> ls = [] then Inr (i, n)
      else scan_masses ls (Suc i) n)"

fun scan_pair :: "line list \<Rightarrow> nat \<Rightarrow> nat" where
  "scan_pair [] i = i"
| "scan_pair (l # ls) i = (if in_line ''Pair'' l \<or> ls = [] then i else scan_pair ls (Suc i))"

definition mass_row :: "(real \<Rightarrow> string) \<Rightarrow> base_unyts \<Rightarrow> line \<Rightarrow> py_error + atom_type" where
  "mass_row float_text b l =
     bind_r (tok_at l 0) (\<lambda>t.
     bind_r (float_at l 1) (\<lambda>m.
     bind_r (get_units b ''mass'') (\<lambda>um.
       Inr (default_atom_type (tok_text float_text t) (Q m um)))))"

text \<open>
  The loop over the pair rows (lines 559 to 568): row \<open>i\<close> updates \<open>type_list[i]\<close>. The
  result is the updated list and \<open>warn_ljcutBool\<close>.
\<close>

fun pair_rows ::
  "base_unyts \<Rightarrow> line list \<Rightarrow> nat \<Rightarrow> atom_type list \<Rightarrow> bool \<Rightarrow> py_error + atom_type list \<times> bool" where
  "pair_rows b [] i type_list warn = Inr (type_list, warn)"
| "pair_rows b (pair # rest) i type_list warn =
     (if length pair = 3 then
        bind_r (float_at pair 2) (\<lambda>sg.
        bind_r (get_units b ''length'') (\<lambda>ul.
          if i < length type_list then
            bind_r (float_at pair 1) (\<lambda>ep.
            bind_r (get_units b ''energy'') (\<lambda>ue.
              let t = type_list ! i;
                  t' = t\<lparr>at_parameters :=
                           dict_set ''epsilon'' (Q ep ue)
                             (dict_set ''sigma'' (Q sg ul) (at_parameters t))\<rparr>
              in pair_rows b rest (Suc i) (type_list[i := t']) warn))
          else Inl IndexError))
      else if length pair = 4 then pair_rows b rest (Suc i) type_list True
      else pair_rows b rest (Suc i) type_list warn)"

text \<open>
  \<open>_get_ff_information\<close>: \<open>None\<close> when \<open>types == False\<close> (the function then returns the
  topology alone), otherwise the \<open>type_list\<close> and whether the cutoff warning is issued.
\<close>

definition get_ff_information ::
  "(real \<Rightarrow> string) \<Rightarrow> line list \<Rightarrow> base_unyts \<Rightarrow> py_error + (atom_type list \<times> bool) option" where
  "get_ff_information float_text lines b =
     (case scan_masses lines 0 None of
        Inl e \<Rightarrow> Inl e
      | Inr (i, None) \<Rightarrow> Inr None
      | Inr (i, Some n_atomtypes) \<Rightarrow>
          bind_r (mapM_r (mass_row float_text b)
                    (py_slice lines (i + 2) (int i + n_atomtypes + 2))) (\<lambda>type_list.
            let i' = scan_pair lines 0 in
            bind_r (pair_rows b (py_slice lines (i' + 2) (int i' + n_atomtypes + 2)) 0
                      type_list False)
              (\<lambda>r. Inr (Some r))))"

text \<open>
  \<open>_get_atoms\<close>: one site per row of the \<open>Atoms\<close> section. The new site's identity is
  its position in the site list.
\<close>

definition atom_of_line ::
  "ext \<Rightarrow> base_unyts \<Rightarrow> atom_type list \<Rightarrow> nat \<Rightarrow> line \<Rightarrow> py_error + site" where
  "atom_of_line x b type_list new_id al =
     bind_r (tok_at al 2) (\<lambda>atom_type.
     bind_r (float_at al 3) (\<lambda>ch.
     bind_r (get_units b ''charge'') (\<lambda>uc.
     bind_r (float_at al 4) (\<lambda>c0.
     bind_r (float_at al 5) (\<lambda>c1.
     bind_r (float_at al 6) (\<lambda>c2.
     bind_r (get_units b ''length'') (\<lambda>ul.
     bind_r (py_int atom_type) (\<lambda>ti.
     bind_r (py_index type_list (ti - 1)) (\<lambda>t.
     bind_r (tok_at al 1) (\<lambda>mol.
     bind_r (py_int mol) (\<lambda>mi.
       Inr \<lparr>s_id = new_id,
            s_name = (case e_element_by_mass x (qvalue (at_mass t)) of
                        Some el \<Rightarrow> el | None \<Rightarrow> at_name t),
            s_position = (Q c0 ul, Q c1 ul, Q c2 ul),
            s_charge = Some (Q ch uc),
            s_atom_type = Some t,
            s_molecule = Some (tok_text (e_float_text x) mol, mi)\<rparr>)))))))))))"

fun add_atoms ::
  "ext \<Rightarrow> base_unyts \<Rightarrow> atom_type list \<Rightarrow> line list \<Rightarrow> topology \<Rightarrow> py_error + topology" where
  "add_atoms x b type_list [] topo = Inr topo"
| "add_atoms x b type_list (l # ls) topo =
     (case atom_of_line x b type_list (length (sites topo)) l of
        Inl e \<Rightarrow> Inl e
      | Inr s \<Rightarrow> add_atoms x b type_list ls (topo\<lparr>sites := sites topo @ [s]\<rparr>))"

definition get_atoms ::
  "ext \<Rightarrow> line list \<Rightarrow> topology \<Rightarrow> base_unyts \<Rightarrow> atom_type list \<Rightarrow> py_error + topology" where
  "get_atoms x lines topo b type_list =
     (case scan_section ''atoms'' ''Atoms'' lines 0 None of
        Inl e \<Rightarrow> Inl e
      | Inr (i, None) \<Rightarrow> Inl UnboundLocalError
      | Inr (i, Some n_atoms) \<Rightarrow>
          add_atoms x b type_list (py_slice lines (i + 2) (int i + n_atoms + 2)) topo)"

text \<open>
  \<open>read_lammpsdata\<close>: the topology read and whether the cutoff warning was issued. When
  \<open>_get_ff_information\<close> returns the topology alone, unpacking its result fails.
\<close>

definition empty_topology :: topology where
  "empty_topology =
     \<lparr>top_name = Some [''Topology''], sites = [], bonds = [], angles = [], dihedrals = [],
      impropers = [], top_box = None\<rparr>"

definition read_lammpsdata ::
  "ext \<Rightarrow> world \<Rightarrow> string \<Rightarrow> string \<Rightarrow> string \<Rightarrow> py_error + topology \<times> bool" where
  "read_lammpsdata x w filename atom_style unit_style =
     (if atom_style \<notin> set [''full''] then Inl ValueError
      else if unit_style \<notin> set supported_unit_styles then Inl ValueError
      else
        let b = e_unit_system x unit_style in
        (case w_files w filename of
           None \<Rightarrow> Inl FileNotFoundError
         | Some lines \<Rightarrow>
             bind_r (get_box_coordinates lines b) (\<lambda>bx.
             bind_r (get_ff_information (e_float_text x) lines b) (\<lambda>ff.
               case ff of
                 None \<Rightarrow> Inl TypeError
               | Some (type_list, warn) \<Rightarrow>
                   bind_r (get_atoms x lines (empty_topology\<lparr>top_box := Some bx\<rparr>) b type_list)
                     (\<lambda>t0.
                   bind_r (get_connection (e_templates x) lines t0 b Bond) (\<lambda>t1.
                   bind_r (get_connection (e_templates x) lines t1 b Angle) (\<lambda>t2.
                   bind_r (get_connection (e_templates x) lines t2 b Dihedral) (\<lambda>t3.
                   bind_r (get_connection (e_templates x) lines t3 b Improper) (\<lambda>t4.
                     Inr (t4, warn))))))))))"

text \<open>
  The claim's words for the default of a reference factor: "the corresponding quantity
  over all of the topology's AtomTypes", the \<open>sigma\<close> parameter for length, the
  \<open>epsilon\<close> parameter for energy, the mass and the charge attributes.
\<close>

definition params_named :: "string \<Rightarrow> atom_type list \<Rightarrow> quantity list" where
  "params_named key ats =
     concat (map (\<lambda>a. case map_of (at_parameters a) key of None \<Rightarrow> [] | Some q \<Rightarrow> [q]) ats)"

definition corresponding_quantities :: "ext \<Rightarrow> topology \<Rightarrow> string \<Rightarrow> quantity list" where
  "corresponding_quantities x topo key =
     (if key = ''length'' then params_named ''sigma'' (e_atom_types x topo)
      else if key = ''energy'' then params_named ''epsilon'' (e_atom_types x topo)
      else if key = ''mass'' then map at_mass (e_atom_types x topo)
      else if key = ''charge'' then map at_charge (e_atom_types x topo)
      else [])"

definition has_lj_parameters :: "ext \<Rightarrow> topology \<Rightarrow> bool" where
  "has_lj_parameters x topo \<longleftrightarrow>
     list_all (\<lambda>a. map_of (at_parameters a) ''sigma'' \<noteq> None
                  \<and> map_of (at_parameters a) ''epsilon'' \<noteq> None) (e_atom_types x topo)"

text \<open>
  What the order of the type tables rests on. The sort key of a bond type in
  \<open>_write_bondtypes\<close> is \<open>sorted(x.member_types)\<close>. The keys of a list are distinct when
  every key can be computed and no two are equal; for the member tuples of a connection
  kind the key is the one of \<open>sorting_funcDict\<close>. The title and the label line of a
  coefficient table are computed from the first site's atom type (its expression and
  parameters) or the first connection's type (its name and parameters).
\<close>

definition bond_key :: "conn_type \<Rightarrow> py_error + string list" where
  "bond_key t = bind_r (member_types_of t) (\<lambda>ms. Inr (sort ms))"

definition distinct_keys :: "('a \<Rightarrow> py_error + 'k) \<Rightarrow> 'a list \<Rightarrow> bool" where
  "distinct_keys f xs = (case mapM_r f xs of Inl e \<Rightarrow> False | Inr ks \<Rightarrow> distinct ks)"

definition distinct_member_keys :: "ext \<Rightarrow> topology \<Rightarrow> conn_kind \<Rightarrow> bool" where
  "distinct_member_keys x topo k =
     (case member_tuples x topo k of Inl e \<Rightarrow> False
      | Inr l \<Rightarrow> distinct_keys (sorting_func k) l)"

definition table_header ::
  "base_unyts \<Rightarrow> string list \<Rightarrow> py_error + conn_type \<Rightarrow> py_error + string \<times> (py_error + line)" where
  "table_header b keys test =
     map_sum id (\<lambda>t. (ct_name t, param_labels (ct_parameters t) keys b)) test"

definition pair_header ::
  "base_unyts \<Rightarrow> py_error + atom_type \<Rightarrow> py_error + string \<times> (py_error + line)" where
  "pair_header b test =
     map_sum id (\<lambda>a. (at_expression a, param_labels (at_parameters a) [''epsilon'', ''sigma''] b)) test"

section \<open>Concrete inputs\<close>

text \<open>
  A unit-system handle for the style \<open>real\<close>, for quantities that are already given in
  the style's own units (g/mol, angstrom, kcal/mol, elementary charge): converting
  leaves the value as it is, and \<open>convert_parameter\<close> only rounds it.
\<close>

definition real_units :: base_unyts where
  "real_units =
     \<lparr>usystem_name = ''real'',
      usystem = [''mass'' \<mapsto> g_mol, ''length'' \<mapsto> angstrom, ''energy'' \<mapsto> kcal_mol,
                 ''charge'' \<mapsto> e_charge, ''angle'' \<mapsto> radian],
      convert_parameter = (\<lambda>q cf n name. Inr (py_round n (qvalue q)))\<rparr>"

definition lj_units :: base_unyts where
  "lj_units = real_units\<lparr>usystem_name := ''lj'', usystem := Map.empty\<rparr>"

text \<open>
  A topology class whose type views list the types of the sites and of the connections
  in their order, the filtered views keeping the first type of each name (atom types)
  or of each sorted tuple of member names (connection types); \<open>sort_by_types\<close> sorts
  the member names; potentials are already in the accepted styles, so converting
  changes nothing; unit conversion is exact.
\<close>

fun uniq_by :: "('a \<Rightarrow> 'k) \<Rightarrow> 'k list \<Rightarrow> 'a list \<Rightarrow> 'a list" where
  "uniq_by f seen [] = []"
| "uniq_by f seen (y # ys) =
     (if f y \<in> set seen then uniq_by f seen ys else y # uniq_by f (f y # seen) ys)"

definition names_of :: "conn_type \<Rightarrow> string list" where
  "names_of t = (case ct_member_types t of None \<Rightarrow> [] | Some ms \<Rightarrow> sort ms)"

definition types_of :: "connection list \<Rightarrow> conn_type list" where
  "types_of cs = concat (map (\<lambda>c. case c_type c of None \<Rightarrow> [] | Some t \<Rightarrow> [t]) cs)"

definition site_types :: "topology \<Rightarrow> atom_type list" where
  "site_types t =
     concat (map (\<lambda>s. case s_atom_type s of None \<Rightarrow> [] | Some a \<Rightarrow> [a]) (sites t))"

definition ex_ext :: ext where
  "ex_ext =
     \<lparr>e_user = [''user''], e_now = [''today''],
      e_unit_system = (\<lambda>s. if s = ''lj'' then lj_units else real_units\<lparr>usystem_name := s\<rparr>),
      e_check_compatibility = (\<lambda>t. None),
      e_convert_potential_styles = (\<lambda>t c p. Inr t),
      e_sort_by_types = (\<lambda>t. case ct_member_types t of None \<Rightarrow> Inl AttributeError
                               | Some ms \<Rightarrow> Inr (sort ms)),
      e_get_unit_vectors = (\<lambda>bx. ((1, 0, 0), (0, 1, 0), (0, 0, 1))),
      e_atom_types = site_types,
      e_atom_types_uniq = (\<lambda>t. uniq_by at_name [] (site_types t)),
      e_types = (\<lambda>k t. types_of (conns k t)),
      e_types_uniq = (\<lambda>k t. uniq_by names_of [] (types_of (conns k t))),
      e_in_units = in_units,
      e_templates = (\<lambda>n. \<lparr>t_name = n, t_expression = n, t_independent_variables = {''r''}\<rparr>),
      e_element_by_mass = (\<lambda>m. None),
      e_float_text = (\<lambda>v. ''float'')\<rparr>"

text \<open>
  The scenario topology: two atom types of masses 12.011 and 1.008 g/mol, one bond
  type in the accepted harmonic form with \<open>k = 340\<close> kcal/mol/angstrom**2 and
  \<open>r_eq = 1.09\<close> angstrom, two bonded sites in a cubic box.
\<close>

definition lj_type :: "string \<Rightarrow> real \<Rightarrow> atom_type" where
  "lj_type name m =
     (default_atom_type name (Q m g_mol))
       \<lparr>at_parameters := [(''sigma'', Q (7 / 2) angstrom),
                          (''epsilon'', Q (66 / 1000) kcal_mol)]\<rparr>"

definition ex_site :: "nat \<Rightarrow> atom_type \<Rightarrow> real \<Rightarrow> site" where
  "ex_site i a px =
     \<lparr>s_id = i, s_name = at_name a,
      s_position = (Q px angstrom, Q 0 angstrom, Q 0 angstrom),
      s_charge = Some (Q 0 e_charge),
      s_atom_type = Some a, s_molecule = Some (''0'', 0)\<rparr>"

definition ex_bond_type :: conn_type where
  "ex_bond_type =
     \<lparr>ct_name = ''LAMMPSHarmonicBondPotential'', ct_expression = ''k*(r-r_eq)**2'',
      ct_independent_variables = {''r''},
      ct_parameters = [(''k'', Q 340 (u_div kcal_mol (u_sq angstrom))),
                       (''r_eq'', Q (109 / 100) angstrom)],
      ct_member_types = Some [''C'', ''H'']\<rparr>"

definition ex_box :: box where
  "ex_box = \<lparr>b_lengths = (Q 10 angstrom, Q 10 angstrom, Q 10 angstrom),
             b_angles = (ninety, ninety, ninety)\<rparr>"

definition type_C :: atom_type where
  "type_C = lj_type ''C'' (12011 / 1000)"

definition type_H :: atom_type where
  "type_H = lj_type ''H'' (1008 / 1000)"

definition ex_top :: topology where
  "ex_top =
     \<lparr>top_name = Some [''Topology''],
      sites = [ex_site 0 type_C 0, ex_site 1 type_H 1],
      bonds = [\<lparr>c_members = [0, 1], c_type = Some ex_bond_type\<rparr>],
      angles = [], dihedrals = [], impropers = [], top_box = Some ex_box\<rparr>"

text \<open>The same topology with its two sites added in the other order.\<close>

definition ex_top_permuted :: topology where
  "ex_top_permuted = ex_top\<lparr>sites := [ex_site 1 type_H 1, ex_site 0 type_C 0]\<rparr>"

definition ex_world :: world where
  "ex_world = \<lparr>w_files = Map.empty, w_parent_exists = (\<lambda>p. True)\<rparr>"

text \<open>
  The file that \<open>write_lammpsdata\<close> produces for the scenario topology with atom style
  \<open>full\<close> and unit style \<open>real\<close>, and the topology that \<open>read_lammpsdata\<close> builds from
  that file.
\<close>

definition ex_file :: "line list" where
  "ex_file =
     [[TStr ''user'', TStr ''written'', TStr ''by'', TStr ''Topology'',
       TStr ''at'', TStr ''today'', TStr ''using'', TStr ''the'',
       TStr ''GMSO'', TStr ''LAMMPS'', TStr ''Writer''],
      [],
      [TInt 2, TStr ''atoms''],
      [TInt 1, TStr ''bonds''],
      [TInt 0, TStr ''angles''],
      [TInt 0, TStr ''dihedrals''],
      [TInt 0, TStr ''impropers''],
      [],
      [TInt 2, TStr ''atom'', TStr ''types''],
      [TInt 1, TStr ''bond'', TStr ''types''],
      [],
      [TNum 0, TNum 10, TStr ''xlo'', TStr ''xhi''],
      [TNum 0, TNum 10, TStr ''ylo'', TStr ''yhi''],
      [TNum 0, TNum 10, TStr ''zlo'', TStr ''zhi''],
      [TNum 0, TNum 0, TNum 0, TStr ''xy'', TStr ''xz'', TStr ''yz''],
      [],
      [TStr ''Masses''],
      [TStr ''#'', TStr ''mass'', TStr ''(g/mol)''],
      [TInt 1, TNum (12011 / 1000), TStr ''#'', TStr ''C''],
      [TInt 2, TNum (1008 / 1000), TStr ''#'', TStr ''H''],
      [],
      [TStr ''Pair'', TStr ''Coeffs'', TStr ''#'',
       TStr ''4*epsilon*((sigma/r)**12 - (sigma/r)**6)''],
      [TStr ''#'', TStr ''epsilon'', TStr ''(kcal/mol)'', TStr ''sigma'', TStr ''(angstrom)''],
      [TInt 1, TNum (66 / 1000), TNum (7 / 2), TStr ''#'', TStr ''C''],
      [TInt 2, TNum (66 / 1000), TNum (7 / 2), TStr ''#'', TStr ''H''],
      [],
      [TStr ''Bond'', TStr ''Coeffs'', TStr ''#LAMMPSHarmonicBondPotential''],
      [TStr ''#'', TStr ''k'', TStr ''(kcal/mol/((angstrom)**2))'',
       TStr ''r_eq'', TStr ''(angstrom)''],
      [TInt 1, TNum 340, TNum (109 / 100), TStr ''#'', TStr ''C'', TStr ''H''],
      [],
      [TStr ''Atoms'', TStr ''#full''],
      [],
      [TInt 1, TInt 0, TInt 1, TNum 0, TNum 0, TNum 0, TNum 0],
      [TInt 2, TInt 0, TInt 2, TNum 0, TNum 1, TNum 0, TNum 0],
      [],
      [TStr ''Bonds''],
      [],
      [TInt 1, TInt 1, TInt 1, TInt 2]]"

definition ex_written :: world where
  "ex_written = ex_world\<lparr>w_files := [''out.lammps'' \<mapsto> ex_file]\<rparr>"

definition ex_read_site :: "nat \<Rightarrow> string \<Rightarrow> real \<Rightarrow> real \<Rightarrow> site" where
  "ex_read_site i name m px =
     \<lparr>s_id = i, s_name = name,
      s_position = (Q px angstrom, Q 0 angstrom, Q 0 angstrom),
      s_charge = Some (Q 0 e_charge),
      s_atom_type = Some (default_atom_type name (Q m g_mol)),
      s_molecule = Some (''0'', 0)\<rparr>"

definition ex_read_back :: topology where
  "ex_read_back =
     \<lparr>top_name = Some [''Topology''],
      sites = [ex_read_site 0 ''1'' (12011 / 1000) 0, ex_read_site 1 ''2'' (1008 / 1000) 1],
      bonds = [\<lparr>c_members = [0, 1],
                c_type = Some
                  \<lparr>ct_name = ''LAMMPSHarmonicBondPotential'',
                   ct_expression = ''LAMMPSHarmonicBondPotential'',
                   ct_independent_variables = {''r''},
                   ct_parameters = [(''k'', Q 680 (u_div kcal_mol (u_sq angstrom))),
                                    (''r_eq'', Q (109 / 100) angstrom)],
                   ct_member_types = Some [''1'', ''2'']\<rparr>\<rparr>],
      angles = [], dihedrals = [], impropers = [],
      top_box = Some \<lparr>b_lengths = (Q 10 angstrom, Q 10 angstrom, Q 10 angstrom),
                       b_angles = (Q (pi / 2) radian, Q (pi / 2) radian, Q (pi / 2) radian)\<rparr>\<rparr>"

text \<open>
  A data file with one atom type whose pair row carries a cutoff column, and the rows
  of a pair table with a plain row followed by a row with a cutoff.
\<close>

definition ex_cutoff_file :: "line list" where
  "ex_cutoff_file =
     [[TInt 1, TStr ''atom'', TStr ''types''],
      [],
      [TStr ''Masses''],
      [],
      [TInt 1, TNum (12011 / 1000)],
      [],
      [TStr ''Pair'', TStr ''Coeffs''],
      [],
      [TInt 1, TNum (66 / 1000), TNum (7 / 2), TNum 10]]"

definition ex_pair_rows :: "line list" where
  "ex_pair_rows =
     [[TInt 1, TNum (66 / 1000), TNum (7 / 2)],
      [TInt 2, TNum (3 / 100), TNum (5 / 2), TNum 10]]"

definition ex_type_list :: "atom_type list" where
  "ex_type_list =
     [default_atom_type ''1'' (Q (12011 / 1000) g_mol),
      default_atom_type ''2'' (Q (1008 / 1000) g_mol)]"

text \<open>
  A topology with a single site whose atom type has a one-parameter potential (no
  \<open>sigma\<close>, no \<open>epsilon\<close>), and no connection.
\<close>

definition one_parameter_type :: atom_type where
  "one_parameter_type =
     (default_atom_type ''X'' (Q 1 g_mol))
       \<lparr>at_expression := ''a*r'', at_parameters := [(''a'', Q 1 kcal_mol)]\<rparr>"

definition ex_top_one_parameter :: topology where
  "ex_top_one_parameter = ex_top\<lparr>sites := [ex_site 0 one_parameter_type 0], bonds := []\<rparr>"







text \<open>
  A topology with three atom types and two bond types, and the same topology with its
  sites and its bonds added in the opposite order.
\<close>

definition type_O :: atom_type where
  "type_O = lj_type ''O'' (15999 / 1000)"

definition ex_bond_type_OH :: conn_type where
  "ex_bond_type_OH =
     ex_bond_type\<lparr>ct_parameters := [(''k'', Q 450 (u_div kcal_mol (u_sq angstrom))),
                                     (''r_eq'', Q (96 / 100) angstrom)],
                   ct_member_types := Some [''O'', ''H'']\<rparr>"

definition ex_top3 :: topology where
  "ex_top3 =
     ex_top\<lparr>sites := [ex_site 0 type_C 0, ex_site 1 type_H 1, ex_site 2 type_O 1],
            bonds := [\<lparr>c_members = [0, 1], c_type = Some ex_bond_type\<rparr>,
                      \<lparr>c_members = [2, 1], c_type = Some ex_bond_type_OH\<rparr>]\<rparr>"

definition ex_top3_permuted :: topology where
  "ex_top3_permuted =
     ex_top\<lparr>sites := [ex_site 2 type_O 1, ex_site 1 type_H 1, ex_site 0 type_C 0],
            bonds := [\<lparr>c_members = [2, 1], c_type = Some ex_bond_type_OH\<rparr>,
                      \<lparr>c_members = [0, 1], c_type = Some ex_bond_type\<rparr>]\<rparr>"

lemmas ex_defs =
  ex_top_def ex_top_permuted_def ex_box_def ex_bond_type_def ex_site_def lj_type_def
  type_C_def type_H_def ex_ext_def site_types_def types_of_def names_of_def real_units_def
  lj_units_def default_atom_type_def angstrom_def kcal_mol_def g_mol_def e_charge_def
  avogadro_def ex_world_def

section \<open>Units of equilibrium angles\<close>

lemma get_units_angle_eq:
  "get_units b ''angle_eq'' = Inr (if usystem_name b = ''lj'' then dimensionless else degree)"
  by (simp add: get_units_def)

lemma get_units_angle:
  "get_units b ''angle'' =
     (if usystem_name b = ''lj'' then Inr radian
      else case usystem b ''angle'' of None \<Rightarrow> Inl KeyError | Some un \<Rightarrow> Inr un)"
  by (simp add: get_units_def)

lemma angle_row_units:
  assumes "conn_type_of_line templates b Angle l = Inr t"
  shows "\<exists>v ueq. get_units b ''angle_eq'' = Inr ueq \<and> float_at l 2 = Inr v
           \<and> map_of (ct_parameters t) ''theta_eq'' = Some (Q v ueq)"
  using assms get_units_angle_eq [of b]
  by (auto simp: bind_r_def mk_conn_type_def q_of_def split: sum.splits)

lemma improper_row_units:
  assumes "conn_type_of_line templates b Improper l = Inr t"
  shows "\<exists>v ueq. get_units b ''angle_eq'' = Inr ueq \<and> float_at l 3 = Inr v
           \<and> map_of (ct_parameters t) ''phi_eq'' = Some (Q v ueq)"
  using assms get_units_angle_eq [of b]
  by (auto simp: bind_r_def mk_conn_type_def q_of_def split: sum.splits)

text \<open>
  C6. Within one style the dimension \<open>angle_eq\<close> is mapped to another unit than
  \<open>angle\<close>: for every style but \<open>lj\<close>, \<open>angle_eq\<close> is degree while \<open>angle\<close> is the style's
  base angle unit; for \<open>lj\<close>, \<open>angle_eq\<close> is dimensionless while \<open>angle\<close> is radian, which
  differ as well. When an Angle Coeffs or Improper Coeffs row is read, the equilibrium
  angle (\<open>theta_eq\<close>, \<open>phi_eq\<close>) is the row's field in the \<open>angle_eq\<close> unit of the style,
  whatever the style.
\<close>

theorem angle_eq_units:
  "(usystem_name b \<noteq> ''lj'' \<longrightarrow>
      get_units b ''angle_eq'' = Inr degree
      \<and> get_units b ''angle''
          = (case usystem b ''angle'' of None \<Rightarrow> Inl KeyError | Some un \<Rightarrow> Inr un))
   \<and> (usystem_name b = ''lj'' \<longrightarrow>
      get_units b ''angle_eq'' = Inr dimensionless
      \<and> get_units b ''angle'' = Inr radian
      \<and> get_units b ''angle_eq'' \<noteq> get_units b ''angle'')
   \<and> (conn_type_of_line templates b k l = Inr t \<and> (k = Angle \<or> k = Improper) \<longrightarrow>
        (\<exists>v ueq. get_units b ''angle_eq'' = Inr ueq
           \<and> float_at l (if k = Angle then 2 else 3) = Inr v
           \<and> map_of (ct_parameters t) (if k = Angle then ''theta_eq'' else ''phi_eq'')
               = Some (Q v ueq)))"
proof (intro conjI impI)
  assume "usystem_name b \<noteq> ''lj''"
  then show "get_units b ''angle_eq'' = Inr degree"
    and "get_units b ''angle''
          = (case usystem b ''angle'' of None \<Rightarrow> Inl KeyError | Some un \<Rightarrow> Inr un)"
    by (simp_all add: get_units_def)
next
  assume "usystem_name b = ''lj''"
  then show "get_units b ''angle_eq'' = Inr dimensionless"
    and "get_units b ''angle'' = Inr radian"
    and "get_units b ''angle_eq'' \<noteq> get_units b ''angle''"
    by (simp_all add: get_units_def dimensionless_def radian_def)
next
  assume a: "conn_type_of_line templates b k l = Inr t \<and> (k = Angle \<or> k = Improper)"
  then have "k = Angle \<or> k = Improper" by simp
  then show "\<exists>v ueq. get_units b ''angle_eq'' = Inr ueq
           \<and> float_at l (if k = Angle then 2 else 3) = Inr v
           \<and> map_of (ct_parameters t) (if k = Angle then ''theta_eq'' else ''phi_eq'')
               = Some (Q v ueq)"
  proof
    assume "k = Angle"
    with a angle_row_units [of templates b l t] show ?thesis by simp
  next
    assume "k = Improper"
    with a improper_row_units [of templates b l t] show ?thesis by simp
  qed
qed

theorem angle_eq_units_witness:
  "get_units real_units ''angle_eq'' = Inr degree
   \<and> get_units real_units ''angle'' = Inr radian
   \<and> get_units lj_units ''angle_eq'' = Inr dimensionless
   \<and> get_units lj_units ''angle'' = Inr radian
   \<and> get_units lj_units ''angle_eq'' \<noteq> get_units lj_units ''angle''
   \<and> conn_type_of_line (e_templates ex_ext) real_units Angle [TInt 1, TNum 50, TNum 120]
       = Inr (mk_conn_type (e_templates ex_ext ''LAMMPSHarmonicAnglePotential'')
                [(''k'', Q 100 (u_div kcal_mol (u_sq radian))), (''theta_eq'', Q 120 degree)])
   \<and> conn_type_of_line (e_templates ex_ext) lj_units Improper
         [TInt 1, TInt 1, TNum 10, TNum 180]
       = Inr (mk_conn_type (e_templates ex_ext ''HarmonicImproperPotential'')
                [(''k'', Q 20 (u_div dimensionless (u_sq dimensionless))),
                 (''phi_eq'', Q 180 dimensionless)])
   \<and> (\<exists>ueq. get_units lj_units ''angle_eq'' = Inr ueq
         \<and> map_of (ct_parameters
                     (mk_conn_type (e_templates ex_ext ''HarmonicImproperPotential'')
                        [(''k'', Q 20 (u_div dimensionless (u_sq dimensionless))),
                         (''phi_eq'', Q 180 dimensionless)])) ''phi_eq''
             = Some (Q 180 ueq))"
proof -
  have c: "conn_type_of_line (e_templates ex_ext) real_units Angle [TInt 1, TNum 50, TNum 120]
       = Inr (mk_conn_type (e_templates ex_ext ''LAMMPSHarmonicAnglePotential'')
                [(''k'', Q 100 (u_div kcal_mol (u_sq radian))), (''theta_eq'', Q 120 degree)])"
    by (simp add: bind_r_def float_at_def tok_at_def py_float_def get_units_def real_units_def
        q_times_def q_div_unit_def q_of_def)
  have d: "conn_type_of_line (e_templates ex_ext) lj_units Improper
         [TInt 1, TInt 1, TNum 10, TNum 180]
       = Inr (mk_conn_type (e_templates ex_ext ''HarmonicImproperPotential'')
                [(''k'', Q 20 (u_div dimensionless (u_sq dimensionless))),
                 (''phi_eq'', Q 180 dimensionless)])"
    by (simp add: bind_r_def float_at_def tok_at_def py_float_def get_units_def real_units_def
        lj_units_def q_times_def q_div_unit_def q_of_def)
  have f: "float_at [TInt 1, TInt 1, TNum 10, TNum 180] 3 = Inr 180"
    by (simp add: bind_r_def float_at_def tok_at_def py_float_def)
  have n: "usystem_name real_units \<noteq> ''lj''" "usystem_name lj_units = ''lj''"
    "usystem real_units ''angle'' = Some radian"
    by (simp_all add: real_units_def lj_units_def)
  from angle_eq_units [of real_units "e_templates ex_ext" Angle "[TInt 1, TNum 50, TNum 120]"] n
  have r: "get_units real_units ''angle_eq'' = Inr degree \<and> get_units real_units ''angle'' = Inr radian"
    by simp
  from angle_eq_units [of lj_units "e_templates ex_ext" Improper
         "[TInt 1, TInt 1, TNum 10, TNum 180]"
         "mk_conn_type (e_templates ex_ext ''HarmonicImproperPotential'')
                [(''k'', Q 20 (u_div dimensionless (u_sq dimensionless))),
                 (''phi_eq'', Q 180 dimensionless)]"] n d f
  have j: "get_units lj_units ''angle_eq'' = Inr dimensionless
     \<and> get_units lj_units ''angle'' = Inr radian
     \<and> get_units lj_units ''angle_eq'' \<noteq> get_units lj_units ''angle''
     \<and> (\<exists>ueq. get_units lj_units ''angle_eq'' = Inr ueq
         \<and> map_of (ct_parameters
                     (mk_conn_type (e_templates ex_ext ''HarmonicImproperPotential'')
                        [(''k'', Q 20 (u_div dimensionless (u_sq dimensionless))),
                         (''phi_eq'', Q 180 dimensionless)])) ''phi_eq''
             = Some (Q 180 ueq))"
    by (simp del: conn_type_of_line.simps add: dimensionless_def radian_def mk_conn_type_def)
  from r j c d show ?thesis
    by (simp del: conn_type_of_line.simps add: dimensionless_def radian_def mk_conn_type_def)
qed

section \<open>Equality of atom types\<close>

lemma allclose_units_same:
  assumes "to_base a = to_base b" and "scale (qunit a) \<noteq> 0"
  shows "allclose_units a b"
proof -
  have "in_units b (qunit a) = qvalue a"
    using assms(2) by (simp add: in_units_def assms(1) [symmetric]) (simp add: to_base_def)
  then show ?thesis
    by (simp add: allclose_units_def)
qed

lemma unyt_compare_same:
  assumes "list_all2 (\<lambda>p q. to_base p = to_base q \<and> scale (qunit p) \<noteq> 0) xs ys"
  shows "unyt_compare xs ys"
  using assms
  by (induction rule: list_all2_induct) (simp_all add: unyt_compare_def allclose_units_same)

lemma q_eq_same: "q_eq conv a a"
  by (simp add: q_eq_def)

text \<open>
  C7, as the claim states it, fails: two atom types that agree in name, expression,
  independent variables and parameters but differ in mass are not equal, whatever the
  unit conversion does (both masses are in g/mol).
\<close>

theorem AtomType_eq_mass_counterexample:
  "at_name (lj_type ''C'' (12011 / 1000)) = at_name (lj_type ''C'' (1008 / 1000))
   \<and> at_expression (lj_type ''C'' (12011 / 1000)) = at_expression (lj_type ''C'' (1008 / 1000))
   \<and> at_independent_variables (lj_type ''C'' (12011 / 1000))
       = at_independent_variables (lj_type ''C'' (1008 / 1000))
   \<and> at_parameters (lj_type ''C'' (12011 / 1000)) = at_parameters (lj_type ''C'' (1008 / 1000))
   \<and> (\<forall>conv. \<not> AtomType_eq conv (lj_type ''C'' (12011 / 1000)) (lj_type ''C'' (1008 / 1000)))"
  by (simp add: AtomType_eq_def lj_type_def default_atom_type_def q_eq_def)

text \<open>
  C7 (amended). Two separately constructed atom types compare equal when their name,
  expression, independent variables and parameter key sets are equal, their parameter
  values, paired in the insertion order of the two dicts, are equal after unit
  normalisation, and besides their charge and mass are the same quantities and their
  atomclass, doi, overrides, definition and description are equal. The other
  attributes are compared too: two atom types that compare equal agree in name,
  expression, independent variables, parameter key sets, atomclass, doi, overrides,
  definition and description, their parameter values are pairwise close, and their
  masses and their charges have equal values whenever they are given in units of the
  same factor.
\<close>

theorem AtomType_eq_structural:
  "(at_name a = at_name b
      \<and> at_expression a = at_expression b
      \<and> at_independent_variables a = at_independent_variables b
      \<and> set (map fst (at_parameters a)) = set (map fst (at_parameters b))
      \<and> list_all2 (\<lambda>p q. to_base p = to_base q \<and> scale (qunit p) \<noteq> 0)
            (map snd (at_parameters a)) (map snd (at_parameters b))
      \<and> at_charge a = at_charge b
      \<and> at_atomclass a = at_atomclass b
      \<and> at_mass a = at_mass b
      \<and> at_doi a = at_doi b
      \<and> at_overrides a = at_overrides b
      \<and> at_definition a = at_definition b
      \<and> at_description a = at_description b
    \<longrightarrow> AtomType_eq conv a b)
   \<and> (AtomType_eq conv a b
    \<longrightarrow> at_name a = at_name b
        \<and> at_expression a = at_expression b
        \<and> at_independent_variables a = at_independent_variables b
        \<and> set (map fst (at_parameters a)) = set (map fst (at_parameters b))
        \<and> list_all (\<lambda>(p, q). allclose_units p q)
             (zip (map snd (at_parameters a)) (map snd (at_parameters b)))
        \<and> at_atomclass a = at_atomclass b
        \<and> at_doi a = at_doi b
        \<and> at_overrides a = at_overrides b
        \<and> at_definition a = at_definition b
        \<and> at_description a = at_description b
        \<and> (scale (qunit (at_mass a)) = scale (qunit (at_mass b))
             \<longrightarrow> qvalue (at_mass a) = qvalue (at_mass b))
        \<and> (scale (qunit (at_charge a)) = scale (qunit (at_charge b))
             \<longrightarrow> qvalue (at_charge a) = qvalue (at_charge b)))"
proof (intro conjI impI)
  assume h: "at_name a = at_name b
      \<and> at_expression a = at_expression b
      \<and> at_independent_variables a = at_independent_variables b
      \<and> set (map fst (at_parameters a)) = set (map fst (at_parameters b))
      \<and> list_all2 (\<lambda>p q. to_base p = to_base q \<and> scale (qunit p) \<noteq> 0)
            (map snd (at_parameters a)) (map snd (at_parameters b))
      \<and> at_charge a = at_charge b
      \<and> at_atomclass a = at_atomclass b
      \<and> at_mass a = at_mass b
      \<and> at_doi a = at_doi b
      \<and> at_overrides a = at_overrides b
      \<and> at_definition a = at_definition b
      \<and> at_description a = at_description b"
  then have "unyt_compare (map snd (at_parameters a)) (map snd (at_parameters b))"
    by (intro unyt_compare_same) simp
  with h show "AtomType_eq conv a b"
    by (simp add: AtomType_eq_def q_eq_same)
qed (simp_all add: AtomType_eq_def unyt_compare_def q_eq_def split: if_splits)

theorem AtomType_eq_structural_witness:
  "AtomType_eq in_units (lj_type ''C'' (12011 / 1000))
     ((lj_type ''C'' (12011 / 1000))
        \<lparr>at_parameters := [(''sigma'', Q (35 / 100) nm),
                           (''epsilon'', Q (66 / 1000) kcal_mol)]\<rparr>)
   \<and> qvalue (at_mass (lj_type ''C'' (12011 / 1000)))
       = qvalue (at_mass ((lj_type ''C'' (12011 / 1000))
            \<lparr>at_parameters := [(''sigma'', Q (35 / 100) nm),
                               (''epsilon'', Q (66 / 1000) kcal_mol)]\<rparr>))
   \<and> to_base (Q (35 / 100) nm) = to_base (Q (7 / 2) angstrom)"
  using AtomType_eq_structural [of "lj_type ''C'' (12011 / 1000)"
     "(lj_type ''C'' (12011 / 1000))
        \<lparr>at_parameters := [(''sigma'', Q (35 / 100) nm),
                           (''epsilon'', Q (66 / 1000) kcal_mol)]\<rparr>" in_units]
  by (simp add: lj_type_def default_atom_type_def to_base_def angstrom_def nm_def kcal_mol_def
      avogadro_def)

text \<open>
  The older \<open>AtomType\<close> compares hashes of a tuple that holds the mass and the charge
  too: equal fields give equal atom types, whatever the hash function.
\<close>

lemma topology_AtomType_eq_structural:
  assumes "ta_name a = ta_name b"
    and "ta_mass a = ta_mass b"
    and "ta_charge a = ta_charge b"
    and "ta_expression a = ta_expression b"
    and "ta_independent_variables a = ta_independent_variables b"
    and "ta_parameters a = ta_parameters b"
  shows "topology_AtomType_eq h uh a b"
  using assms by (simp add: topology_AtomType_eq_def topology_hash_key_def)

section \<open>Configuration errors\<close>

text \<open>
  C5. An unsupported atom style or unit style, or a non-empty \<open>lj_cfactorsDict\<close> with
  a unit style other than \<open>lj\<close>, makes \<open>write_lammpsdata\<close> raise \<open>ValueError\<close> and leave
  the file system as it was; an atom style other than \<open>full\<close> or an unsupported unit
  style makes \<open>read_lammpsdata\<close> raise \<open>ValueError\<close> whatever the file system holds, so
  before the file is opened.
\<close>

theorem configuration_errors_fail_fast:
  "(atom_style \<notin> {''full'', ''atomic'', ''molecular'', ''charge''}
      \<or> unit_style \<notin> {''real'', ''lj'', ''metal'', ''si'', ''cgs'', ''electron'', ''micro'', ''nano''}
      \<or> (unit_style \<noteq> ''lj'' \<and> lj_cfactorsDict \<noteq> None \<and> lj_cfactorsDict \<noteq> Some [])
    \<longrightarrow> write_lammpsdata x w topo filename atom_style unit_style strict_potentials strict_units
          lj_cfactorsDict = (Some ValueError, w))
   \<and> (atom_style \<noteq> ''full''
      \<or> unit_style \<notin> {''real'', ''lj'', ''metal'', ''si'', ''cgs'', ''electron'', ''micro'', ''nano''}
    \<longrightarrow> read_lammpsdata x w filename atom_style unit_style = Inl ValueError)"
  by (auto simp: write_lammpsdata_def read_lammpsdata_def supported_unit_styles_def)

theorem configuration_errors_fail_fast_witness:
  "write_lammpsdata ex_ext ex_world ex_top ''out.lammps'' ''sphere'' ''real'' False False None
     = (Some ValueError, ex_world)
   \<and> read_lammpsdata ex_ext ex_world ''out.lammps'' ''sphere'' ''real'' = Inl ValueError"
  using configuration_errors_fail_fast
    [of "''sphere''" "''real''" None ex_ext ex_world ex_top "''out.lammps''" False False]
  by simp

section \<open>Evaluation at the concrete inputs\<close>

lemma fmt_g8_0: "fmt_g8 0 = 0"
  by (simp add: fmt_g8_def)

lemma fmt_g8_1: "fmt_g8 1 = 1"
  by (simp add: fmt_g8_def round_half_even_def powr_minus)

lemma ninety_close: "allclose_units ninety ninety"
  by (simp add: allclose_units_def ninety_def in_units_def to_base_def degree_def)

lemma lj_type_sel:
  "at_name (lj_type n m) = n"
  "at_mass (lj_type n m) = Q m g_mol"
  "at_expression (lj_type n m) = ''4*epsilon*((sigma/r)**12 - (sigma/r)**6)''"
  "at_parameters (lj_type n m) =
     [(''sigma'', Q (7 / 2) angstrom), (''epsilon'', Q (66 / 1000) kcal_mol)]"
  by (simp_all add: lj_type_def default_atom_type_def)

lemma AtomType_eq_lj_type:
  "AtomType_eq conv (lj_type n m) (lj_type n' m') \<longleftrightarrow> n = n' \<and> m = m'"
  by (auto simp add: AtomType_eq_def lj_type_def default_atom_type_def unyt_compare_def
      allclose_units_def in_units_def to_base_def q_eq_def angstrom_def kcal_mol_def g_mol_def
      avogadro_def)

lemmas writer_defs =
  write_body_def write_header_def write_box_def write_atomtypes_def write_pairtypes_def
  write_bondtypes_def write_site_data_def write_conn_data_def
  seq_def emit_def try_r_def bind_r_def title_line_def count_line_def
  n_sites_def n_bonds_def n_angles_def n_dihedrals_def n_impropers_def
  is_fully_typed_def box_lengths_of_def orthogonal_lines_def f6_def default_n_decimals_def
  atom_types_sorted_def first_site_type_def first_conn_type_def param_labels_def
  write_out_parameter_and_units_def py_getitem_def row_params_def coeffs_title_def
  sorted_by_def member_types_of_def str_at_def site_row_def atom_line_def type_index_of_def
  conn_row_def site_index_def conns_def kind_caps_def conn_index_list_def member_tuples_def

lemmas ex_eval =
  ex_top_def ex_top_permuted_def ex_box_def ex_ext_def ninety_close site_types_def ex_site_def
  type_C_def type_H_def AtomType_eq_lj_type lj_type_sel types_of_def names_of_def
  ex_bond_type_def fmt_g8_0 fmt_g8_1 real_units_def py_round_def round_half_even_def
  angstrom_def kcal_mol_def g_mol_def e_charge_def u_div_def u_sq_def avogadro_def

section \<open>Header and data sections for the atom styles without connections\<close>

lemma seq_NoneD:
  assumes "seq a b = (ls, None)"
  shows "\<exists>la lb. a = (la, None) \<and> b = (lb, None) \<and> ls = la @ lb"
  using assms by (auto simp: seq_def split: prod.splits option.splits)

lemma seqs_NoneD:
  assumes "seqs outs = (ls, None)" and "a \<in> set outs"
  shows "\<exists>la pre post. a = (la, None) \<and> ls = pre @ la @ post"
  using assms
proof (induction outs arbitrary: ls)
  case Nil
  then show ?case by simp
next
  case (Cons o1 outs)
  from Cons.prems(1) obtain l1 l2 where
    o1: "o1 = (l1, None)" and rest: "seqs outs = (l2, None)" and ls: "ls = l1 @ l2"
    by (auto dest: seq_NoneD)
  show ?case
  proof (cases "a = o1")
    case True
    with o1 ls have "a = (l1, None) \<and> ls = [] @ l1 @ l2" by simp
    then show ?thesis by blast
  next
    case False
    with Cons.prems(2) have "a \<in> set outs" by simp
    from Cons.IH [OF rest this] obtain la pre post where
      "a = (la, None)" and "l2 = pre @ la @ post" by blast
    with ls have "a = (la, None) \<and> ls = (l1 @ pre) @ la @ post" by simp
    then show ?thesis by blast
  qed
qed

lemma rows_length:
  assumes "rows f i xs = (ls, None)"
  shows "length ls = length xs"
  using assms
proof (induction xs arbitrary: i ls)
  case Nil
  then show ?case by (simp add: emit_def)
next
  case (Cons y ys)
  from Cons.prems obtain l1 l2 where
    h: "try_r (f i y) (\<lambda>l. emit [l]) = (l1, None)" and t: "rows f (Suc i) ys = (l2, None)"
    and ls: "ls = l1 @ l2"
    by (auto dest: seq_NoneD)
  from h have "length l1 = 1"
    by (auto simp: try_r_def emit_def split: sum.splits)
  with Cons.IH [OF t] ls show ?case by simp
qed

lemma write_conn_data_NoneD:
  assumes "write_conn_data x topo k = (ls, None)"
  shows "\<exists>rws. ls = [[], [TStr (kind_caps k)], []] @ rws \<and> length rws = length (conns k topo)"
proof -
  from assms obtain l1 l2 where
    l1: "emit [[], [TStr (kind_caps k)], []] = (l1, None)" and
    l2: "try_r (conn_index_list x topo k)
       (\<lambda>indexList. rows (conn_row x topo indexList) 0 (conns k topo)) = (l2, None)" and
    ls: "ls = l1 @ l2"
    unfolding write_conn_data_def by (auto dest: seq_NoneD)
  from l2 obtain indexList where "rows (conn_row x topo indexList) 0 (conns k topo) = (l2, None)"
    by (auto simp: try_r_def split: sum.splits)
  then have "length l2 = length (conns k topo)" by (rule rows_length)
  with l1 ls show ?thesis by (simp add: emit_def)
qed

text \<open>
  C10. With atom style \<open>atomic\<close> or \<open>charge\<close> the header holds the title, the atom
  count and the atom type count only: no count line for bonds, angles, dihedrals or
  impropers and no \<open><N> <kind> types\<close> line. Yet a write that completes still emits, for
  every kind the topology has a connection of, the section of that kind with one row
  per connection.
\<close>

theorem header_omits_counts_sections_written:
  assumes "atom_style = ''atomic'' \<or> atom_style = ''charge''"
    and "conns k topo \<noteq> []"
    and "write_body x topo atom_style b cf = (ls, None)"
  shows "write_header x topo atom_style =
           ([title_line x topo, [],
             count_line (n_sites topo) [''atoms''],
             count_line (length (e_atom_types_uniq x topo)) [''atom'', ''types''], []], None)
       \<and> (\<exists>pre rws post.
             ls = fst (write_header x topo atom_style) @ pre
                  @ [[], [TStr (kind_caps k)], []] @ rws @ post
             \<and> length rws = length (conns k topo) \<and> rws \<noteq> [])"
proof -
  have hd: "write_header x topo atom_style =
           ([title_line x topo, [],
             count_line (n_sites topo) [''atoms''],
             count_line (length (e_atom_types_uniq x topo)) [''atom'', ''types''], []], None)"
    using assms(1) by (auto simp: write_header_def emit_def)
  define rest where "rest = [write_box x topo b cf,
        (if is_fully_typed topo then
           seqs [write_atomtypes x topo b cf,
                 write_pairtypes x topo b cf,
                 (if e_types x Bond topo \<noteq> [] then write_bondtypes x topo b cf else emit []),
                 (if e_types x Angle topo \<noteq> [] then write_angletypes x topo b cf else emit []),
                 (if e_types x Dihedral topo \<noteq> []
                  then write_dihedraltypes x topo b cf else emit []),
                 (if e_types x Improper topo \<noteq> []
                  then write_impropertypes x topo b cf else emit [])]
         else emit []),
        write_site_data x topo atom_style b cf]
       @ map (\<lambda>k. if conns k topo \<noteq> [] then write_conn_data x topo k else emit [])
           [Bond, Angle, Dihedral, Improper]"
  have "write_body x topo atom_style b cf = seq (write_header x topo atom_style) (seqs rest)"
    unfolding write_body_def rest_def by simp
  with assms(3) obtain l1 l2 where
    "write_header x topo atom_style = (l1, None)" and tl: "seqs rest = (l2, None)"
    and "ls = l1 @ l2"
    by (auto dest: seq_NoneD)
  then have ls: "ls = fst (write_header x topo atom_style) @ l2" by simp
  have "write_conn_data x topo k \<in> set rest"
    unfolding rest_def using assms(2) by (cases k) auto
  from seqs_NoneD [OF tl this] obtain la pre post where
    la: "write_conn_data x topo k = (la, None)" and l2: "l2 = pre @ la @ post" by blast
  from write_conn_data_NoneD [OF la] obtain rws where
    "la = [[], [TStr (kind_caps k)], []] @ rws" and "length rws = length (conns k topo)" by blast
  with ls l2 assms(2) have
    "ls = fst (write_header x topo atom_style) @ pre @ [[], [TStr (kind_caps k)], []] @ rws @ post
     \<and> length rws = length (conns k topo) \<and> rws \<noteq> []"
    by auto
  with hd show ?thesis by blast
qed

theorem header_omits_counts_sections_written_witness:
  "conns Bond ex_top \<noteq> []
   \<and> snd (write_body ex_ext ex_top ''atomic'' real_units None) = None
   \<and> write_header ex_ext ex_top ''atomic'' =
       ([title_line ex_ext ex_top, [],
         count_line (n_sites ex_top) [''atoms''],
         count_line (length (e_atom_types_uniq ex_ext ex_top)) [''atom'', ''types''], []], None)
   \<and> (\<exists>pre rws post.
         fst (write_body ex_ext ex_top ''atomic'' real_units None)
           = fst (write_header ex_ext ex_top ''atomic'') @ pre
             @ [[], [TStr (kind_caps Bond)], []] @ rws @ post
         \<and> length rws = length (conns Bond ex_top) \<and> rws \<noteq> [])"
proof -
  have a: "conns Bond ex_top \<noteq> []"
    by (simp add: conns_def ex_top_def)
  have sn: "snd (write_body ex_ext ex_top ''atomic'' real_units None) = None"
    by (simp add: writer_defs ex_eval)
  then have b: "write_body ex_ext ex_top ''atomic'' real_units None
      = (fst (write_body ex_ext ex_top ''atomic'' real_units None), None)"
    by (simp add: prod_eq_iff)
  have "write_header ex_ext ex_top ''atomic'' =
       ([title_line ex_ext ex_top, [],
         count_line (n_sites ex_top) [''atoms''],
         count_line (length (e_atom_types_uniq ex_ext ex_top)) [''atom'', ''types''], []], None)
   \<and> (\<exists>pre rws post.
         fst (write_body ex_ext ex_top ''atomic'' real_units None)
           = fst (write_header ex_ext ex_top ''atomic'') @ pre
             @ [[], [TStr (kind_caps Bond)], []] @ rws @ post
         \<and> length rws = length (conns Bond ex_top) \<and> rws \<noteq> [])"
    by (rule header_omits_counts_sections_written [OF _ a b]) simp
  with a sn show ?thesis by blast
qed

lemma upt_small: "[0..<2] = [0, 1]" "[0..<3] = [0, 1, 2]" "[0..<4] = [0, 1, 2, 3]"
  by (simp_all add: upt_rec)

lemma show_int_small: "show_int 0 = ''0''" "show_int 1 = ''1''" "show_int 2 = ''2''"
  by code_simp+

lemmas reader_defs =
  read_lammpsdata_def get_box_coordinates_def get_ff_information_def get_atoms_def
  get_connection_def get_connection_types_def span_of_def triclinic_box_def readline_def
  mass_row_def atom_of_line_def connection_of_line_def add_connection_def
  int_at_def float_at_def tok_at_def py_int_def py_float_def bind_r_def py_slice_def py_index_def
  get_units_def mk_conn_type_def q_of_def q_div_unit_def q_times_def q3_def
  in_line_def tok_text_def empty_topology_def kind_strs_def kind_caps_def
  supported_unit_styles_def min4_def max4_def

lemma ex_top_written:
  "write_lammpsdata ex_ext ex_world ex_top ''out.lammps'' ''full'' ''real'' False False None
     = (None, ex_written)"
  by (simp add: write_lammpsdata_def supported_unit_styles_def default_parameterMaps_def
      ex_file_def ex_written_def ex_world_def writer_defs ex_eval)

lemma ex_file_read:
  "read_lammpsdata ex_ext ex_written ''out.lammps'' ''full'' ''real'' = Inr (ex_read_back, False)"
  by (simp add: reader_defs ex_file_def ex_written_def ex_world_def ex_ext_def real_units_def
      upt_small show_int_small ex_read_back_def ex_read_site_def default_atom_type_def)

section \<open>The bond coefficient scenario\<close>

lemma try_r_NoneD:
  assumes "try_r m f = (ls, None)"
  shows "\<exists>v. m = Inr v \<and> f v = (ls, None)"
  using assms by (auto simp: try_r_def split: sum.splits)

lemma rows_nth:
  assumes "rows f i xs = (ls, None)" and "j < length xs"
  shows "f (i + j) (xs ! j) = Inr (ls ! j)"
  using assms
proof (induction xs arbitrary: i j ls)
  case Nil
  then show ?case by simp
next
  case (Cons y ys)
  from Cons.prems(1) obtain l1 l2 where
    h: "try_r (f i y) (\<lambda>l. emit [l]) = (l1, None)" and t: "rows f (Suc i) ys = (l2, None)"
    and ls: "ls = l1 @ l2"
    by (auto dest: seq_NoneD)
  from h obtain l where l: "f i y = Inr l" and l1: "l1 = [l]"
    by (auto simp: try_r_def emit_def split: sum.splits)
  show ?case
  proof (cases j)
    case 0
    with l l1 ls show ?thesis by simp
  next
    case (Suc j')
    with Cons.prems(2) have "j' < length ys" by simp
    from Cons.IH [OF t this] Suc l1 ls show ?thesis by simp
  qed
qed

lemma row_params_two:
  assumes "row_params b cf n named params [k1, k2] = Inr ps"
  shows "\<exists>q1 v1 q2 v2. map_of params k1 = Some q1
           \<and> convert_parameter b q1 cf n (if named then k1 else []) = Inr v1
           \<and> map_of params k2 = Some q2
           \<and> convert_parameter b q2 cf n (if named then k2 else []) = Inr v2
           \<and> ps = [TNum v1, TNum v2]"
  using assms
  by (auto simp: row_params_def bind_r_def py_getitem_def split: sum.splits option.splits)

text \<open>
  C3, as the claim states it, fails on the scenario: the file written for it holds the
  Bond Coeffs row \<open>1 340 1.09 # C H\<close>, whose \<open>k\<close> field is 340 and not 680.
\<close>

theorem scenario_bond_coeffs_counterexample:
  "write_lammpsdata ex_ext ex_world ex_top ''out.lammps'' ''full'' ''real'' False False None
     = (None, ex_written)
   \<and> w_files ex_written ''out.lammps'' = Some ex_file
   \<and> ex_file ! 28 = [TInt 1, TNum 340, TNum (109 / 100), TStr ''#'', TStr ''C'', TStr ''H'']
   \<and> tok_at (ex_file ! 28) 1 \<noteq> Inr (TNum 680)"
  using ex_top_written
  by (simp add: ex_written_def ex_file_def tok_at_def)

text \<open>
  C3 (amended). \<open>write_lammpsdata\<close> emits, for each bond type in the canonical order,
  a Bond Coeffs row whose \<open>k\<close> field is the stored \<open>k\<close> passed through
  \<open>convert_parameter\<close> with six decimals, and nothing else: it is not doubled. For the
  scenario (stored \<open>k = 340\<close> kcal/mol/angstrom**2, unit style \<open>real\<close>) the field is 340.
\<close>

theorem bond_coeffs_k_not_doubled:
  assumes "write_bondtypes x topo b cf = (ls, None)"
  shows "\<exists>bond_types.
           sorted_by (\<lambda>t. bind_r (member_types_of t) (\<lambda>ms. Inr (sort ms)))
             (e_types_uniq x Bond topo) = Inr bond_types
           \<and> length ls = 3 + length bond_types
           \<and> (\<forall>i < length bond_types.
                 \<exists>kq kv. map_of (ct_parameters (bond_types ! i)) ''k'' = Some kq
                   \<and> convert_parameter b kq cf 6 [] = Inr kv
                   \<and> tok_at (ls ! (3 + i)) 0 = Inr (TInt (int i + 1))
                   \<and> tok_at (ls ! (3 + i)) 1 = Inr (TNum kv))"
proof -
  define f where "f = (\<lambda>idx bond_type.
               bind_r (member_types_of bond_type) (\<lambda>ms.
               bind_r (str_at ms 0) (\<lambda>m0.
               bind_r (str_at ms 1) (\<lambda>m1.
               bind_r (row_params b cf 6 False (ct_parameters bond_type) [''k'', ''r_eq''])
                 (\<lambda>ps. Inr ([TInt (int idx + 1)] @ ps @ [TStr ''#''] @ map TStr (sort [m0, m1])))))))"
  from assms obtain test_bondtype labels bond_types l3 where
    sb: "sorted_by (\<lambda>t. bind_r (member_types_of t) (\<lambda>ms. Inr (sort ms)))
             (e_types_uniq x Bond topo) = Inr bond_types"
    and rs: "rows f 0 bond_types = (l3, None)"
    and ls: "ls = coeffs_title ''Bond'' test_bondtype @ [labels] @ l3"
    unfolding write_bondtypes_def f_def
    by (fastforce dest!: try_r_NoneD seq_NoneD simp: emit_def)
  from rs have len: "length l3 = length bond_types" by (rule rows_length)
  have "\<exists>kq kv. map_of (ct_parameters (bond_types ! i)) ''k'' = Some kq
                   \<and> convert_parameter b kq cf 6 [] = Inr kv
                   \<and> tok_at (ls ! (3 + i)) 0 = Inr (TInt (int i + 1))
                   \<and> tok_at (ls ! (3 + i)) 1 = Inr (TNum kv)" if i: "i < length bond_types" for i
  proof -
    from rows_nth [OF rs i] have fi: "f i (bond_types ! i) = Inr (l3 ! i)" by simp
    have "\<exists>ps rest. row_params b cf 6 False (ct_parameters t) [''k'', ''r_eq''] = Inr ps
            \<and> l = [TInt (int i + 1)] @ ps @ rest" if "f i t = Inr l" for t l
      using that unfolding f_def by (auto simp: bind_r_def split: sum.splits)
    from this [OF fi] obtain ps rest where
      rp: "row_params b cf 6 False (ct_parameters (bond_types ! i)) [''k'', ''r_eq''] = Inr ps"
      and row: "l3 ! i = [TInt (int i + 1)] @ ps @ rest"
      by blast
    from row_params_two [OF rp] obtain kq kv q2 v2 where
      "map_of (ct_parameters (bond_types ! i)) ''k'' = Some kq"
      "convert_parameter b kq cf 6 [] = Inr kv" "ps = [TNum kv, TNum v2]"
      by auto
    moreover have "ls ! (3 + i) = l3 ! i"
      using ls by (simp add: coeffs_title_def nth_append)
    ultimately show ?thesis using row by (auto simp: tok_at_def)
  qed
  with sb len ls show ?thesis by (auto simp: coeffs_title_def)
qed

theorem bond_coeffs_k_not_doubled_witness:
  "write_bondtypes ex_ext ex_top real_units None
     = ([[], [TStr ''Bond'', TStr ''Coeffs'', TStr ''#LAMMPSHarmonicBondPotential''],
         [TStr ''#'', TStr ''k'', TStr ''(kcal/mol/((angstrom)**2))'',
          TStr ''r_eq'', TStr ''(angstrom)''],
         [TInt 1, TNum 340, TNum (109 / 100), TStr ''#'', TStr ''C'', TStr ''H'']], None)
   \<and> map_of (ct_parameters ex_bond_type) ''k'' = Some (Q 340 (u_div kcal_mol (u_sq angstrom)))
   \<and> convert_parameter real_units (Q 340 (u_div kcal_mol (u_sq angstrom))) None 6 [] = Inr 340"
proof -
  have w: "write_bondtypes ex_ext ex_top real_units None
     = ([[], [TStr ''Bond'', TStr ''Coeffs'', TStr ''#LAMMPSHarmonicBondPotential''],
         [TStr ''#'', TStr ''k'', TStr ''(kcal/mol/((angstrom)**2))'',
          TStr ''r_eq'', TStr ''(angstrom)''],
         [TInt 1, TNum 340, TNum (109 / 100), TStr ''#'', TStr ''C'', TStr ''H'']], None)"
    by (simp add: writer_defs ex_eval)
  have s: "sorted_by (\<lambda>t. bind_r (member_types_of t) (\<lambda>ms. Inr (sort ms)))
             (e_types_uniq ex_ext Bond ex_top) = Inr [ex_bond_type]"
    by (simp add: sorted_by_def bind_r_def member_types_of_def conns_def ex_top_def ex_ext_def
        types_of_def names_of_def ex_bond_type_def)
  from bond_coeffs_k_not_doubled [OF w] s
  have "\<exists>kq kv. map_of (ct_parameters ex_bond_type) ''k'' = Some kq
          \<and> convert_parameter real_units kq None 6 [] = Inr kv \<and> TNum 340 = TNum kv"
    by (auto simp: tok_at_def)
  then have "map_of (ct_parameters ex_bond_type) ''k'' = Some (Q 340 (u_div kcal_mol (u_sq angstrom)))
     \<and> convert_parameter real_units (Q 340 (u_div kcal_mol (u_sq angstrom))) None 6 [] = Inr 340"
    by (auto simp: ex_bond_type_def)
  with w show ?thesis by simp
qed

section \<open>Writing and reading back the scenario\<close>

text \<open>
  C1 at the scenario topology: the file written for it is read back with the bond
  type's \<open>k\<close> doubled (680 for the stored 340), with the atom types named after their
  indices, and with the constructor's default \<open>sigma\<close> and \<open>epsilon\<close>, the written pair
  rows having five fields.
\<close>

theorem scenario_read_back_differs:
  "read_lammpsdata ex_ext
     (snd (write_lammpsdata ex_ext ex_world ex_top ''out.lammps'' ''full'' ''real''
             False False None))
     ''out.lammps'' ''full'' ''real'' = Inr (ex_read_back, False)
   \<and> map (\<lambda>c. map_option (\<lambda>t. map_of (ct_parameters t) ''k'') (c_type c)) (bonds ex_top)
       = [Some (Some (Q 340 (u_div kcal_mol (u_sq angstrom))))]
   \<and> map (\<lambda>c. map_option (\<lambda>t. map_of (ct_parameters t) ''k'') (c_type c)) (bonds ex_read_back)
       = [Some (Some (Q 680 (u_div kcal_mol (u_sq angstrom))))]
   \<and> map (\<lambda>s. map_option at_name (s_atom_type s)) (sites ex_top) = [Some ''C'', Some ''H'']
   \<and> map (\<lambda>s. map_option at_name (s_atom_type s)) (sites ex_read_back) = [Some ''1'', Some ''2'']
   \<and> map (\<lambda>s. map_option (\<lambda>a. map_of (at_parameters a) ''sigma'') (s_atom_type s)) (sites ex_top)
       = [Some (Some (Q (7 / 2) angstrom)), Some (Some (Q (7 / 2) angstrom))]
   \<and> map (\<lambda>s. map_option (\<lambda>a. map_of (at_parameters a) ''sigma'') (s_atom_type s))
         (sites ex_read_back)
       = [Some (Some (Q (3 / 10) (Unit ''nm'' (1 / 10 ^ 9)))),
          Some (Some (Q (3 / 10) (Unit ''nm'' (1 / 10 ^ 9))))]"
  using ex_top_written ex_file_read
  by (simp add: ex_top_def ex_read_back_def ex_bond_type_def ex_site_def ex_read_site_def
      type_C_def type_H_def lj_type_sel default_atom_type_def)

section \<open>Pair coefficient rows\<close>

lemma map_of_dict_set:
  "map_of (dict_set k v d) k' = (if k' = k then Some v else map_of d k')"
  by (induction d) auto

lemma pair_rows_frame:
  assumes "pair_rows b prs i tys warn = Inr (tys', warn')"
  shows "length tys' = length tys \<and> (\<forall>k < i. tys' ! k = tys ! k) \<and> (warn \<longrightarrow> warn')"
  using assms
proof (induction prs arbitrary: i tys warn)
  case Nil
  then show ?case by simp
next
  case (Cons pair rest)
  consider (three) "length pair = 3" | (four) "length pair = 4"
    | (other) "length pair \<noteq> 3" "length pair \<noteq> 4" by blast
  then show ?case
  proof cases
    case three
    with Cons.prems obtain t' where
      r: "pair_rows b rest (Suc i) (tys[i := t']) warn = Inr (tys', warn')"
      by (auto simp: bind_r_def Let_def split: sum.splits if_splits)
    from Cons.IH [OF r] show ?thesis by auto
  next
    case four
    with Cons.prems have "pair_rows b rest (Suc i) tys True = Inr (tys', warn')" by simp
    from Cons.IH [OF this] show ?thesis by auto
  next
    case other
    with Cons.prems have "pair_rows b rest (Suc i) tys warn = Inr (tys', warn')" by simp
    from Cons.IH [OF this] show ?thesis by auto
  qed
qed

lemma pair_rows_step4:
  "length r = 4 \<Longrightarrow> pair_rows b (r # rest) i tys warn = pair_rows b rest (Suc i) tys True"
  by simp

text \<open>
  C8, as the claim states it, fails: a pair row with a cutoff column sets the warning
  and nothing else. The atom type keeps the constructor's parameters; the row's
  \<open>epsilon\<close> and \<open>sigma\<close> are not read.
\<close>

theorem cutoff_row_counterexample:
  "get_ff_information (e_float_text ex_ext) ex_cutoff_file real_units
     = Inr (Some ([default_atom_type ''1'' (Q (12011 / 1000) g_mol)], True))
   \<and> map_of (at_parameters (default_atom_type ''1'' (Q (12011 / 1000) g_mol))) ''sigma''
       = Some (Q (3 / 10) (Unit ''nm'' (1 / 10 ^ 9)))
   \<and> map_of (at_parameters (default_atom_type ''1'' (Q (12011 / 1000) g_mol))) ''sigma''
       \<noteq> Some (Q (7 / 2) angstrom)"
  by (simp add: reader_defs ex_cutoff_file_def real_units_def show_int_small
      default_atom_type_def angstrom_def)

text \<open>
  C8 (amended). When the pair table is read, every row with three fields sets the
  \<open>sigma\<close> (third field) and \<open>epsilon\<close> (second field) of the atom type at its position;
  every row with four fields raises nothing, makes the read issue the warning, and
  leaves the atom type at its position as it was: none of the row's columns is read.
\<close>

theorem pair_rows_semantics:
  assumes "pair_rows b prs i tys warn = Inr (tys', warn')" and "j < length prs"
  shows "(length (prs ! j) = 4 \<longrightarrow>
            warn' \<and> (i + j < length tys \<longrightarrow> tys' ! (i + j) = tys ! (i + j)))
       \<and> (length (prs ! j) = 3 \<longrightarrow>
            (\<exists>sg ul ep ue.
               float_at (prs ! j) 2 = Inr sg \<and> get_units b ''length'' = Inr ul
               \<and> float_at (prs ! j) 1 = Inr ep \<and> get_units b ''energy'' = Inr ue
               \<and> i + j < length tys
               \<and> map_of (at_parameters (tys' ! (i + j))) ''sigma'' = Some (Q sg ul)
               \<and> map_of (at_parameters (tys' ! (i + j))) ''epsilon'' = Some (Q ep ue)))
       \<and> (length r = 4 \<longrightarrow>
            pair_rows b (r # rest) i0 tys0 warn0 = pair_rows b rest (Suc i0) tys0 True)"
proof -
  have main: "(length (prs ! j) = 4 \<longrightarrow>
            warn' \<and> (i + j < length tys \<longrightarrow> tys' ! (i + j) = tys ! (i + j)))
       \<and> (length (prs ! j) = 3 \<longrightarrow>
            (\<exists>sg ul ep ue.
               float_at (prs ! j) 2 = Inr sg \<and> get_units b ''length'' = Inr ul
               \<and> float_at (prs ! j) 1 = Inr ep \<and> get_units b ''energy'' = Inr ue
               \<and> i + j < length tys
               \<and> map_of (at_parameters (tys' ! (i + j))) ''sigma'' = Some (Q sg ul)
               \<and> map_of (at_parameters (tys' ! (i + j))) ''epsilon'' = Some (Q ep ue)))"
    using assms
  proof (induction prs arbitrary: i j tys warn)
    case Nil
    then show ?case by simp
  next
    case (Cons pair rest')
    show ?case
    proof (cases j)
      case 0
      consider (three) "length pair = 3" | (four) "length pair = 4"
        | (other) "length pair \<noteq> 3" "length pair \<noteq> 4" by blast
      then show ?thesis
      proof cases
        case three
        with Cons.prems(1) obtain sg ul ep ue where
          v: "float_at pair 2 = Inr sg" "get_units b ''length'' = Inr ul"
             "float_at pair 1 = Inr ep" "get_units b ''energy'' = Inr ue" "i < length tys"
          and r: "pair_rows b rest' (Suc i)
                    (tys[i := (tys ! i)\<lparr>at_parameters :=
                          dict_set ''epsilon'' (Q ep ue)
                            (dict_set ''sigma'' (Q sg ul) (at_parameters (tys ! i)))\<rparr>]) warn
                  = Inr (tys', warn')"
          by (auto simp: bind_r_def Let_def split: sum.splits if_splits)
        from pair_rows_frame [OF r] v(5)
        have "tys' ! i = (tys ! i)\<lparr>at_parameters :=
                          dict_set ''epsilon'' (Q ep ue)
                            (dict_set ''sigma'' (Q sg ul) (at_parameters (tys ! i)))\<rparr>"
          by simp
        with v three 0 show ?thesis by (simp add: map_of_dict_set)
      next
        case four
        with Cons.prems(1) have r: "pair_rows b rest' (Suc i) tys True = Inr (tys', warn')"
          by simp
        from pair_rows_frame [OF r] four 0 show ?thesis by simp
      next
        case other
        with 0 show ?thesis by simp
      qed
    next
      case (Suc j')
      with Cons.prems(2) have j': "j' < length rest'" by simp
      from Cons.prems(1) obtain tys1 warn1 where
        r: "pair_rows b rest' (Suc i) tys1 warn1 = Inr (tys', warn')"
        and tys1: "length tys1 = length tys" "tys1 ! (i + j) = tys ! (i + j)"
        using Suc
        by (cases "length pair = 3"; cases "length pair = 4")
           (auto simp: bind_r_def Let_def split: sum.splits if_splits)
      from Cons.IH [OF r j'] tys1 Suc show ?thesis by simp
    qed
  qed
  then show ?thesis by simp
qed

theorem pair_rows_semantics_witness:
  "pair_rows real_units ex_pair_rows 0 ex_type_list False
     = Inr ([(ex_type_list ! 0)
               \<lparr>at_parameters := [(''sigma'', Q (7 / 2) angstrom),
                                  (''epsilon'', Q (66 / 1000) kcal_mol)]\<rparr>,
             ex_type_list ! 1], True)
   \<and> length (ex_pair_rows ! 1) = 4
   \<and> length (ex_pair_rows ! 0) = 3
   \<and> map_of (at_parameters (ex_type_list ! 1)) ''sigma'' = Some (Q (3 / 10) (Unit ''nm'' (1 / 10 ^ 9)))"
proof -
  have e: "pair_rows real_units ex_pair_rows 0 ex_type_list False
     = Inr ([(ex_type_list ! 0)
               \<lparr>at_parameters := [(''sigma'', Q (7 / 2) angstrom),
                                  (''epsilon'', Q (66 / 1000) kcal_mol)]\<rparr>,
             ex_type_list ! 1], True)"
    by (simp add: ex_pair_rows_def ex_type_list_def reader_defs real_units_def
        default_atom_type_def)
  have l: "(1::nat) < length ex_pair_rows" "(0::nat) < length ex_pair_rows"
    by (simp_all add: ex_pair_rows_def)
  from pair_rows_semantics [OF e l(1)] pair_rows_semantics [OF e l(2)] e show ?thesis
    by (simp add: ex_pair_rows_def ex_type_list_def default_atom_type_def)
qed

section \<open>Reduced-unit reference factors\<close>

lemma foldl_max_ge:
  "to_base m \<le> to_base (foldl (\<lambda>m y. if q_gt y m then y else m) m qs)"
proof (induction qs arbitrary: m)
  case Nil
  then show ?case by simp
next
  case (Cons y qs)
  have "to_base m \<le> to_base (if q_gt y m then y else m)"
    by (simp add: q_gt_def)
  also have "\<dots> \<le> to_base (foldl (\<lambda>m y. if q_gt y m then y else m) (if q_gt y m then y else m) qs)"
    by (rule Cons.IH)
  finally show ?case by simp
qed

lemma foldl_max_mem:
  "foldl (\<lambda>m y. if q_gt y m then y else m) m qs \<in> set (m # qs)"
proof (induction qs arbitrary: m)
  case Nil
  then show ?case by simp
next
  case (Cons y qs)
  from Cons.IH [of "if q_gt y m then y else m"] show ?case
    by (auto split: if_splits)
qed

lemma foldl_max_upper:
  "q \<in> set qs \<Longrightarrow> to_base q \<le> to_base (foldl (\<lambda>m y. if q_gt y m then y else m) m qs)"
proof (induction qs arbitrary: m)
  case Nil
  then show ?case by simp
next
  case (Cons y qs)
  show ?case
  proof (cases "q = y")
    case True
    have "to_base y \<le> to_base (if q_gt y m then y else m)"
      by (simp add: q_gt_def)
    also have "\<dots> \<le> to_base (foldl (\<lambda>m y. if q_gt y m then y else m)
                                   (if q_gt y m then y else m) qs)"
      by (rule foldl_max_ge)
    finally show ?thesis using True by simp
  next
    case False
    with Cons.prems have "q \<in> set qs" by simp
    from Cons.IH [OF this] show ?thesis by simp
  qed
qed

lemma py_max_is_max:
  assumes "py_max qs = Inr v"
  shows "v \<in> set qs \<and> (\<forall>q \<in> set qs. to_base q \<le> to_base v)"
proof (cases qs)
  case Nil
  with assms show ?thesis by (simp add: py_max_def)
next
  case (Cons q0 rest)
  with assms have v: "v = foldl (\<lambda>m y. if q_gt y m then y else m) q0 rest"
    by (simp add: py_max_def)
  have "v \<in> set (q0 # rest)" unfolding v by (rule foldl_max_mem)
  moreover have "to_base q0 \<le> to_base v" unfolding v by (rule foldl_max_ge)
  moreover have "\<forall>q \<in> set rest. to_base q \<le> to_base v"
    unfolding v by (blast intro: foldl_max_upper)
  ultimately show ?thesis using Cons by auto
qed

lemma py_max_cases: "py_max qs = Inl e \<Longrightarrow> e = ValueError \<and> qs = []"
  by (cases qs) (simp_all add: py_max_def)

lemma mapM_getitem_Inr:
  assumes "mapM_r (\<lambda>a. py_getitem (at_parameters a) key) ats = Inr qs"
  shows "qs = params_named key ats"
  using assms
  by (induction ats arbitrary: qs)
     (auto simp: params_named_def py_getitem_def split: sum.splits option.splits)

lemma mapM_getitem_total:
  assumes "list_all (\<lambda>a. map_of (at_parameters a) key \<noteq> None) ats"
  shows "\<exists>qs. mapM_r (\<lambda>a. py_getitem (at_parameters a) key) ats = Inr qs
              \<and> length qs = length ats"
  using assms
  by (induction ats) (auto simp: py_getitem_def split: sum.splits option.splits)

lemma default_lj_val_is_max:
  assumes "default_lj_val x topo key = Inr v"
  shows "v \<in> set (corresponding_quantities x topo key)
         \<and> (\<forall>q \<in> set (corresponding_quantities x topo key). to_base q \<le> to_base v)"
proof -
  have "\<exists>qs. py_max qs = Inr v \<and> qs = corresponding_quantities x topo key"
    using assms
    by (auto simp: default_lj_val_def corresponding_quantities_def bind_r_def
        dest: mapM_getitem_Inr split: if_splits sum.splits)
  then show ?thesis using py_max_is_max by blast
qed

lemma default_lj_val_errors:
  assumes "has_lj_parameters x topo" and "default_lj_val x topo key = Inl e"
  shows "e = ValueError"
proof -
  from assms(1) have
    s: "list_all (\<lambda>a. map_of (at_parameters a) ''sigma'' \<noteq> None) (e_atom_types x topo)" and
    e: "list_all (\<lambda>a. map_of (at_parameters a) ''epsilon'' \<noteq> None) (e_atom_types x topo)"
    by (simp_all add: has_lj_parameters_def list_all_iff)
  from mapM_getitem_total [OF s] mapM_getitem_total [OF e] assms(2) show ?thesis
    by (auto simp: default_lj_val_def bind_r_def dest: py_max_cases split: if_splits sum.splits)
qed

lemma default_lj_val_total:
  assumes "has_lj_parameters x topo" and "e_atom_types x topo \<noteq> []"
    and "key \<in> set defaultsList"
  shows "\<exists>v. default_lj_val x topo key = Inr v"
proof -
  from assms(1) have
    s: "list_all (\<lambda>a. map_of (at_parameters a) ''sigma'' \<noteq> None) (e_atom_types x topo)" and
    e: "list_all (\<lambda>a. map_of (at_parameters a) ''epsilon'' \<noteq> None) (e_atom_types x topo)"
    by (simp_all add: has_lj_parameters_def list_all_iff)
  have nonempty: "\<exists>v. py_max qs = Inr v" if "qs \<noteq> []" for qs
    using that by (cases qs) (simp_all add: py_max_def)
  from mapM_getitem_total [OF s] obtain qs1 where
    q1: "mapM_r (\<lambda>a. py_getitem (at_parameters a) ''sigma'') (e_atom_types x topo) = Inr qs1"
    and "length qs1 = length (e_atom_types x topo)" by blast
  with assms(2) have n1: "qs1 \<noteq> []" by auto
  from mapM_getitem_total [OF e] obtain qs2 where
    q2: "mapM_r (\<lambda>a. py_getitem (at_parameters a) ''epsilon'') (e_atom_types x topo) = Inr qs2"
    and "length qs2 = length (e_atom_types x topo)" by blast
  with assms(2) have n2: "qs2 \<noteq> []" by auto
  from assms(2) have n3: "map at_mass (e_atom_types x topo) \<noteq> []"
    and n4: "map at_charge (e_atom_types x topo) \<noteq> []" by simp_all
  from assms(3) q1 q2 nonempty [OF n1] nonempty [OF n2] nonempty [OF n3] nonempty [OF n4]
  show ?thesis
    by (auto simp: default_lj_val_def defaultsList_def bind_r_def)
qed

lemma lj_loop_keeps:
  assumes "lj_loop x topo keys d = Inr d'" and "map_of d k = Some v"
  shows "map_of d' k = Some v"
  using assms
proof (induction keys arbitrary: d)
  case Nil
  then show ?case by simp
next
  case (Cons key rest)
  show ?case
  proof (cases "truthy (map_of d key)")
    case True
    with Cons.prems(1) have "lj_loop x topo rest d = Inr d'"
      by (simp split: if_splits)
    from Cons.IH [OF this Cons.prems(2)] show ?thesis .
  next
    case False
    with Cons.prems(1) obtain dv where
      r: "lj_loop x topo rest
            (dict_set key (case map_of d key of None \<Rightarrow> dv | Some u \<Rightarrow> u) d) = Inr d'"
      by (auto split: if_splits sum.splits)
    have "map_of (dict_set key (case map_of d key of None \<Rightarrow> dv | Some u \<Rightarrow> u) d) k = Some v"
      using Cons.prems(2) by (auto simp: map_of_dict_set)
    from Cons.IH [OF r this] show ?thesis .
  qed
qed

lemma lj_loop_default:
  assumes "lj_loop x topo keys d = Inr d'" and "key \<in> set keys" and "map_of d key = None"
  shows "\<exists>v. default_lj_val x topo key = Inr v \<and> map_of d' key = Some v"
  using assms
proof (induction keys arbitrary: d)
  case Nil
  then show ?case by simp
next
  case (Cons k rest)
  show ?case
  proof (cases "k = key")
    case True
    with Cons.prems(1,3) obtain dv where
      dv: "default_lj_val x topo key = Inr dv" and
      r: "lj_loop x topo rest (dict_set key dv d) = Inr d'"
      by (auto simp: truthy_def split: if_splits sum.splits)
    have "map_of (dict_set key dv d) key = Some dv" by (simp add: map_of_dict_set)
    from lj_loop_keeps [OF r this] dv show ?thesis by blast
  next
    case False
    with Cons.prems(2) have mem: "key \<in> set rest" by simp
    show ?thesis
    proof (cases "truthy (map_of d k)")
      case True
      with Cons.prems(1) have "lj_loop x topo rest d = Inr d'"
        by (simp split: if_splits)
      from Cons.IH [OF this mem Cons.prems(3)] show ?thesis .
    next
      case nt: False
      with Cons.prems(1) obtain dv where
        r: "lj_loop x topo rest
              (dict_set k (case map_of d k of None \<Rightarrow> dv | Some u \<Rightarrow> u) d) = Inr d'"
        by (auto split: if_splits sum.splits)
      have "map_of (dict_set k (case map_of d k of None \<Rightarrow> dv | Some u \<Rightarrow> u) d) key = None"
        using False Cons.prems(3) by (simp add: map_of_dict_set)
      from Cons.IH [OF r mem this] show ?thesis .
    qed
  qed
qed

lemma lj_loop_total:
  assumes "has_lj_parameters x topo" and "e_atom_types x topo \<noteq> []"
    and "set keys \<subseteq> set defaultsList"
  shows "\<exists>d'. lj_loop x topo keys d = Inr d'"
  using assms(3)
proof (induction keys arbitrary: d)
  case Nil
  then show ?case by simp
next
  case (Cons k rest)
  then have k: "k \<in> set defaultsList" and rest: "set rest \<subseteq> set defaultsList" by simp_all
  from default_lj_val_total [OF assms(1,2) k] obtain v where "default_lj_val x topo k = Inr v"
    by blast
  with k Cons.IH [OF rest] show ?case by simp
qed

lemma lj_loop_bad_key:
  assumes "has_lj_parameters x topo" and "\<not> set keys \<subseteq> set defaultsList"
  shows "lj_loop x topo keys d = Inl ValueError"
  using assms(2)
proof (induction keys arbitrary: d)
  case Nil
  then show ?case by simp
next
  case (Cons k rest)
  show ?case
  proof (cases "k \<in> set defaultsList")
    case False
    then show ?thesis by simp
  next
    case True
    with Cons.prems have "\<not> set rest \<subseteq> set defaultsList" by simp
    note ih = Cons.IH [OF this]
    show ?thesis
    proof (cases "default_lj_val x topo k")
      case (Inl e)
      with default_lj_val_errors [OF assms(1) Inl] True ih show ?thesis by simp
    next
      case (Inr v)
      with True ih show ?thesis by simp
    qed
  qed
qed

lemma write_lammpsdata_lj:
  assumes "atom_style \<in> set [''full'', ''atomic'', ''molecular'', ''charge'']"
    and "(if strict_potentials
          then (case e_check_compatibility x topo of Some e \<Rightarrow> Inl e | None \<Rightarrow> Inr topo)
          else try_default_potential_conversions x topo default_parameterMaps) = Inr topo'"
  shows "write_lammpsdata x w topo filename atom_style ''lj'' strict_potentials False lj =
     (case resolve_lj_cfactors x topo' lj of
        Inl e \<Rightarrow> (Some e, w)
      | Inr d \<Rightarrow>
          if w_parent_exists w filename
          then (snd (write_body x topo' atom_style (e_unit_system x ''lj'') (Some d)),
                w\<lparr>w_files := (w_files w)(filename \<mapsto>
                     fst (write_body x topo' atom_style (e_unit_system x ''lj'') (Some d)))\<rparr>)
          else (Some FileNotFoundError, w))"
proof -
  have s: "''lj'' \<in> set supported_unit_styles"
    by (simp add: supported_unit_styles_def)
  show ?thesis
    unfolding write_lammpsdata_def Let_def
    using assms(1) s
    by (simp only: assms(2) if_False if_True not_True_eq_False not_False_eq_True simp_thms
        sum.case split_beta)
       (simp split: sum.splits)
qed

text \<open>
  C4, as the claim states it, fails: with an atom type that has no \<open>sigma\<close> parameter,
  a call that passes a key outside the four names raises \<open>KeyError\<close>, not \<open>ValueError\<close>:
  the defaults of the four names are computed before the passed keys are looked at.
\<close>

theorem lj_cfactors_key_counterexample:
  "write_lammpsdata ex_ext ex_world ex_top_one_parameter ''out.lammps'' ''full'' ''lj''
     False False (Some [(''time'', Q 1 dimensionless)]) = (Some KeyError, ex_world)
   \<and> ''time'' \<notin> set defaultsList
   \<and> Some KeyError \<noteq> Some ValueError"
  by (simp add: write_lammpsdata_def supported_unit_styles_def default_parameterMaps_def
      resolve_lj_cfactors_def truthy_def default_lj_val_def defaultsList_def bind_r_def
      py_getitem_def conns_def types_of_def site_types_def ex_ext_def ex_top_one_parameter_def
      ex_top_def ex_site_def one_parameter_type_def default_atom_type_def kind_strs_def)

text \<open>
  C4 (amended). Take a call of \<open>write_lammpsdata\<close> with a supported atom style, unit
  style \<open>lj\<close> and no strict units, in which the check of the potentials that comes
  before the resolution succeeds (the strict compatibility check, or the default
  conversions, which raise \<open>AttributeError\<close> for connections without types) and leaves
  the topology \<open>topo'\<close>. Whenever the resolution of the reference factors succeeds, the
  file is written with the resolved factors, and a key among length, energy, mass,
  charge that the call has no entry for is resolved to the maximum of the corresponding
  quantity over the atom types of \<open>topo'\<close>. When every atom type has a \<open>sigma\<close> and an
  \<open>epsilon\<close> parameter, the resolution succeeds for a topology with at least one atom
  type and keys among the four, and a key outside the four makes the call raise
  \<open>ValueError\<close> and leave the file system as it was.
\<close>

theorem lj_cfactors_resolution:
  assumes "atom_style \<in> set [''full'', ''atomic'', ''molecular'', ''charge'']"
    and "(if strict_potentials
          then (case e_check_compatibility x topo of Some e \<Rightarrow> Inl e | None \<Rightarrow> Inr topo)
          else try_default_potential_conversions x topo default_parameterMaps) = Inr topo'"
  shows
   "(\<forall>d'. resolve_lj_cfactors x topo' lj = Inr d' \<longrightarrow>
       write_lammpsdata x w topo filename atom_style ''lj'' strict_potentials False lj
         = (if w_parent_exists w filename
            then (snd (write_body x topo' atom_style (e_unit_system x ''lj'') (Some d')),
                  w\<lparr>w_files := (w_files w)(filename \<mapsto>
                       fst (write_body x topo' atom_style (e_unit_system x ''lj'') (Some d')))\<rparr>)
            else (Some FileNotFoundError, w))
       \<and> (\<forall>key \<in> set defaultsList.
             map_of (case lj of None \<Rightarrow> [] | Some d \<Rightarrow> d) key = None \<longrightarrow>
             (\<exists>v. map_of d' key = Some v
                \<and> v \<in> set (corresponding_quantities x topo' key)
                \<and> (\<forall>q \<in> set (corresponding_quantities x topo' key).
                      to_base q \<le> to_base v))))
    \<and> (has_lj_parameters x topo' \<and> e_atom_types x topo' \<noteq> []
        \<and> set (map fst (case lj of None \<Rightarrow> [] | Some d \<Rightarrow> d)) \<subseteq> set defaultsList
      \<longrightarrow> (\<exists>d'. resolve_lj_cfactors x topo' lj = Inr d'))
    \<and> (has_lj_parameters x topo'
        \<and> \<not> set (map fst (case lj of None \<Rightarrow> [] | Some d \<Rightarrow> d)) \<subseteq> set defaultsList
      \<longrightarrow> write_lammpsdata x w topo filename atom_style ''lj'' strict_potentials False lj
            = (Some ValueError, w))"
proof (intro conjI allI impI ballI)
  fix d'
  assume a: "resolve_lj_cfactors x topo' lj = Inr d'"
  with write_lammpsdata_lj [OF assms, of w filename lj]
  show "write_lammpsdata x w topo filename atom_style ''lj'' strict_potentials False lj
         = (if w_parent_exists w filename
            then (snd (write_body x topo' atom_style (e_unit_system x ''lj'') (Some d')),
                  w\<lparr>w_files := (w_files w)(filename \<mapsto>
                       fst (write_body x topo' atom_style (e_unit_system x ''lj'') (Some d')))\<rparr>)
            else (Some FileNotFoundError, w))"
    by simp
next
  fix d' key
  assume a: "resolve_lj_cfactors x topo' lj = Inr d'"
    and k0: "key \<in> set defaultsList"
    and n0: "map_of (case lj of None \<Rightarrow> [] | Some d \<Rightarrow> d) key = None"
  define d where "d = (case lj of None \<Rightarrow> [] | Some d \<Rightarrow> d)"
  from a k0 n0 have l: "lj_loop x topo' (defaultsList @ map fst d) d = Inr d'"
    and k: "key \<in> set (defaultsList @ map fst d)" and n: "map_of d key = None"
    by (simp_all add: resolve_lj_cfactors_def d_def Let_def)
  from lj_loop_default [OF l k n] obtain v where
    "default_lj_val x topo' key = Inr v" and "map_of d' key = Some v" by blast
  with default_lj_val_is_max [of x topo' key v]
  show "\<exists>v. map_of d' key = Some v
             \<and> v \<in> set (corresponding_quantities x topo' key)
             \<and> (\<forall>q \<in> set (corresponding_quantities x topo' key). to_base q \<le> to_base v)"
    by blast
next
  assume a: "has_lj_parameters x topo' \<and> e_atom_types x topo' \<noteq> []
        \<and> set (map fst (case lj of None \<Rightarrow> [] | Some d \<Rightarrow> d)) \<subseteq> set defaultsList"
  then have "set (defaultsList @ map fst (case lj of None \<Rightarrow> [] | Some d \<Rightarrow> d))
      \<subseteq> set defaultsList" by simp
  from lj_loop_total [OF _ _ this] a
  show "\<exists>d'. resolve_lj_cfactors x topo' lj = Inr d'"
    by (simp add: resolve_lj_cfactors_def Let_def)
next
  assume a: "has_lj_parameters x topo'
        \<and> \<not> set (map fst (case lj of None \<Rightarrow> [] | Some d \<Rightarrow> d)) \<subseteq> set defaultsList"
  then have "\<not> set (defaultsList @ map fst (case lj of None \<Rightarrow> [] | Some d \<Rightarrow> d))
      \<subseteq> set defaultsList" by simp
  from lj_loop_bad_key [OF _ this] a
  have "resolve_lj_cfactors x topo' lj = Inl ValueError"
    by (simp add: resolve_lj_cfactors_def Let_def)
  with write_lammpsdata_lj [OF assms, of w filename lj]
  show "write_lammpsdata x w topo filename atom_style ''lj'' strict_potentials False lj
            = (Some ValueError, w)"
    by simp
qed

theorem lj_cfactors_resolution_witness:
  "write_lammpsdata ex_ext ex_world ex_top ''out.lammps'' ''full'' ''lj'' False False
       (Some [(''time'', Q 1 dimensionless)]) = (Some ValueError, ex_world)
   \<and> resolve_lj_cfactors ex_ext ex_top None
     = Inr [(''length'', Q (7 / 2) angstrom), (''energy'', Q (66 / 1000) kcal_mol),
            (''mass'', Q (12011 / 1000) g_mol), (''charge'', Q 0 e_charge)]
   \<and> write_lammpsdata ex_ext ex_world ex_top ''out.lammps'' ''full'' ''lj'' False False None
     = (snd (write_body ex_ext ex_top ''full'' lj_units
               (Some [(''length'', Q (7 / 2) angstrom), (''energy'', Q (66 / 1000) kcal_mol),
                      (''mass'', Q (12011 / 1000) g_mol), (''charge'', Q 0 e_charge)])),
        ex_world\<lparr>w_files := (w_files ex_world)(''out.lammps'' \<mapsto>
           fst (write_body ex_ext ex_top ''full'' lj_units
               (Some [(''length'', Q (7 / 2) angstrom), (''energy'', Q (66 / 1000) kcal_mol),
                      (''mass'', Q (12011 / 1000) g_mol), (''charge'', Q 0 e_charge)])))\<rparr>)
   \<and> Q (12011 / 1000) g_mol \<in> set (corresponding_quantities ex_ext ex_top ''mass'')
   \<and> list_all (\<lambda>q. to_base q \<le> to_base (Q (12011 / 1000) g_mol))
         (corresponding_quantities ex_ext ex_top ''mass'')
   \<and> has_lj_parameters ex_ext ex_top"
proof -
  have s: "''full'' \<in> set [''full'', ''atomic'', ''molecular'', ''charge'']"
    by simp
  have p: "(if False
          then (case e_check_compatibility ex_ext ex_top of Some e \<Rightarrow> Inl e | None \<Rightarrow> Inr ex_top)
          else try_default_potential_conversions ex_ext ex_top default_parameterMaps) = Inr ex_top"
    by (simp add: default_parameterMaps_def ex_ext_def conns_def types_of_def ex_top_def)
  have e: "resolve_lj_cfactors ex_ext ex_top None
     = Inr [(''length'', Q (7 / 2) angstrom), (''energy'', Q (66 / 1000) kcal_mol),
            (''mass'', Q (12011 / 1000) g_mol), (''charge'', Q 0 e_charge)]"
    by (simp add: resolve_lj_cfactors_def truthy_def default_lj_val_def defaultsList_def
        bind_r_def py_getitem_def py_max_def q_gt_def to_base_def ex_ext_def site_types_def
        ex_top_def ex_site_def type_C_def type_H_def lj_type_sel lj_type_def
        default_atom_type_def angstrom_def kcal_mol_def g_mol_def e_charge_def avogadro_def)
  have h: "has_lj_parameters ex_ext ex_top"
    by (simp add: has_lj_parameters_def ex_ext_def site_types_def ex_top_def ex_site_def
        type_C_def type_H_def lj_type_sel)
  have k: "''mass'' \<in> set defaultsList"
    "\<not> set (map fst [(''time'', Q 1 dimensionless)]) \<subseteq> set defaultsList"
    by (simp_all add: defaultsList_def)
  have u: "e_unit_system ex_ext ''lj'' = lj_units" "w_parent_exists ex_world ''out.lammps''"
    by (simp_all add: ex_ext_def ex_world_def)
  note t = lj_cfactors_resolution [OF s p]
  from t [of None ex_world "''out.lammps''"] e k(1) u
  have m: "write_lammpsdata ex_ext ex_world ex_top ''out.lammps'' ''full'' ''lj'' False False None
     = (snd (write_body ex_ext ex_top ''full'' lj_units
               (Some [(''length'', Q (7 / 2) angstrom), (''energy'', Q (66 / 1000) kcal_mol),
                      (''mass'', Q (12011 / 1000) g_mol), (''charge'', Q 0 e_charge)])),
        ex_world\<lparr>w_files := (w_files ex_world)(''out.lammps'' \<mapsto>
           fst (write_body ex_ext ex_top ''full'' lj_units
               (Some [(''length'', Q (7 / 2) angstrom), (''energy'', Q (66 / 1000) kcal_mol),
                      (''mass'', Q (12011 / 1000) g_mol), (''charge'', Q 0 e_charge)])))\<rparr>)
     \<and> Q (12011 / 1000) g_mol \<in> set (corresponding_quantities ex_ext ex_top ''mass'')
     \<and> (\<forall>q \<in> set (corresponding_quantities ex_ext ex_top ''mass'').
          to_base q \<le> to_base (Q (12011 / 1000) g_mol))"
    by (simp add: defaultsList_def)
  from t [of "Some [(''time'', Q 1 dimensionless)]" ex_world "''out.lammps''"] h k(2)
  have v: "write_lammpsdata ex_ext ex_world ex_top ''out.lammps'' ''full'' ''lj'' False False
       (Some [(''time'', Q 1 dimensionless)]) = (Some ValueError, ex_world)"
    by simp
  from e m h v show ?thesis by (simp add: list_all_iff)
qed

section \<open>Canonical order of the type tables\<close>

lemma mapM_r_InrD:
  assumes "mapM_r g xs = Inr ys"
  shows "(\<forall>x \<in> set xs. \<exists>y. g x = Inr y) \<and> ys = map (\<lambda>x. projr (g x)) xs"
  using assms by (induction xs arbitrary: ys) (auto split: sum.splits)

lemma mapM_r_InrI:
  assumes "\<forall>x \<in> set xs. \<exists>y. g x = Inr y"
  shows "mapM_r g xs = Inr (map (\<lambda>x. projr (g x)) xs)"
  using assms by (induction xs) auto

lemma mapM_r_mset:
  assumes "mapM_r g xs = Inr ys" and "mset xs = mset xs'"
  shows "\<exists>ys'. mapM_r g xs' = Inr ys' \<and> mset ys' = mset ys"
proof -
  from assms(2) have s: "set xs' = set xs" by (metis set_mset_mset)
  from mapM_r_InrD [OF assms(1)]
  have a: "\<forall>x \<in> set xs. \<exists>y. g x = Inr y" and ys: "ys = map (\<lambda>x. projr (g x)) xs"
    by simp_all
  from a s have "mapM_r g xs' = Inr (map (\<lambda>x. projr (g x)) xs')"
    by (intro mapM_r_InrI) simp
  moreover have "mset (map (\<lambda>x. projr (g x)) xs') = mset ys"
    using assms(2) ys by (metis mset_map)
  ultimately show ?thesis by blast
qed

lemma zip_map_key: "zip (map h xs) xs = map (\<lambda>x. (h x, x)) xs"
  by (induction xs) simp_all

lemma index_list_mset_eq:
  assumes "mapM_r h l = Inr ks" and "inj_on h (set l)" and "mset l' = mset l"
  shows "\<exists>ks'. mapM_r h l' = Inr ks'
           \<and> map snd (sort_key fst (zip ks' l')) = map snd (sort_key fst (zip ks l))"
proof -
  define H where "H = (\<lambda>m. projr (h m))"
  from mapM_r_InrD [OF assms(1)]
  have a: "\<forall>m \<in> set l. \<exists>y. h m = Inr y" and ks: "ks = map H l"
    by (simp_all add: H_def)
  from assms(3) have s: "set l' = set l" by (metis set_mset_mset)
  with a have ks': "mapM_r h l' = Inr (map H l')"
    unfolding H_def by (intro mapM_r_InrI) simp
  have inj: "inj_on H (set l)"
  proof (rule inj_onI)
    fix m m' assume m: "m \<in> set l" "m' \<in> set l" and e: "H m = H m'"
    from a m obtain y y' where "h m = Inr y" "h m' = Inr y'" by blast
    with e have "h m = h m'" by (simp add: H_def)
    with assms(2) m show "m = m'" by (auto dest: inj_onD)
  qed
  have z: "zip (map H l) l = map (\<lambda>m. (H m, m)) l" "zip (map H l') l' = map (\<lambda>m. (H m, m)) l'"
    by (rule zip_map_key)+
  have m: "mset (map (\<lambda>m. (H m, m)) l') = mset (map (\<lambda>m. (H m, m)) l)"
    using assms(3) by (metis mset_map)
  have "inj_on fst (set (map (\<lambda>m. (H m, m)) l'))"
    using inj s by (auto simp: inj_on_def)
  then have d: "sort_key fst (map (\<lambda>m. (H m, m)) l') = sort_key fst (map (\<lambda>m. (H m, m)) l)"
    by (rule sort_key_eq_sort_key [OF m])
  from ks' ks z d show ?thesis by simp
qed

lemma mapM_r_length:
  assumes "mapM_r g xs = Inr ys"
  shows "length ys = length xs"
  using mapM_r_InrD [OF assms] by simp

lemma sorted_by_mset:
  assumes "distinct_keys f l" and "mset l' = mset l"
  shows "sorted_by f l' = sorted_by f l"
proof -
  from assms(1) obtain ks where ks: "mapM_r f l = Inr ks" and d: "distinct ks"
    by (auto simp: distinct_keys_def split: sum.splits)
  from mapM_r_InrD [OF ks] have a: "\<forall>m \<in> set l. \<exists>y. f m = Inr y"
    and km: "ks = map (\<lambda>m. projr (f m)) l" by simp_all
  from d km have "inj_on (\<lambda>m. projr (f m)) (set l)" by (simp add: distinct_map)
  then have "inj_on f (set l)" by (auto simp: inj_on_def)
  from index_list_mset_eq [OF ks this assms(2)] ks show ?thesis
    by (auto simp: sorted_by_def bind_r_def)
qed

lemma try_r_header:
  assumes "map_sum id h m2 = map_sum id h m1" and "\<And>t. G t = G' (h t)"
  shows "try_r m2 G = try_r m1 G"
  using assms(1) by (cases m1; cases m2) (simp_all add: try_r_def assms(2))

lemma atom_types_sorted_mset:
  assumes "mset (e_atom_types_uniq x t2) = mset (e_atom_types_uniq x t1)"
    and "distinct (map at_name (e_atom_types_uniq x t1))"
  shows "atom_types_sorted x t2 = atom_types_sorted x t1"
proof -
  from assms(2) have "inj_on at_name (set (e_atom_types_uniq x t1))"
    by (simp add: distinct_map)
  with assms(1) show ?thesis
    unfolding atom_types_sorted_def
    by (intro sort_key_eq_sort_key [symmetric]) simp_all
qed

lemma write_pairtypes_canonical:
  assumes "atom_types_sorted x t2 = atom_types_sorted x t1"
    and "pair_header b (first_site_type t2) = pair_header b (first_site_type t1)"
  shows "write_pairtypes x t2 b cf = write_pairtypes x t1 b cf"
  unfolding write_pairtypes_def assms(1)
  by (rule try_r_header [OF assms(2) [unfolded pair_header_def],
        where G' = "\<lambda>p. seq (emit [[], [TStr ''Pair'', TStr ''Coeffs'', TStr ''#'', TStr (fst p)]])
           (try_r (snd p) (\<lambda>labels. seq (emit [labels])
              (rows (\<lambda>idx param.
                bind_r (row_params b cf 5 False (at_parameters param) [''epsilon'', ''sigma''])
                  (\<lambda>ps. Inr ([TInt (int idx + 1)] @ ps @ [TStr ''#'', TStr (at_name param)])))
             0 (atom_types_sorted x t1))))"]) simp

lemma write_bondtypes_canonical:
  assumes "mset (e_types_uniq x Bond t2) = mset (e_types_uniq x Bond t1)"
    and "distinct_keys bond_key (e_types_uniq x Bond t1)"
    and "table_header b [''k'', ''r_eq''] (first_conn_type (bonds t2))
         = table_header b [''k'', ''r_eq''] (first_conn_type (bonds t1))"
  shows "write_bondtypes x t2 b cf = write_bondtypes x t1 b cf"
proof -
  have k: "(\<lambda>t. bind_r (member_types_of t) (\<lambda>ms. Inr (sort ms))) = bond_key"
    by (simp add: bond_key_def fun_eq_iff)
  note s = sorted_by_mset [OF assms(2,1)]
  show ?thesis
    unfolding write_bondtypes_def k s
    by (rule try_r_header [OF assms(3) [unfolded table_header_def],
        where G' = "\<lambda>p. seq (emit [[], [TStr ''Bond'', TStr ''Coeffs'', TStr (''#'' @ fst p)]])
           (try_r (snd p) (\<lambda>labels. seq (emit [labels])
    (try_r (sorted_by bond_key (e_types_uniq x Bond t1)) (\<lambda>bond_types.
       rows (\<lambda>idx bond_type.
               bind_r (member_types_of bond_type) (\<lambda>ms.
               bind_r (str_at ms 0) (\<lambda>m0.
               bind_r (str_at ms 1) (\<lambda>m1.
               bind_r (row_params b cf 6 False (ct_parameters bond_type) [''k'', ''r_eq''])
                 (\<lambda>ps. Inr ([TInt (int idx + 1)] @ ps @ [TStr ''#''] @ map TStr (sort [m0, m1])))))))
            0 bond_types))))"]) (simp add: coeffs_title_def)
qed

lemma write_angletypes_canonical:
  assumes "mset (e_types_uniq x Angle t2) = mset (e_types_uniq x Angle t1)"
    and "distinct_keys angle_key (e_types_uniq x Angle t1)"
    and "table_header b [''k'', ''theta_eq''] (first_conn_type (angles t2))
         = table_header b [''k'', ''theta_eq''] (first_conn_type (angles t1))"
  shows "write_angletypes x t2 b cf = write_angletypes x t1 b cf"
proof -
  note s = sorted_by_mset [OF assms(2,1)]
  show ?thesis
    unfolding write_angletypes_def s
    by (rule try_r_header [OF assms(3) [unfolded table_header_def],
        where G' = "\<lambda>p. seq (emit [[], [TStr ''Angle'', TStr ''Coeffs'', TStr (''#'' @ fst p)]])
           (try_r (snd p) (\<lambda>labels. seq (emit [labels])
    (try_r (sorted_by angle_key (e_types_uniq x Angle t1)) (\<lambda>indexList.
       rows (\<lambda>idx angle_type.
               bind_r (row_params b cf 6 True (ct_parameters angle_type) [''k'', ''theta_eq''])
                 (\<lambda>ps. bind_r (member_types_of angle_type) (\<lambda>ms.
                        bind_r (pick [0, 1, 2] ms) (\<lambda>m.
                          Inr ([TInt (int idx + 1)] @ ps
                               @ [TStr (''#'' @ m ! 0), TStr (m ! 1), TStr (m ! 2)])))))
            0 indexList))))"]) (simp add: coeffs_title_def)
qed

lemma with_members_zip:
  assumes "mapM_r g ts = Inr l"
  shows "mapM_r (\<lambda>t. bind_r (g t) (\<lambda>ms. Inr (t, ms))) ts = Inr (zip ts l)"
  using assms
  by (induction ts arbitrary: l) (auto simp: bind_r_def split: sum.splits)

lemma mapM_r_snd_zip:
  assumes "length ts = length l"
  shows "mapM_r (\<lambda>p. f (snd p)) (zip ts l) = mapM_r f l"
  using assms by (induction rule: list_induct2) (auto split: sum.splits)

lemma pairs_sorted_canonical:
  assumes "mset ts2 = mset ts1" and "mapM_r g ts1 = Inr l" and "distinct_keys f l"
  shows "bind_r (mapM_r (\<lambda>t. bind_r (g t) (\<lambda>ms. Inr (t, ms))) ts2) (sorted_by (\<lambda>p. f (snd p)))
       = bind_r (mapM_r (\<lambda>t. bind_r (g t) (\<lambda>ms. Inr (t, ms))) ts1) (sorted_by (\<lambda>p. f (snd p)))"
proof -
  note w1 = with_members_zip [OF assms(2)]
  from mapM_r_mset [OF w1 assms(1) [symmetric]] obtain ps2 where
    w2: "mapM_r (\<lambda>t. bind_r (g t) (\<lambda>ms. Inr (t, ms))) ts2 = Inr ps2"
    and m: "mset ps2 = mset (zip ts1 l)" by blast
  from mapM_r_length [OF assms(2)] have "length ts1 = length l" by simp
  from mapM_r_snd_zip [OF this, of f] assms(3)
  have "distinct_keys (\<lambda>p. f (snd p)) (zip ts1 l)"
    by (simp add: distinct_keys_def)
  from sorted_by_mset [OF this m] w1 w2 show ?thesis
    by (simp add: bind_r_def)
qed

lemma write_dihedraltypes_canonical:
  assumes "mset (e_types_uniq x Dihedral t2) = mset (e_types_uniq x Dihedral t1)"
    and "distinct_member_keys x t1 Dihedral"
    and "table_header b [''k1'', ''k2'', ''k3'', ''k4''] (first_conn_type (dihedrals t2))
         = table_header b [''k1'', ''k2'', ''k3'', ''k4''] (first_conn_type (dihedrals t1))"
  shows "write_dihedraltypes x t2 b cf = write_dihedraltypes x t1 b cf"
proof -
  from assms(2) obtain l where l: "mapM_r (e_sort_by_types x) (e_types_uniq x Dihedral t1) = Inr l"
    and d0: "distinct_keys (sorting_func Dihedral) l"
    by (auto simp: distinct_member_keys_def member_tuples_def split: sum.splits)
  have "sorting_func Dihedral = pick [1, 2, 0, 3]"
    by (rule ext) (simp only: sorting_func.simps)
  with d0 have d: "distinct_keys (pick [1, 2, 0, 3]) l" by simp
  note s = pairs_sorted_canonical [OF assms(1) l d]
  show ?thesis
    unfolding write_dihedraltypes_def with_members_def s
    by (rule try_r_header [OF assms(3) [unfolded table_header_def],
        where G' = "\<lambda>p. seq (emit [[], [TStr ''Dihedral'', TStr ''Coeffs'', TStr (''#'' @ fst p)]])
           (try_r (snd p) (\<lambda>labels. seq (emit [labels])
    (try_r (bind_r (mapM_r (\<lambda>t. bind_r (e_sort_by_types x t) (\<lambda>ms. Inr (t, ms)))
                     (e_types_uniq x Dihedral t1))
              (sorted_by (\<lambda>p. pick [1, 2, 0, 3] (snd p)))) (\<lambda>index_membersList.
       rows (\<lambda>idx p.
               bind_r (row_params b cf 6 True (ct_parameters (fst p))
                         [''k1'', ''k2'', ''k3'', ''k4''])
                 (\<lambda>ps. bind_r (pick [0, 1, 2, 3] (snd p)) (\<lambda>m.
                          Inr ([TInt (int idx + 1)] @ ps @ [TStr ''#''] @ map TStr m))))
            0 index_membersList))))"]) (simp add: coeffs_title_def)
qed

lemma write_impropertypes_canonical:
  assumes "mset (e_types_uniq x Improper t2) = mset (e_types_uniq x Improper t1)"
    and "distinct_member_keys x t1 Improper"
    and "table_header b [''k'', ''phi_eq''] (first_conn_type (impropers t2))
         = table_header b [''k'', ''phi_eq''] (first_conn_type (impropers t1))"
  shows "write_impropertypes x t2 b cf = write_impropertypes x t1 b cf"
proof -
  from assms(2) obtain l where l: "mapM_r (e_sort_by_types x) (e_types_uniq x Improper t1) = Inr l"
    and d0: "distinct_keys (sorting_func Improper) l"
    by (auto simp: distinct_member_keys_def member_tuples_def split: sum.splits)
  have "sorting_func Improper = pick [0, 1, 2, 3]"
    by (rule ext) (simp only: sorting_func.simps)
  with d0 have d: "distinct_keys (pick [0, 1, 2, 3]) l" by simp
  note s = pairs_sorted_canonical [OF assms(1) l d]
  show ?thesis
    unfolding write_impropertypes_def with_members_def s
    by (rule try_r_header [OF assms(3) [unfolded table_header_def],
        where G' = "\<lambda>p. seq (emit [[], [TStr ''Improper'', TStr ''Coeffs'', TStr (''#'' @ fst p)]])
           (try_r (snd p) (\<lambda>labels. seq (emit [labels])
    (try_r (bind_r (mapM_r (\<lambda>t. bind_r (e_sort_by_types x t) (\<lambda>ms. Inr (t, ms)))
                     (e_types_uniq x Improper t1))
              (sorted_by (\<lambda>p. pick [0, 1, 2, 3] (snd p)))) (\<lambda>index_membersList.
       rows (\<lambda>idx p.
               bind_r (row_params b cf 6 True (ct_parameters (fst p)) [''k'', ''phi_eq''])
                 (\<lambda>ps. Inr ([TInt (int idx + 1)] @ ps)))
            0 index_membersList))))"]) (simp add: coeffs_title_def)
qed

lemma conn_index_list_canonical:
  assumes "mset (e_types_uniq x k t2) = mset (e_types_uniq x k t1)"
    and "distinct_member_keys x t1 k"
  shows "conn_index_list x t2 k = conn_index_list x t1 k"
proof -
  from assms(2) obtain l where l: "member_tuples x t1 k = Inr l"
    and d: "distinct_keys (sorting_func k) l"
    by (auto simp: distinct_member_keys_def split: sum.splits)
  from l have "mapM_r (e_sort_by_types x) (e_types_uniq x k t1) = Inr l"
    by (simp add: member_tuples_def)
  from mapM_r_mset [OF this assms(1) [symmetric]] obtain l' where
    l': "member_tuples x t2 k = Inr l'" and m: "mset l' = mset l"
    by (auto simp: member_tuples_def)
  have c: "conn_index_list x t k = bind_r (member_tuples x t k) (sorted_by (sorting_func k))" for t
    by (cases "member_tuples x t k") (simp_all add: conn_index_list_def sorted_by_def bind_r_def)
  from sorted_by_mset [OF d m] l l' show ?thesis
    by (simp add: c bind_r_def)
qed

lemma write_site_data_rows:
  assumes "write_site_data x topo atom_style b cf = (ls, None)"
  shows "length ls = 3 + length (sites topo)
       \<and> (\<forall>i < length (sites topo).
             site_row x atom_style b cf (atom_types_sorted x topo) i (sites topo ! i)
               = Inr (ls ! (3 + i)))"
proof -
  from assms obtain l2 where
    r: "rows (site_row x atom_style b cf (atom_types_sorted x topo)) 0 (sites topo) = (l2, None)"
    and ls: "ls = [[], [TStr ''Atoms'', TStr (''#'' @ atom_style)], []] @ l2"
    unfolding write_site_data_def by (auto dest!: seq_NoneD simp: emit_def)
  from rows_length [OF r] ls have "length ls = 3 + length (sites topo)" by simp
  moreover have "site_row x atom_style b cf (atom_types_sorted x topo) i (sites topo ! i)
               = Inr (ls ! (3 + i))" if "i < length (sites topo)" for i
    using rows_nth [OF r that] ls by (simp add: nth_append)
  ultimately show ?thesis by blast
qed

lemma write_conn_data_rows:
  assumes "write_conn_data x topo k = (ls, None)"
  shows "\<exists>indexList. conn_index_list x topo k = Inr indexList
         \<and> length ls = 3 + length (conns k topo)
         \<and> (\<forall>i < length (conns k topo).
               conn_row x topo indexList i (conns k topo ! i) = Inr (ls ! (3 + i)))"
proof -
  from assms obtain l2 where
    t: "try_r (conn_index_list x topo k)
       (\<lambda>indexList. rows (conn_row x topo indexList) 0 (conns k topo)) = (l2, None)"
    and ls: "ls = [[], [TStr (kind_caps k)], []] @ l2"
    unfolding write_conn_data_def by (auto dest!: seq_NoneD simp: emit_def)
  from try_r_NoneD [OF t] obtain indexList where
    c: "conn_index_list x topo k = Inr indexList"
    and r: "rows (conn_row x topo indexList) 0 (conns k topo) = (l2, None)" by blast
  from rows_length [OF r] ls have "length ls = 3 + length (conns k topo)" by simp
  moreover have "conn_row x topo indexList i (conns k topo ! i) = Inr (ls ! (3 + i))"
    if "i < length (conns k topo)" for i
    using rows_nth [OF r that] ls by (simp add: nth_append)
  ultimately show ?thesis using c by blast
qed

lemmas ex3_defs = ex_top3_def ex_top3_permuted_def type_O_def ex_bond_type_OH_def

lemma ex3_atom_types:
  "e_atom_types_uniq ex_ext ex_top3 = [type_C, type_H, type_O]"
  "e_atom_types_uniq ex_ext ex_top3_permuted = [type_O, type_H, type_C]"
  by (simp_all add: ex_ext_def site_types_def ex_top_def ex3_defs ex_site_def
      type_C_def type_H_def lj_type_sel)

lemma ex3_bond_types:
  "e_types_uniq ex_ext Bond ex_top3 = [ex_bond_type, ex_bond_type_OH]"
  "e_types_uniq ex_ext Bond ex_top3_permuted = [ex_bond_type_OH, ex_bond_type]"
  by (simp_all add: ex_ext_def conns_def types_of_def names_of_def ex_top_def ex3_defs
      ex_bond_type_def)

lemma ex3_other_types:
  "k \<noteq> Bond \<Longrightarrow> e_types_uniq ex_ext k ex_top3 = []"
  "k \<noteq> Bond \<Longrightarrow> e_types_uniq ex_ext k ex_top3_permuted = []"
  by (cases k; simp add: ex_ext_def conns_def types_of_def ex_top_def ex3_defs)+

lemma ex3_sorted:
  "atom_types_sorted ex_ext ex_top3 = [type_C, type_H, type_O]"
  by (simp add: atom_types_sorted_def ex3_atom_types type_C_def type_H_def type_O_def lj_type_sel)

lemma ex3_site_data:
  "write_site_data ex_ext ex_top3 ''full'' real_units None
     = ([[], [TStr ''Atoms'', TStr ''#full''], [],
         [TInt 1, TInt 0, TInt 1, TNum 0, TNum 0, TNum 0, TNum 0],
         [TInt 2, TInt 0, TInt 2, TNum 0, TNum 1, TNum 0, TNum 0],
         [TInt 3, TInt 0, TInt 3, TNum 0, TNum 1, TNum 0, TNum 0]], None)"
  unfolding write_site_data_def ex3_sorted
  by (simp add: seq_def emit_def try_r_def bind_r_def
      site_row_def atom_line_def type_index_of_def ex_top3_def ex_top_def ex_site_def
      type_C_def type_H_def type_O_def AtomType_eq_lj_type lj_type_sel fmt_g8_0 fmt_g8_1
      real_units_def py_round_def round_half_even_def)

lemma ex3_index_list:
  "conn_index_list ex_ext ex_top3 Bond = Inr [[''C'', ''H''], [''H'', ''O'']]"
  "conn_index_list ex_ext ex_top3_permuted Bond = Inr [[''C'', ''H''], [''H'', ''O'']]"
  unfolding conn_index_list_def member_tuples_def ex3_bond_types
  by (simp_all add: bind_r_def ex_ext_def ex_bond_type_def ex_bond_type_OH_def)

lemma ex3_conn_data:
  "write_conn_data ex_ext ex_top3 Bond
     = ([[], [TStr ''Bonds''], [],
         [TInt 1, TInt 1, TInt 1, TInt 2],
         [TInt 2, TInt 2, TInt 3, TInt 2]], None)"
  unfolding write_conn_data_def ex3_index_list
  by (simp add: seq_def emit_def try_r_def bind_r_def
      conn_row_def site_index_def conns_def kind_caps_def ex_top3_def ex_top_def ex_site_def
      ex_ext_def ex_bond_type_def ex_bond_type_OH_def)

text \<open>
  C2, as the claim states it, fails: the scenario topology and the same topology with
  its two sites added in the other order are written to different files. The first
  row of the Atoms section is \<open>1 0 1 0 0 0 0\<close> for the one and \<open>1 0 2 0 1 0 0\<close> for
  the other.
\<close>

theorem site_order_counterexample:
  "mset (sites ex_top_permuted) = mset (sites ex_top)
   \<and> bonds ex_top_permuted = bonds ex_top
   \<and> fst (write_lammpsdata ex_ext ex_world ex_top ''out.lammps'' ''full'' ''real''
            False False None) = None
   \<and> fst (write_lammpsdata ex_ext ex_world ex_top_permuted ''out.lammps'' ''full'' ''real''
            False False None) = None
   \<and> map_option (\<lambda>ls. ls ! 32)
        (w_files (snd (write_lammpsdata ex_ext ex_world ex_top ''out.lammps'' ''full'' ''real''
                         False False None)) ''out.lammps'')
       = Some [TInt 1, TInt 0, TInt 1, TNum 0, TNum 0, TNum 0, TNum 0]
   \<and> map_option (\<lambda>ls. ls ! 32)
        (w_files (snd (write_lammpsdata ex_ext ex_world ex_top_permuted ''out.lammps'' ''full''
                         ''real'' False False None)) ''out.lammps'')
       = Some [TInt 1, TInt 0, TInt 2, TNum 0, TNum 1, TNum 0, TNum 0]
   \<and> w_files (snd (write_lammpsdata ex_ext ex_world ex_top ''out.lammps'' ''full'' ''real''
                      False False None)) ''out.lammps''
       \<noteq> w_files (snd (write_lammpsdata ex_ext ex_world ex_top_permuted ''out.lammps'' ''full''
                         ''real'' False False None)) ''out.lammps''"
  by (simp add: write_lammpsdata_def supported_unit_styles_def default_parameterMaps_def
      ex_world_def writer_defs ex_eval)

text \<open>
  C2 (amended). Take two topologies with the same unique atom types and the same
  unique connection types of every kind, in any order, whose sort keys are distinct
  (the atom type names; the sorted member names of the bond types; the key of the angle
  types; the reordered member tuples of every kind), and whose coefficient tables get
  the same title and label lines (these are taken from the first site and from the
  first connection of each kind). Then the Masses, Pair Coeffs, Bond Coeffs, Angle
  Coeffs, Dihedral Coeffs and Improper Coeffs tables are the same for both, and so are
  the atom type index of every site and the list from which each connection row takes
  its type index. The rows of the Atoms section and of the connection sections follow
  the insertion order: row \<open>i\<close> is computed from the \<open>i\<close>-th site or connection with the
  index \<open>i + 1\<close>, so permuting sites or connections changes them.
\<close>

theorem canonical_type_order:
  assumes "mset (e_atom_types_uniq x t2) = mset (e_atom_types_uniq x t1)"
    and "distinct (map at_name (e_atom_types_uniq x t1))"
    and "\<forall>k. mset (e_types_uniq x k t2) = mset (e_types_uniq x k t1)"
    and "distinct_keys bond_key (e_types_uniq x Bond t1)"
    and "distinct_keys angle_key (e_types_uniq x Angle t1)"
    and "\<forall>k. distinct_member_keys x t1 k"
    and "pair_header b (first_site_type t2) = pair_header b (first_site_type t1)"
    and "table_header b [''k'', ''r_eq''] (first_conn_type (bonds t2))
         = table_header b [''k'', ''r_eq''] (first_conn_type (bonds t1))"
    and "table_header b [''k'', ''theta_eq''] (first_conn_type (angles t2))
         = table_header b [''k'', ''theta_eq''] (first_conn_type (angles t1))"
    and "table_header b [''k1'', ''k2'', ''k3'', ''k4''] (first_conn_type (dihedrals t2))
         = table_header b [''k1'', ''k2'', ''k3'', ''k4''] (first_conn_type (dihedrals t1))"
    and "table_header b [''k'', ''phi_eq''] (first_conn_type (impropers t2))
         = table_header b [''k'', ''phi_eq''] (first_conn_type (impropers t1))"
  shows "write_atomtypes x t2 b cf = write_atomtypes x t1 b cf
       \<and> write_pairtypes x t2 b cf = write_pairtypes x t1 b cf
       \<and> write_bondtypes x t2 b cf = write_bondtypes x t1 b cf
       \<and> write_angletypes x t2 b cf = write_angletypes x t1 b cf
       \<and> write_dihedraltypes x t2 b cf = write_dihedraltypes x t1 b cf
       \<and> write_impropertypes x t2 b cf = write_impropertypes x t1 b cf
       \<and> (\<forall>s. type_index_of x (atom_types_sorted x t2) s
               = type_index_of x (atom_types_sorted x t1) s)
       \<and> (\<forall>k. conn_index_list x t2 k = conn_index_list x t1 k)
       \<and> (\<forall>ls. write_site_data x t1 atom_style b cf = (ls, None) \<longrightarrow>
             length ls = 3 + length (sites t1)
             \<and> (\<forall>i < length (sites t1).
                   site_row x atom_style b cf (atom_types_sorted x t1) i (sites t1 ! i)
                     = Inr (ls ! (3 + i))))
       \<and> (\<forall>k ls. write_conn_data x t1 k = (ls, None) \<longrightarrow>
             (\<exists>indexList. conn_index_list x t1 k = Inr indexList
                \<and> length ls = 3 + length (conns k t1)
                \<and> (\<forall>i < length (conns k t1).
                      conn_row x t1 indexList i (conns k t1 ! i) = Inr (ls ! (3 + i)))))"
proof -
  note srt = atom_types_sorted_mset [OF assms(1,2)]
  have a: "write_atomtypes x t2 b cf = write_atomtypes x t1 b cf"
    by (simp add: write_atomtypes_def srt)
  note p = write_pairtypes_canonical [OF srt assms(7), of cf]
  from assms(3) have m: "mset (e_types_uniq x k t2) = mset (e_types_uniq x k t1)" for k
    by simp
  from assms(6) have dk: "distinct_member_keys x t1 k" for k by simp
  note bo = write_bondtypes_canonical [OF m assms(4,8), of cf]
  note an = write_angletypes_canonical [OF m assms(5,9), of cf]
  note di = write_dihedraltypes_canonical [OF m dk assms(10), of cf]
  note im = write_impropertypes_canonical [OF m dk assms(11), of cf]
  have ti: "\<forall>s. type_index_of x (atom_types_sorted x t2) s
               = type_index_of x (atom_types_sorted x t1) s"
    by (simp add: srt)
  have ci: "\<forall>k. conn_index_list x t2 k = conn_index_list x t1 k"
    using conn_index_list_canonical [OF m dk] by simp
  have sr: "\<forall>ls. write_site_data x t1 atom_style b cf = (ls, None) \<longrightarrow>
             length ls = 3 + length (sites t1)
             \<and> (\<forall>i < length (sites t1).
                   site_row x atom_style b cf (atom_types_sorted x t1) i (sites t1 ! i)
                     = Inr (ls ! (3 + i)))"
    using write_site_data_rows by blast
  have cr: "\<forall>k ls. write_conn_data x t1 k = (ls, None) \<longrightarrow>
             (\<exists>indexList. conn_index_list x t1 k = Inr indexList
                \<and> length ls = 3 + length (conns k t1)
                \<and> (\<forall>i < length (conns k t1).
                      conn_row x t1 indexList i (conns k t1 ! i) = Inr (ls ! (3 + i))))"
    using write_conn_data_rows by blast
  from a p bo an di im ti ci sr cr show ?thesis by blast
qed

theorem canonical_type_order_witness:
  "e_types_uniq ex_ext Bond ex_top3 = [ex_bond_type, ex_bond_type_OH]
   \<and> e_types_uniq ex_ext Bond ex_top3_permuted = [ex_bond_type_OH, ex_bond_type]
   \<and> e_atom_types_uniq ex_ext ex_top3_permuted \<noteq> e_atom_types_uniq ex_ext ex_top3
   \<and> write_atomtypes ex_ext ex_top3_permuted real_units None
       = write_atomtypes ex_ext ex_top3 real_units None
   \<and> write_pairtypes ex_ext ex_top3_permuted real_units None
       = write_pairtypes ex_ext ex_top3 real_units None
   \<and> write_bondtypes ex_ext ex_top3_permuted real_units None
       = write_bondtypes ex_ext ex_top3 real_units None
   \<and> type_index_of ex_ext (atom_types_sorted ex_ext ex_top3_permuted) (ex_site 2 type_O 1)
       = type_index_of ex_ext (atom_types_sorted ex_ext ex_top3) (ex_site 2 type_O 1)
   \<and> conn_index_list ex_ext ex_top3_permuted Bond = Inr [[''C'', ''H''], [''H'', ''O'']]
   \<and> site_row ex_ext ''full'' real_units None (atom_types_sorted ex_ext ex_top3) 2
         (ex_site 2 type_O 1)
       = Inr [TInt 3, TInt 0, TInt 3, TNum 0, TNum 1, TNum 0, TNum 0]
   \<and> conn_row ex_ext ex_top3 [[''C'', ''H''], [''H'', ''O'']] 1
         \<lparr>c_members = [2, 1], c_type = Some ex_bond_type_OH\<rparr>
       = Inr [TInt 2, TInt 2, TInt 3, TInt 2]"
proof -
  have ne: "type_O \<noteq> type_C"
    by (simp add: type_C_def type_O_def lj_type_def default_atom_type_def)
  have a1: "mset (e_atom_types_uniq ex_ext ex_top3_permuted)
            = mset (e_atom_types_uniq ex_ext ex_top3)"
    by (simp add: ex3_atom_types add_mset_commute)
  have a2: "distinct (map at_name (e_atom_types_uniq ex_ext ex_top3))"
    by (simp add: ex3_atom_types type_C_def type_H_def type_O_def lj_type_sel)
  have c1: "\<forall>k. mset (e_types_uniq ex_ext k ex_top3_permuted)
                = mset (e_types_uniq ex_ext k ex_top3)"
  proof
    fix k show "mset (e_types_uniq ex_ext k ex_top3_permuted) = mset (e_types_uniq ex_ext k ex_top3)"
      by (cases "k = Bond") (simp_all add: ex3_bond_types ex3_other_types add_mset_commute)
  qed
  have kb: "distinct_keys bond_key (e_types_uniq ex_ext Bond ex_top3)"
    by (simp add: distinct_keys_def bond_key_def ex3_bond_types bind_r_def member_types_of_def
        ex_bond_type_def ex_bond_type_OH_def)
  have ka: "distinct_keys angle_key (e_types_uniq ex_ext Angle ex_top3)"
    by (simp add: distinct_keys_def ex3_other_types)
  have km: "\<forall>k. distinct_member_keys ex_ext ex_top3 k"
  proof
    fix k show "distinct_member_keys ex_ext ex_top3 k"
    proof (cases "k = Bond")
      case True
      have "distinct_member_keys ex_ext ex_top3 Bond"
        unfolding distinct_member_keys_def member_tuples_def ex3_bond_types
        by (simp add: distinct_keys_def ex_ext_def ex_bond_type_def ex_bond_type_OH_def)
      with True show ?thesis by simp
    next
      case False
      then show ?thesis
        by (simp add: distinct_member_keys_def member_tuples_def distinct_keys_def
            ex3_other_types)
    qed
  qed
  have hp: "pair_header real_units (first_site_type ex_top3_permuted)
            = pair_header real_units (first_site_type ex_top3)"
    by (simp add: pair_header_def first_site_type_def ex3_defs ex_top_def ex_site_def
        type_C_def lj_type_sel param_labels_def py_getitem_def bind_r_def
        write_out_parameter_and_units_def)
  have hb: "table_header real_units [''k'', ''r_eq''] (first_conn_type (bonds ex_top3_permuted))
         = table_header real_units [''k'', ''r_eq''] (first_conn_type (bonds ex_top3))"
    by (simp add: table_header_def first_conn_type_def ex3_defs ex_top_def ex_bond_type_def
        param_labels_def py_getitem_def bind_r_def write_out_parameter_and_units_def)
  have ho: "table_header real_units ks (first_conn_type (angles ex_top3_permuted))
         = table_header real_units ks (first_conn_type (angles ex_top3))"
    "table_header real_units ks (first_conn_type (dihedrals ex_top3_permuted))
         = table_header real_units ks (first_conn_type (dihedrals ex_top3))"
    "table_header real_units ks (first_conn_type (impropers ex_top3_permuted))
         = table_header real_units ks (first_conn_type (impropers ex_top3))" for ks
    by (simp_all add: ex3_defs ex_top_def)
  note t = canonical_type_order [OF a1 a2 c1 kb ka km hp hb ho, of None "''full''"]
  from t have w: "write_atomtypes ex_ext ex_top3_permuted real_units None
       = write_atomtypes ex_ext ex_top3 real_units None
   \<and> write_pairtypes ex_ext ex_top3_permuted real_units None
       = write_pairtypes ex_ext ex_top3 real_units None
   \<and> write_bondtypes ex_ext ex_top3_permuted real_units None
       = write_bondtypes ex_ext ex_top3 real_units None
   \<and> type_index_of ex_ext (atom_types_sorted ex_ext ex_top3_permuted) (ex_site 2 type_O 1)
       = type_index_of ex_ext (atom_types_sorted ex_ext ex_top3) (ex_site 2 type_O 1)
   \<and> conn_index_list ex_ext ex_top3_permuted Bond = conn_index_list ex_ext ex_top3 Bond"
    by blast
  have s2: "2 < length (sites ex_top3)" "sites ex_top3 ! 2 = ex_site 2 type_O 1"
    by (simp_all add: ex_top3_def ex_top_def)
  have b1: "1 < length (conns Bond ex_top3)"
    "conns Bond ex_top3 ! 1 = \<lparr>c_members = [2, 1], c_type = Some ex_bond_type_OH\<rparr>"
    by (simp_all add: conns_def ex_top3_def ex_top_def)
  from t ex3_site_data
  have r0: "\<forall>i < length (sites ex_top3).
          site_row ex_ext ''full'' real_units None (atom_types_sorted ex_ext ex_top3) i
             (sites ex_top3 ! i)
           = Inr ([[], [TStr ''Atoms'', TStr ''#full''], [],
         [TInt 1, TInt 0, TInt 1, TNum 0, TNum 0, TNum 0, TNum 0],
         [TInt 2, TInt 0, TInt 2, TNum 0, TNum 1, TNum 0, TNum 0],
         [TInt 3, TInt 0, TInt 3, TNum 0, TNum 1, TNum 0, TNum 0]] ! (3 + i))"
    by blast
  from r0 [rule_format, OF s2(1)]
  have sr: "site_row ex_ext ''full'' real_units None (atom_types_sorted ex_ext ex_top3) 2
         (ex_site 2 type_O 1)
       = Inr [TInt 3, TInt 0, TInt 3, TNum 0, TNum 1, TNum 0, TNum 0]"
    by (simp add: s2(2))
  from t ex3_conn_data ex3_index_list(1)
  have r1: "\<forall>i < length (conns Bond ex_top3).
          conn_row ex_ext ex_top3 [[''C'', ''H''], [''H'', ''O'']] i (conns Bond ex_top3 ! i)
           = Inr ([[], [TStr ''Bonds''], [],
         [TInt 1, TInt 1, TInt 1, TInt 2],
         [TInt 2, TInt 2, TInt 3, TInt 2]] ! (3 + i))"
    by fastforce
  from r1 [rule_format, OF b1(1)] b1(2)
  have cr: "conn_row ex_ext ex_top3 [[''C'', ''H''], [''H'', ''O'']] 1
         \<lparr>c_members = [2, 1], c_type = Some ex_bond_type_OH\<rparr>
       = Inr [TInt 2, TInt 2, TInt 3, TInt 2]"
    by simp
  from w sr cr ne show ?thesis
    by (simp add: ex3_bond_types ex3_atom_types ex3_index_list)
qed

section \<open>Triclinic boxes\<close>













end
